theory Spec2Isabelle
  imports Complex_Main "HOL-Library.AList" "HOL-Library.Char_ord" "HOL-Library.List_Lexorder"
    "HOL-Library.Product_Lexorder" "HOL-Library.Multiset"
begin

section \<open>Python values used by the engine\<close>

text \<open>
  Python floats are modelled as reals: the development is about the geometry of the
  engine, so the rounding of binary floating point is left out; infinities and NaN are
  not values of the model. Python integers are \<open>int\<close>. A Python \<open>str\<close> is a
  \<open>string\<close> whose characters are code points below 256. A Python \<open>dict\<close> is an
  association list in insertion order; lookup is \<open>map_of\<close>, assignment is
  \<open>AList.update\<close> (a present key keeps its place, a new key goes to the end).
\<close>

type_synonym ('k, 'v) dict = "('k \<times> 'v) list"

datatype error = ValueError | IndexError | TypeError | OverflowError | RuntimeError | UnboundLocalError

text \<open>\<open>x % 360.0\<close>: the result has the sign of the divisor.\<close>

definition py_mod :: "real \<Rightarrow> real \<Rightarrow> real" where
  "py_mod x m = x - m * of_int \<lfloor>x / m\<rfloor>"

text \<open>\<open>round(x)\<close>: to the nearest integer, a tie to the even neighbour.\<close>

definition py_round :: "real \<Rightarrow> int" where
  "py_round x =
     (let f = \<lfloor>x\<rfloor>; d = x - of_int f
      in if d < 1 / 2 then f else if 1 / 2 < d then f + 1 else if even f then f else f + 1)"

text \<open>\<open>round(x, n)\<close> for \<open>n\<close> decimal places.\<close>

definition py_round_n :: "real \<Rightarrow> nat \<Rightarrow> real" where
  "py_round_n x n = of_int (py_round (x * 10 ^ n)) / 10 ^ n"

text \<open>\<open>int(x)\<close> on a float truncates towards zero.\<close>

definition py_trunc :: "real \<Rightarrow> int" where
  "py_trunc x = (if 0 \<le> x then \<lfloor>x\<rfloor> else \<lceil>x\<rceil>)"

section \<open>Angle normalisation (scanner.py, \<open>_normalize_angle\<close>)\<close>

text \<open>
  The source has two loops: \<open>while angle < 0: angle += 360\<close> and then
  \<open>while angle >= 360: angle -= 360\<close>. The same two loops open
  \<open>_decimal_to_dms\<close> in engine.py.
\<close>

function while_add_360 :: "real \<Rightarrow> real" where
  "while_add_360 angle = (if angle < 0 then while_add_360 (angle + 360) else angle)"
  by pat_completeness auto
termination
proof (relation "measure (\<lambda>a. nat \<lceil>- a / 360\<rceil>)")
  show "wf (measure (\<lambda>a. nat \<lceil>- a / 360\<rceil>))" by simp
next
  fix angle :: real
  assume neg: "angle < 0"
  have step: "\<lceil>- (angle + 360) / 360\<rceil> = \<lceil>- angle / 360\<rceil> - 1"
  proof -
    have eq: "- (angle + 360) / 360 = - angle / 360 - 1" by (simp add: field_simps)
    show ?thesis unfolding eq by (rule ceiling_diff_one)
  qed
  have pos: "0 < \<lceil>- angle / 360\<rceil>" using neg by (simp add: ceiling_less_iff)
  show "(angle + 360, angle) \<in> measure (\<lambda>a. nat \<lceil>- a / 360\<rceil>)"
    unfolding in_measure step using pos by arith
qed

function while_sub_360 :: "real \<Rightarrow> real" where
  "while_sub_360 angle = (if 360 \<le> angle then while_sub_360 (angle - 360) else angle)"
  by pat_completeness auto
termination
proof (relation "measure (\<lambda>a. nat \<lfloor>a / 360\<rfloor>)")
  show "wf (measure (\<lambda>a. nat \<lfloor>a / 360\<rfloor>))" by simp
next
  fix angle :: real
  assume big: "360 \<le> angle"
  have step: "\<lfloor>(angle - 360) / 360\<rfloor> = \<lfloor>angle / 360\<rfloor> - 1"
  proof -
    have eq: "(angle - 360) / 360 = angle / 360 - 1" by (simp add: field_simps)
    show ?thesis unfolding eq by (rule floor_diff_one)
  qed
  have pos: "1 \<le> \<lfloor>angle / 360\<rfloor>" using big by (simp add: le_floor_iff)
  show "(angle - 360, angle) \<in> measure (\<lambda>a. nat \<lfloor>a / 360\<rfloor>)"
    unfolding in_measure step using pos by arith
qed

definition normalize_angle :: "real \<Rightarrow> real" where
  "normalize_angle angle = while_sub_360 (while_add_360 angle)"

section \<open>Formatting helpers\<close>

text \<open>The decimal digits of a Python integer, as \<open>str(i)\<close> and an f-string print it.\<close>

definition digit_char :: "nat \<Rightarrow> char" where
  "digit_char d = ''0123456789'' ! d"

function str_nat :: "nat \<Rightarrow> string" where
  "str_nat n = (if n < 10 then [digit_char n] else str_nat (n div 10) @ [digit_char (n mod 10)])"
  by pat_completeness auto
termination
  by (relation "measure (\<lambda>n. n)") auto

definition str_int :: "int \<Rightarrow> string" where
  "str_int i = (if i < 0 then CHR ''-'' # str_nat (nat (- i)) else str_nat (nat i))"

text \<open>The format \<open>{min:02d}\<close>: at least two characters, padded with zeros on the left.\<close>

definition fmt_02d :: "int \<Rightarrow> string" where
  "fmt_02d i = (let s = str_int i in if length s < 2 then replicate (2 - length s) CHR ''0'' @ s else s)"

section \<open>Charts (engine.py)\<close>

text \<open>
  The entry of one body in a chart's \<open>planets\<close> dictionary. A field is \<open>None\<close> when
  the Python value is \<open>None\<close> or the key is absent (the source reads these fields with
  \<open>.get\<close>, which does not tell the two apart).
\<close>

record planet_data =
  longitude :: "real option"
  speed :: "real option"
  distance :: "real option"
  zodiac_sign :: "string option"
  formatted_pos :: "string option"
  house :: "int option"

text \<open>What \<open>_decimal_to_dms\<close> returns: the keys \<open>sign\<close>, \<open>deg\<close>, \<open>min\<close>, \<open>str\<close>.\<close>

record dms =
  dms_sign :: string
  dms_deg :: int
  dms_min :: int
  dms_str :: string

definition signs :: "string list" where
  "signs = [''Aries'', ''Taurus'', ''Gemini'', ''Cancer'', ''Leo'', ''Virgo'',
            ''Libra'', ''Scorpio'', ''Sagittarius'', ''Capricorn'', ''Aquarius'', ''Pisces'']"

text \<open>
  \<open>_decimal_to_dms\<close>. After the two loops the longitude is in [0,360), so
  \<open>int(longitude / 30)\<close> is an index from 0 to 11 and \<open>signs[sign_index]\<close> cannot
  raise. The degree sign of the formatted string is the code point 176.
\<close>

definition decimal_to_dms :: "real \<Rightarrow> dms" where
  "decimal_to_dms lng =
     (let l = while_sub_360 (while_add_360 lng);
          sign_index = py_trunc (l / 30);
          degrees_in_sign = py_mod l 30;
          d = py_trunc degrees_in_sign;
          minutes_decimal = (degrees_in_sign - of_int d) * 60;
          m = py_round minutes_decimal;
          (sign_index', d', m') =
             (if 60 \<le> m
              then (if 30 \<le> d + 1 then ((sign_index + 1) mod 12, 0, 0) else (sign_index, d + 1, 0))
              else (sign_index, d, m));
          sgn_name = signs ! nat sign_index'
      in \<lparr>dms_sign = sgn_name, dms_deg = d', dms_min = m',
          dms_str = sgn_name @ '' '' @ str_int d' @ [CHR 0xB0] @ fmt_02d m' @ [CHR 39]\<rparr>)"

section \<open>The House Mapper (engine.py, \<open>_get_planet_house\<close>)\<close>

definition house_name :: "int \<Rightarrow> string" where
  "house_name i = ''House'' @ str_int i"

text \<open>
  The list of (house number, cusp) pairs for the keys \<open>House1\<close> to \<open>House12\<close> that
  the dictionary has, in that order, each cusp reduced modulo 360.
\<close>

definition house_cusp_list :: "(string, real) dict \<Rightarrow> (int \<times> real) list" where
  "house_cusp_list house_cusps =
     List.map_filter
       (\<lambda>i. case map_of house_cusps (house_name i) of
               None \<Rightarrow> None
             | Some c \<Rightarrow> Some (i, py_mod c 360))
       [1..12]"

text \<open>
  The test of the loop body for index \<open>i\<close>: does the house that starts at the
  \<open>i\<close>-th cusp of the list contain the point?
\<close>

definition in_house :: "(int \<times> real) list \<Rightarrow> nat \<Rightarrow> real \<Rightarrow> bool" where
  "in_house hcl i planet_lon =
     (let current_cusp = snd (hcl ! i);
          next_cusp = snd (hcl ! ((i + 1) mod length hcl))
      in if next_cusp < current_cusp
         then current_cusp \<le> planet_lon \<or> planet_lon < next_cusp
         else current_cusp \<le> planet_lon \<and> planet_lon < next_cusp)"

text \<open>The loop \<open>for i in range(len(house_cusp_list))\<close>, returning at the first match.\<close>

fun house_scan :: "(int \<times> real) list \<Rightarrow> real \<Rightarrow> nat list \<Rightarrow> int option" where
  "house_scan hcl planet_lon [] = None"
| "house_scan hcl planet_lon (i # rest) =
     (if in_house hcl i planet_lon then Some (fst (hcl ! i))
      else house_scan hcl planet_lon rest)"

text \<open>\<open>min(xs, key=f)\<close> on a non-empty list: the first element with the least key.\<close>

fun py_min_key :: "('a \<Rightarrow> real) \<Rightarrow> 'a \<Rightarrow> 'a list \<Rightarrow> 'a" where
  "py_min_key f best [] = best"
| "py_min_key f best (x # xs) = (if f x < f best then py_min_key f x xs else py_min_key f best xs)"

definition cusp_distance :: "real \<Rightarrow> int \<times> real \<Rightarrow> real" where
  "cusp_distance planet_lon x =
     min (min \<bar>snd x - planet_lon\<bar> \<bar>(snd x + 360) - planet_lon\<bar>) \<bar>snd x - (planet_lon + 360)\<bar>"

definition get_planet_house :: "real option \<Rightarrow> (string, real) dict \<Rightarrow> int option" where
  "get_planet_house planet_longitude house_cusps =
     (case planet_longitude of
        None \<Rightarrow> None
      | Some pl \<Rightarrow>
          if house_cusps = [] then None
          else
            let planet_lon = py_mod pl 360;
                hcl = house_cusp_list house_cusps
            in (case hcl of
                  [] \<Rightarrow> None
                | x # xs \<Rightarrow>
                    (case house_scan hcl planet_lon [0..<length hcl] of
                       Some h \<Rightarrow> Some h
                     | None \<Rightarrow> Some (fst (py_min_key (cusp_distance planet_lon) x xs)))))"

definition map_planet_to_natal_house :: "real \<Rightarrow> (string, real) dict \<Rightarrow> int" where
  "map_planet_to_natal_house planet_longitude natal_house_cusps =
     (case get_planet_house (Some planet_longitude) natal_house_cusps of
        None \<Rightarrow> 1
      | Some house_number \<Rightarrow> house_number)"

text \<open>
  A chart as \<open>calculate_chart\<close> builds it and as the scanner and the aspect
  calculators read it. The readers use \<open>.get\<close> with a default, so a key may be
  missing: such a key is \<open>None\<close> here. The \<open>angles\<close> dictionary built by
  \<open>calculate_chart\<close> has six keys; \<open>angles_houses\<close> stands for a key
  \<open>houses\<close> inside \<open>angles\<close>, which \<open>_find_house_for_position\<close> looks up.
\<close>

record angles_dict =
  Ascendant :: "real option"
  MC :: "real option"
  Ascendant_formatted :: string
  MC_formatted :: string
  Ascendant_sign :: string
  MC_sign :: string
  angles_houses :: "(string, real) dict option"

record chart =
  planets :: "(string, planet_data) dict option"
  houses :: "(string, real) dict option"
  angles :: "angles_dict option"
  julian_day :: real
  datetime_utc :: string
  timezone :: string
  datetime_local :: string
  location :: "real \<times> real"

text \<open>
  \<open>calculate_synastry_house_overlays\<close>: \<open>ValueError\<close> when the user's chart has
  no houses, otherwise one entry for each partner planet whose longitude is not
  \<open>None\<close>.
\<close>

definition overlay_step ::
  "(string, real) dict \<Rightarrow> string \<times> planet_data \<Rightarrow> (string, int) dict \<Rightarrow> (string, int) dict" where
  "overlay_step user_houses entry overlays =
     (case longitude (snd entry) of
        None \<Rightarrow> overlays
      | Some lng \<Rightarrow> AList.update (fst entry) (map_planet_to_natal_house lng user_houses) overlays)"

definition calculate_synastry_house_overlays ::
  "chart \<Rightarrow> (string, planet_data) dict \<Rightarrow> error + (string, int) dict" where
  "calculate_synastry_house_overlays user_natal_chart partner_planets =
     (let user_houses = (case houses user_natal_chart of None \<Rightarrow> [] | Some h \<Rightarrow> h)
      in if user_houses = [] then Inl ValueError
         else Inr (fold (overlay_step user_houses) partner_planets []))"

section \<open>Valid house cusps\<close>

text \<open>
  A dictionary has all twelve houses when each of the keys \<open>House1\<close> to
  \<open>House12\<close> is present. The cusps are valid when, in addition, each lies in [0,360)
  and they ascend strictly around the circle from house to house: some rotation of the
  list of the twelve cusps is strictly increasing. These are the cusps of a real chart.
\<close>

definition all_twelve_houses :: "(string, real) dict \<Rightarrow> bool" where
  "all_twelve_houses d = list_all (\<lambda>i. map_of d (house_name i) \<noteq> None) [1..12]"

definition cusp_of :: "(string, real) dict \<Rightarrow> int \<Rightarrow> real" where
  "cusp_of d i = the (map_of d (house_name i))"

definition cyc_ascending :: "real list \<Rightarrow> bool" where
  "cyc_ascending cs = list_ex (\<lambda>k. sorted_wrt (<) (rotate k cs)) [0..<length cs]"

definition valid_house_cusps :: "(string, real) dict \<Rightarrow> bool" where
  "valid_house_cusps d =
     (all_twelve_houses d \<and>
      list_all (\<lambda>i. 0 \<le> cusp_of d i \<and> cusp_of d i < 360) [1..12] \<and>
      cyc_ascending (map (cusp_of d) [1..12]))"

text \<open>Three concrete cusp dictionaries used below.\<close>

definition cusps_of_list :: "real list \<Rightarrow> (string, real) dict" where
  "cusps_of_list cs = zip (map house_name [1..12]) cs"

definition wrap_cusps :: "(string, real) dict" where
  "wrap_cusps = cusps_of_list [10, 40, 70, 100, 130, 160, 190, 220, 250, 280, 310, 350]"

definition unordered_cusps :: "(string, real) dict" where
  "unordered_cusps = cusps_of_list [10, 100, 50, 130, 160, 190, 220, 250, 280, 310, 330, 350]"

definition narrow_first_cusps :: "(string, real) dict" where
  "narrow_first_cusps = cusps_of_list [10, 12, 70, 100, 130, 160, 190, 220, 250, 280, 310, 350]"

text \<open>A chart and a partner's planets used to exercise the house overlay.\<close>

definition overlay_user_chart :: chart where
  "overlay_user_chart =
     \<lparr>planets = None, houses = Some wrap_cusps, angles = None, julian_day = 0,
      datetime_utc = [], timezone = ''UTC'', datetime_local = [], location = (0, 0)\<rparr>"

definition body_at :: "real option \<Rightarrow> planet_data" where
  "body_at l = \<lparr>longitude = l, speed = None, distance = None, zodiac_sign = None,
                 formatted_pos = None, house = None\<rparr>"

definition overlay_partner_planets :: "(string, planet_data) dict" where
  "overlay_partner_planets =
     [(''Sun'', body_at (Some 5)), (''Moon'', body_at None), (''Venus'', body_at (Some 15))]"

section \<open>The aspect calculators (aspects_engine.py)\<close>

definition outer_planets :: "string list" where
  "outer_planets = [''Uranus'', ''Neptune'', ''Pluto'']"

definition get_orb_for_aspect :: "string \<Rightarrow> string \<Rightarrow> string \<Rightarrow> bool \<Rightarrow> real" where
  "get_orb_for_aspect p1 p2 aspect_type use_wider_orbs =
     (let (major_orb, minor_orb, outer_major, outer_minor) =
            (if use_wider_orbs then (10, 6, 6, 5) else (8, 5, 5, 4));
          is_outer = (p1 \<in> set outer_planets \<or> p2 \<in> set outer_planets)
      in if aspect_type \<in> set [''conjunction'', ''opposition'', ''square'']
         then (if is_outer then outer_major else major_orb)
         else (if is_outer then outer_minor else minor_orb))"

definition calculate_angle :: "real \<Rightarrow> real \<Rightarrow> real" where
  "calculate_angle longitude1 longitude2 =
     (let diff = py_mod \<bar>longitude1 - longitude2\<bar> 360 in min diff (360 - diff))"

text \<open>The list of (name, ideal angle) pairs that each of the three inner loops runs over.\<close>

definition aspect_table :: "(string \<times> real) list" where
  "aspect_table =
     [(''conjunction'', 0), (''opposition'', 180), (''square'', 90), (''trine'', 120), (''sextile'', 60)]"

text \<open>
  An entry of a result list. \<open>calculate_transit_aspects_to_natal\<close> names the first two
  keys \<open>transit_planet\<close> and \<open>natal_planet\<close>; they are \<open>planet1\<close> and
  \<open>planet2\<close> here.
\<close>

record aspect_entry =
  planet1 :: string
  planet2 :: string
  aspect :: string
  angle :: real
  orb :: real

text \<open>The innermost loop for one pair of points: the aspect kinds within tolerance.\<close>

definition pair_aspects ::
  "bool \<Rightarrow> string \<Rightarrow> real \<Rightarrow> string \<Rightarrow> real \<Rightarrow> aspect_entry list" where
  "pair_aspects use_wider_orbs p1 lon1 p2 lon2 =
     (let ang = calculate_angle lon1 lon2
      in List.map_filter
           (\<lambda>(aspect_name, ideal).
              let dev = \<bar>ang - ideal\<bar>;
                  max_orb = get_orb_for_aspect p1 p2 aspect_name use_wider_orbs
              in if dev \<le> max_orb
                 then Some \<lparr>planet1 = p1, planet2 = p2, aspect = aspect_name,
                            angle = py_round_n ang 2, orb = py_round_n dev 2\<rparr>
                 else None)
           aspect_table)"

text \<open>The synastry loop has the extra guard \<open>if orb <= 180\<close> around the test.\<close>

definition synastry_pair_aspects ::
  "bool \<Rightarrow> string \<Rightarrow> real \<Rightarrow> string \<Rightarrow> real \<Rightarrow> aspect_entry list" where
  "synastry_pair_aspects use_wider_orbs p1 lon1 p2 lon2 =
     (let ang = calculate_angle lon1 lon2
      in List.map_filter
           (\<lambda>(aspect_name, ideal).
              let dev = \<bar>ang - ideal\<bar>
              in if dev \<le> 180
                 then (let max_orb = get_orb_for_aspect p1 p2 aspect_name use_wider_orbs
                       in if dev \<le> max_orb
                          then Some \<lparr>planet1 = p1, planet2 = p2, aspect = aspect_name,
                                     angle = py_round_n ang 2, orb = py_round_n dev 2\<rparr>
                          else None)
                 else None)
           aspect_table)"

text \<open>
  \<open>_calculate_aspects_between_points\<close>: every pair \<open>i < j\<close> of the dictionary's
  keys in order, then a stable sort by orb. The keys of a dictionary are distinct, so
  \<open>points[p]\<close> is the value listed with \<open>p\<close>.
\<close>

fun aspects_between :: "bool \<Rightarrow> (string, real) dict \<Rightarrow> aspect_entry list" where
  "aspects_between use_wider_orbs [] = []"
| "aspects_between use_wider_orbs (p # rest) =
     concat (map (\<lambda>q. pair_aspects use_wider_orbs (fst p) (snd p) (fst q) (snd q)) rest)
     @ aspects_between use_wider_orbs rest"

definition calculate_aspects_between_points :: "(string, real) dict \<Rightarrow> bool \<Rightarrow> aspect_entry list" where
  "calculate_aspects_between_points points use_wider_orbs =
     sort_key orb (aspects_between use_wider_orbs points)"

text \<open>The loop that collects the longitudes that are not \<open>None\<close> from a chart's planets.\<close>

definition collect_points :: "chart \<Rightarrow> (string, real) dict" where
  "collect_points c =
     fold (\<lambda>entry points.
             case longitude (snd entry) of
               None \<Rightarrow> points
             | Some lng \<Rightarrow> AList.update (fst entry) lng points)
          (case planets c of None \<Rightarrow> [] | Some ps \<Rightarrow> ps) []"

text \<open>The two assignments \<open>points["ASC"]\<close> and \<open>points["MC"]\<close>.\<close>

definition add_angles :: "chart \<Rightarrow> (string, real) dict \<Rightarrow> (string, real) dict" where
  "add_angles c points =
     (let asc = (case angles c of None \<Rightarrow> None | Some a \<Rightarrow> Ascendant a);
          mc = (case angles c of None \<Rightarrow> None | Some a \<Rightarrow> MC a);
          points1 = (case asc of None \<Rightarrow> points | Some v \<Rightarrow> AList.update ''ASC'' v points)
      in (case mc of None \<Rightarrow> points1 | Some v \<Rightarrow> AList.update ''MC'' v points1))"

definition calculate_natal_aspects :: "chart \<Rightarrow> bool \<Rightarrow> aspect_entry list" where
  "calculate_natal_aspects chart_data use_wider_orbs =
     calculate_aspects_between_points (add_angles chart_data (collect_points chart_data)) use_wider_orbs"

definition calculate_synastry_aspects :: "chart \<Rightarrow> chart \<Rightarrow> bool \<Rightarrow> aspect_entry list" where
  "calculate_synastry_aspects user_chart partner_chart use_wider_orbs =
     (let user_points = add_angles user_chart (collect_points user_chart);
          partner_points = collect_points partner_chart
      in sort_key orb
           (concat (map (\<lambda>p. concat (map (\<lambda>q.
                synastry_pair_aspects use_wider_orbs (fst p) (snd p) (fst q) (snd q)) partner_points))
              user_points)))"

definition calculate_transit_aspects_to_natal :: "chart \<Rightarrow> chart \<Rightarrow> bool \<Rightarrow> aspect_entry list" where
  "calculate_transit_aspects_to_natal natal_chart transit_chart use_wider_orbs =
     (let natal_points = collect_points natal_chart;
          transit_points = collect_points transit_chart
      in sort_key orb
           (concat (map (\<lambda>t. concat (map (\<lambda>n.
                pair_aspects use_wider_orbs (fst t) (snd t) (fst n) (snd n)) natal_points))
              transit_points)))"

text \<open>Two small charts used to exercise the calculators.\<close>

definition chart_of_planets :: "(string, planet_data) dict \<Rightarrow> chart" where
  "chart_of_planets ps =
     \<lparr>planets = Some ps, houses = None, angles = None, julian_day = 0,
      datetime_utc = [], timezone = ''UTC'', datetime_local = [], location = (0, 0)\<rparr>"

definition three_body_chart :: chart where
  "three_body_chart =
     chart_of_planets [(''Sun'', body_at (Some 0)), (''Moon'', body_at (Some 9)),
                       (''Mars'', body_at (Some 93))]"

definition two_body_chart :: chart where
  "two_body_chart = chart_of_planets [(''Venus'', body_at (Some 120)), (''Pluto'', body_at (Some 184.5))]"

section \<open>The transit aspect classifier (scanner.py, \<open>_calculate_aspect_exact\<close>)\<close>

definition ASPECTS :: "(string \<times> real) list" where
  "ASPECTS = [(''Conjunction'', 0), (''Sextile'', 60), (''Square'', 90), (''Trine'', 120),
              (''Opposition'', 180)]"

definition MAX_ORB_APPLYING :: real where
  "MAX_ORB_APPLYING = 1.5"

definition MAX_ORB_SEPARATING :: real where
  "MAX_ORB_SEPARATING = 1.0"

text \<open>The dictionary that \<open>_calculate_aspect_exact\<close> returns.\<close>

record aspect_info =
  info_aspect :: string
  angle_deg :: real
  info_orb :: real
  is_applying :: bool

text \<open>The shorter arc between two normalised longitudes.\<close>

definition arc_diff :: "real \<Rightarrow> real \<Rightarrow> real" where
  "arc_diff t n = (let raw_diff = \<bar>t - n\<bar> in min raw_diff (360 - raw_diff))"

text \<open>
  The loop over \<open>ASPECTS\<close>, with \<open>best_match\<close> as its state. The stored orb is
  rounded to four places, and the test \<open>orb < best_match["orb"]\<close> compares the new
  orb with that rounded value, as the source does.
\<close>

fun aspect_loop ::
  "real \<Rightarrow> real \<Rightarrow> real option \<Rightarrow> (string \<times> real) list \<Rightarrow> aspect_info option \<Rightarrow> aspect_info option" where
  "aspect_loop diff n prev_transit_long [] best_match = best_match"
| "aspect_loop diff n prev_transit_long (a # rest) best_match =
     (let aspect_name = fst a; aspect_angle = snd a;
          orb_now = \<bar>diff - aspect_angle\<bar>;
          applying =
            (case prev_transit_long of
               None \<Rightarrow> None
             | Some prev \<Rightarrow>
                 let prev_t = normalize_angle prev;
                     prev_diff = arc_diff prev_t n;
                     prev_orb = \<bar>prev_diff - aspect_angle\<bar>
                 in Some (orb_now < prev_orb));
          max_orb =
            (case applying of
               None \<Rightarrow> MAX_ORB_SEPARATING
             | Some ap \<Rightarrow> if ap then MAX_ORB_APPLYING else MAX_ORB_SEPARATING);
          found = \<lparr>info_aspect = aspect_name, angle_deg = aspect_angle,
                   info_orb = py_round_n orb_now 4,
                   is_applying = (case applying of None \<Rightarrow> False | Some ap \<Rightarrow> ap)\<rparr>;
          best_match' =
            (if orb_now \<le> max_orb
             then (case best_match of
                     None \<Rightarrow> Some found
                   | Some b \<Rightarrow> if orb_now < info_orb b then Some found else best_match)
             else best_match)
      in aspect_loop diff n prev_transit_long rest best_match')"

definition calculate_aspect_exact :: "real \<Rightarrow> real \<Rightarrow> real option \<Rightarrow> aspect_info option" where
  "calculate_aspect_exact transit_long natal_long prev_transit_long =
     (let t = normalize_angle transit_long;
          n = normalize_angle natal_long;
          diff = arc_diff t n
      in aspect_loop diff n prev_transit_long ASPECTS None)"

section \<open>The external collaborators\<close>

text \<open>
  Swiss Ephemeris, the timezone libraries and the date parsing and formatting of the
  Python standard library are not part of the repository. They are the fields of one
  record, and every theorem holds for every such record. An \<open>option\<close> result is
  \<open>None\<close> when the call raises.

  A naive \<open>datetime\<close> at midnight, as the scanner uses it, is its proleptic Gregorian
  ordinal (\<open>toordinal()\<close>): adding \<open>timedelta(days=1)\<close> adds one, and the result
  must stay between the ordinals of 0001-01-01 and 9999-12-31, otherwise Python raises
  \<open>OverflowError\<close>. A \<open>datetime\<close> with a time of day, as the engine uses it, is
  the record \<open>civil\<close>.
\<close>

datatype body = Sun | Moon | Mercury | Venus | Mars | Jupiter | Saturn | Uranus | Neptune | Pluto
  | TrueNode | Chiron

record civil =
  year :: int
  month :: int
  day :: int
  hour :: int
  minute :: int
  second :: int

datatype tz = TzName string | TzUTC | TzFixedOffset int

record platform =
  swe_calc_ut :: "real \<Rightarrow> body \<Rightarrow> ((real \<times> real \<times> real) \<times> int) option"
  swe_julday :: "int \<Rightarrow> int \<Rightarrow> int \<Rightarrow> real \<Rightarrow> real"
  swe_houses :: "real \<Rightarrow> real \<Rightarrow> real \<Rightarrow> (real list \<times> real list) option"
  swe_sol_eclipse_when_loc :: "real \<Rightarrow> real \<Rightarrow> real \<Rightarrow> (int \<times> real) option"
  swe_lun_eclipse_when :: "real \<Rightarrow> (int \<times> real) option"
  timezone_at :: "real \<Rightarrow> real \<Rightarrow> string option option"
  localize_to_utc :: "tz \<Rightarrow> civil \<Rightarrow> civil option"
  isoformat :: "civil \<Rightarrow> string"
  strptime_ymd :: "string \<Rightarrow> int option"
  strftime_ymd :: "int \<Rightarrow> string"
  ymd_of :: "int \<Rightarrow> int \<times> int \<times> int"
  date_fromtimestamp :: "real \<Rightarrow> int option"

text \<open>
  \<open>swe_calc_ut jd b\<close> is \<open>((xx[0], xx[3], xx[2]), ret_flag)\<close>: longitude, speed in
  longitude, distance, and the return flag. \<open>swe_houses jd lat lon\<close> is the pair of the
  cusp array and the \<open>ascmc\<close> array for the Placidus system.
  \<open>swe_sol_eclipse_when_loc start lat lon\<close> and \<open>swe_lun_eclipse_when start\<close> are
  \<open>(ret[0], ret[1][0])\<close>, searching forward. \<open>timezone_at lat lon\<close> is the result of
  \<open>TimezoneFinder.timezone_at\<close>. \<open>localize_to_utc z dt\<close> is
  \<open>z.localize(dt).astimezone(pytz.UTC)\<close>. \<open>strptime_ymd s\<close> is
  \<open>datetime.strptime(s, "%Y-%m-%d")\<close>, \<open>strftime_ymd d\<close> is
  \<open>d.strftime("%Y-%m-%d")\<close>, \<open>ymd_of d\<close> gives the attributes \<open>year\<close>,
  \<open>month\<close>, \<open>day\<close>, and \<open>date_fromtimestamp ts\<close> is the ordinal of
  \<open>datetime.fromtimestamp(ts).date()\<close>.
\<close>

definition MIN_ORDINAL :: int where
  "MIN_ORDINAL = 1"

definition MAX_ORDINAL :: int where
  "MAX_ORDINAL = 3652059"

definition add_days :: "int \<Rightarrow> int \<Rightarrow> error + int" where
  "add_days d n = (if MIN_ORDINAL \<le> d + n \<and> d + n \<le> MAX_ORDINAL then Inr (d + n) else Inl OverflowError)"

section \<open>Events (scanner.py)\<close>

text \<open>
  An event is a dictionary; each constructor is one of the shapes the scanner appends,
  its arguments the values of the keys in the order of the source. The key \<open>type\<close>
  is given by \<open>ev_type\<close>.
\<close>

datatype event =
    Retrograde (ev_date: string) (ev_planet: string) (ev_direction: string) (ev_event: string)
      (ev_description: string) (ev_position: string)
  | Eclipse (ev_date: string) (ev_planet: string) (ev_event: string) (ev_position: string)
  | Lunation (ev_date: string) (ev_planet: string) (ev_event: string) (ev_position: string)
  | Ingress (ev_date: string) (ev_planet: string) (ev_sign: string) (ev_event: string)
      (ev_description: string) (ev_position: string)
  | Transit (ev_date: string) (ev_target: string) (ev_planet: string) (ev_natal_planet: string)
      (ev_aspect: string) (ev_angle_deg: real) (ev_orb: real) (ev_is_applying: bool)
      (ev_transit_position: string) (ev_natal_position: string) (ev_house_impact: string)
      (ev_description: string)

fun ev_type :: "event \<Rightarrow> string" where
  "ev_type (Retrograde _ _ _ _ _ _) = ''RETROGRADE''"
| "ev_type (Eclipse _ _ _ _) = ''ECLIPSE''"
| "ev_type (Lunation _ _ _ _) = ''LUNATION''"
| "ev_type (Ingress _ _ _ _ _ _) = ''INGRESS''"
| "ev_type (Transit _ _ _ _ _ _ _ _ _ _ _ _) = ''TRANSIT''"

section \<open>The Transit Scanner (scanner.py)\<close>

definition RETROGRADE_PLANETS :: "(string \<times> body) list" where
  "RETROGRADE_PLANETS =
     [(''Mercury'', Mercury), (''Venus'', Venus), (''Mars'', Mars), (''Jupiter'', Jupiter),
      (''Saturn'', Saturn), (''Uranus'', Uranus), (''Neptune'', Neptune), (''Pluto'', Pluto)]"

definition TRANSIT_PLANETS :: "(string \<times> body) list" where
  "TRANSIT_PLANETS =
     [(''Mars'', Mars), (''Jupiter'', Jupiter), (''Saturn'', Saturn), (''Uranus'', Uranus),
      (''Neptune'', Neptune), (''Pluto'', Pluto)]"

definition INGRESS_PLANETS :: "(string \<times> body) list" where
  "INGRESS_PLANETS =
     [(''Sun'', Sun), (''Moon'', Moon), (''Mercury'', Mercury), (''Venus'', Venus), (''Mars'', Mars),
      (''Jupiter'', Jupiter), (''Saturn'', Saturn), (''Uranus'', Uranus), (''Neptune'', Neptune),
      (''Pluto'', Pluto)]"

definition natal_targets :: "string list" where
  "natal_targets = [''Sun'', ''Moon'', ''Mercury'', ''Venus'', ''Mars'', ''Jupiter'', ''Saturn'',
                    ''Uranus'', ''Neptune'', ''Pluto'']"

text \<open>\<open>_datetime_to_jd\<close> for a datetime at midnight: the decimal hour is 0.\<close>

definition datetime_to_jd :: "platform \<Rightarrow> int \<Rightarrow> real" where
  "datetime_to_jd P dt =
     (let (y, m, d) = ymd_of P dt;
          decimal_hour = 0 + 0 / 60 + 0 / 3600
      in swe_julday P y m d decimal_hour)"

text \<open>
  \<open>_get_planet_position\<close>: longitude and speed, or \<open>RuntimeError\<close> when the
  ephemeris raises. The block that checks Jupiter's sign in 2026 only prints a warning and
  is left out.
\<close>

definition get_planet_position :: "platform \<Rightarrow> real \<Rightarrow> body \<Rightarrow> error + (real \<times> real)" where
  "get_planet_position P jd planet_id =
     (case swe_calc_ut P jd planet_id of
        None \<Rightarrow> Inl RuntimeError
      | Some (xx, flag) \<Rightarrow> Inr (fst xx, fst (snd xx)))"

text \<open>
  \<open>_detect_retrograde_stations\<close>. The state is the event list and
  \<open>self.prev_speeds\<close>. An exception inside the \<open>try\<close> skips the planet,
  the assignment to \<open>prev_speeds\<close> included.
\<close>

definition retrograde_step ::
  "platform \<Rightarrow> int \<Rightarrow> string \<times> body \<Rightarrow> event list \<times> (string \<rightharpoonup> real)
     \<Rightarrow> event list \<times> (string \<rightharpoonup> real)" where
  "retrograde_step P dt pl st =
     (let planet_name = fst pl; planet_id = snd pl; events = fst st; prev_speeds = snd st;
          jd = datetime_to_jd P dt
      in case get_planet_position P jd planet_id of
           Inl e \<Rightarrow> st
         | Inr (lng0, spd) \<Rightarrow>
             (case prev_speeds planet_name of
                None \<Rightarrow> (events, prev_speeds(planet_name \<mapsto> spd))
              | Some prev_speed \<Rightarrow>
                  if 0 < prev_speed \<and> spd < 0 then
                    (case get_planet_position P jd planet_id of
                       Inl e \<Rightarrow> st
                     | Inr (lng, spd1) \<Rightarrow>
                         let pos_data = decimal_to_dms lng
                         in (events @
                               [Retrograde (strftime_ymd P dt) planet_name ''retrograde''
                                  (planet_name @ '' turns Retrograde in '' @ dms_sign pos_data)
                                  (planet_name @ '' turns Retrograde in '' @ dms_sign pos_data)
                                  (dms_str pos_data)],
                             prev_speeds(planet_name \<mapsto> spd)))
                  else if prev_speed < 0 \<and> 0 < spd then
                    (case get_planet_position P jd planet_id of
                       Inl e \<Rightarrow> st
                     | Inr (lng, spd1) \<Rightarrow>
                         let pos_data = decimal_to_dms lng
                         in (events @
                               [Retrograde (strftime_ymd P dt) planet_name ''direct''
                                  (planet_name @ '' turns Direct in '' @ dms_sign pos_data)
                                  (planet_name @ '' turns Direct in '' @ dms_sign pos_data)
                                  (dms_str pos_data)],
                             prev_speeds(planet_name \<mapsto> spd)))
                  else (events, prev_speeds(planet_name \<mapsto> spd))))"

definition detect_retrograde_stations ::
  "platform \<Rightarrow> int \<Rightarrow> event list \<times> (string \<rightharpoonup> real) \<Rightarrow> event list \<times> (string \<rightharpoonup> real)" where
  "detect_retrograde_stations P dt st = fold (retrograde_step P dt) RETROGRADE_PLANETS st"

text \<open>
  The eclipse check inside a lunation window: the search starts one day earlier; a hit
  counts when its return flag is not negative and its local calendar date is at most
  one day from the scanned day. An exception inside the inner \<open>try\<close> is swallowed.
\<close>

definition eclipse_near :: "platform \<Rightarrow> (int \<times> real) option \<Rightarrow> int \<Rightarrow> bool" where
  "eclipse_near P ret dt =
     (case ret of
        None \<Rightarrow> False
      | Some (flag, eclipse_jd) \<Rightarrow>
          if 0 \<le> flag then
            (let days_since_epoch = eclipse_jd - 2440587.5;
                 eclipse_timestamp = days_since_epoch * 86400
             in case date_fromtimestamp P eclipse_timestamp of
                  None \<Rightarrow> False
                | Some eclipse_date \<Rightarrow> \<bar>eclipse_date - dt\<bar> \<le> 1)
          else False)"

text \<open>\<open>_detect_lunations_and_eclipses\<close>: the events it appends for one day.\<close>

definition detect_lunations_and_eclipses ::
  "platform \<Rightarrow> int \<Rightarrow> real \<Rightarrow> real \<Rightarrow> event list \<Rightarrow> event list" where
  "detect_lunations_and_eclipses P dt lat lon events =
     (let jd = datetime_to_jd P dt
      in case get_planet_position P jd Sun of
           Inl e \<Rightarrow> events
         | Inr (sun_long, s1) \<Rightarrow>
             (case get_planet_position P jd Moon of
                Inl e \<Rightarrow> events
              | Inr (moon_long, s2) \<Rightarrow>
                  let separation0 = \<bar>sun_long - moon_long\<bar>;
                      separation = min separation0 (360 - separation0)
                  in if separation < 13 then
                       (if eclipse_near P (swe_sol_eclipse_when_loc P (jd - 1) lat lon) dt
                        then (let sun_pos = decimal_to_dms sun_long
                              in events @
                                 [Eclipse (strftime_ymd P dt) ''Sun/Moon''
                                    (''Solar Eclipse in '' @ dms_sign sun_pos) (dms_str sun_pos)])
                        else (let sun_pos = decimal_to_dms sun_long
                              in events @
                                 [Lunation (strftime_ymd P dt) ''Sun/Moon''
                                    (''New Moon in '' @ dms_sign sun_pos) (dms_str sun_pos)]))
                     else if 167 < separation then
                       (if eclipse_near P (swe_lun_eclipse_when P (jd - 1)) dt
                        then (let moon_pos = decimal_to_dms moon_long
                              in events @
                                 [Eclipse (strftime_ymd P dt) ''Sun/Moon''
                                    (''Lunar Eclipse in '' @ dms_sign moon_pos) (dms_str moon_pos)])
                        else (let moon_pos = decimal_to_dms moon_long
                              in events @
                                 [Lunation (strftime_ymd P dt) ''Sun/Moon''
                                    (''Full Moon in '' @ dms_sign moon_pos) (dms_str moon_pos)]))
                     else events))"

text \<open>
  \<open>s.replace(old, "")\<close> for a non-empty \<open>old\<close>: every occurrence, from the left,
  is removed.
\<close>

function remove_all :: "string \<Rightarrow> string \<Rightarrow> string" where
  "remove_all old [] = []"
| "remove_all old (c # cs) =
     (if old \<noteq> [] \<and> take (length old) (c # cs) = old
      then remove_all old (drop (length old) (c # cs))
      else c # remove_all old cs)"
  by pat_completeness auto
termination
  by (relation "measure (\<lambda>(old, s). length s)") auto

text \<open>
  \<open>_find_house_for_position\<close>. The cusps are looked up under the key \<open>houses\<close>
  of the chart's \<open>angles\<close>; the items are sorted by cusp (a stable sort), and the
  first entry whose range holds the longitude gives the house, as the text that is
  left of its name when \<open>House\<close> is removed.
\<close>

definition in_sorted_house :: "(string \<times> real) list \<Rightarrow> nat \<Rightarrow> real \<Rightarrow> bool" where
  "in_sorted_house house_list i lng =
     (let house_cusp = snd (house_list ! i);
          next_house_cusp = snd (house_list ! ((i + 1) mod length house_list))
      in (house_cusp \<le> lng \<and> lng < next_house_cusp) \<or>
         (next_house_cusp < house_cusp \<and> (house_cusp \<le> lng \<or> lng < next_house_cusp)))"

fun find_house_scan :: "(string \<times> real) list \<Rightarrow> real \<Rightarrow> nat list \<Rightarrow> string" where
  "find_house_scan house_list lng [] = ''1''"
| "find_house_scan house_list lng (i # rest) =
     (if in_sorted_house house_list i lng
      then remove_all ''House'' (fst (house_list ! i))
      else find_house_scan house_list lng rest)"

definition find_house_for_position :: "real \<Rightarrow> chart \<Rightarrow> string" where
  "find_house_for_position lng natal_chart =
     (let hs = (case angles natal_chart of
                  None \<Rightarrow> []
                | Some a \<Rightarrow> (case angles_houses a of None \<Rightarrow> [] | Some h \<Rightarrow> h))
      in if hs = [] then ''Unknown''
         else (let house_list = sort_key snd hs
               in find_house_scan house_list lng [0..<length house_list]))"

text \<open>
  \<open>_detect_transits_to_natal\<close>. The inner loop runs over \<open>natal_targets\<close>; a
  natal planet whose \<open>longitude\<close> is \<open>None\<close> or missing makes the body of the
  \<open>try\<close> raise, which ends the loop for this transiting planet and keeps the events
  appended so far.
\<close>

fun transit_targets ::
  "platform \<Rightarrow> int \<Rightarrow> chart \<Rightarrow> string \<Rightarrow> string \<Rightarrow> real \<Rightarrow> real \<Rightarrow> string list \<Rightarrow> event list
     \<Rightarrow> event list" where
  "transit_targets P dt natal_chart target transit_planet_name transit_long prev_transit_long [] events =
     events"
| "transit_targets P dt natal_chart target transit_planet_name transit_long prev_transit_long
     (natal_planet_name # rest) events =
     (case map_of (case planets natal_chart of None \<Rightarrow> [] | Some ps \<Rightarrow> ps) natal_planet_name of
        None \<Rightarrow>
          transit_targets P dt natal_chart target transit_planet_name transit_long prev_transit_long
            rest events
      | Some pd \<Rightarrow>
          (case longitude pd of
             None \<Rightarrow> events
           | Some natal_long \<Rightarrow>
               (case calculate_aspect_exact transit_long natal_long (Some prev_transit_long) of
                  None \<Rightarrow>
                    transit_targets P dt natal_chart target transit_planet_name transit_long
                      prev_transit_long rest events
                | Some info \<Rightarrow>
                    let transit_pos = decimal_to_dms transit_long;
                        natal_pos = decimal_to_dms natal_long;
                        house_impact = find_house_for_position transit_long natal_chart
                    in transit_targets P dt natal_chart target transit_planet_name transit_long
                         prev_transit_long rest
                         (events @
                            [Transit (strftime_ymd P dt) target transit_planet_name natal_planet_name
                               (info_aspect info) (angle_deg info) (py_round_n (info_orb info) 2)
                               (is_applying info) (dms_str transit_pos) (dms_str natal_pos)
                               house_impact
                               (''Transit '' @ transit_planet_name @ '' '' @ info_aspect info
                                  @ '' NATAL '' @ natal_planet_name @ '' (House '' @ house_impact
                                  @ '')'')]))))"

definition transit_step :: "platform \<Rightarrow> int \<Rightarrow> chart \<Rightarrow> string \<Rightarrow> string \<times> body \<Rightarrow> event list \<Rightarrow> event list" where
  "transit_step P dt natal_chart target pl events =
     (let jd = datetime_to_jd P dt; jd_prev = jd - 1
      in case get_planet_position P jd (snd pl) of
           Inl e \<Rightarrow> events
         | Inr (transit_long, s1) \<Rightarrow>
             (case get_planet_position P jd_prev (snd pl) of
                Inl e \<Rightarrow> events
              | Inr (prev_transit_long, s2) \<Rightarrow>
                  transit_targets P dt natal_chart target (fst pl) transit_long prev_transit_long
                    natal_targets events))"

definition detect_transits_to_natal ::
  "platform \<Rightarrow> int \<Rightarrow> chart \<Rightarrow> event list \<Rightarrow> string \<Rightarrow> event list" where
  "detect_transits_to_natal P dt natal_chart events target =
     fold (transit_step P dt natal_chart target) TRANSIT_PLANETS events"

text \<open>
  The ingress loop in the body of \<open>scan_period\<close>. The state is the event list and
  the dictionary \<open>prev_signs\<close>.
\<close>

definition sign_index_of :: "real \<Rightarrow> int" where
  "sign_index_of lng = \<lfloor>normalize_angle lng / 30\<rfloor>"

definition ingress_step ::
  "platform \<Rightarrow> int \<Rightarrow> string \<times> body \<Rightarrow> event list \<times> (string \<rightharpoonup> int)
     \<Rightarrow> event list \<times> (string \<rightharpoonup> int)" where
  "ingress_step P dt pl st =
     (let planet_name = fst pl; events = fst st; prev_signs = snd st;
          jd_current = datetime_to_jd P dt
      in case get_planet_position P jd_current (snd pl) of
           Inl e \<Rightarrow> st
         | Inr (long_now, s1) \<Rightarrow>
             let normalized = normalize_angle long_now;
                 current_sign_index = \<lfloor>normalized / 30\<rfloor>;
                 prev_sign_index =
                   (case prev_signs planet_name of None \<Rightarrow> current_sign_index | Some i \<Rightarrow> i);
                 events' =
                   (if current_sign_index \<noteq> prev_sign_index
                    then (let pos_data = decimal_to_dms normalized
                          in events @
                             [Ingress (strftime_ymd P dt) planet_name (dms_sign pos_data)
                                (planet_name @ '' enters '' @ dms_sign pos_data)
                                (planet_name @ '' enters '' @ dms_sign pos_data)
                                (dms_str pos_data)])
                    else events)
             in (events', prev_signs(planet_name \<mapsto> current_sign_index)))"

text \<open>The state of the scan: the events, \<open>self.prev_speeds\<close> and \<open>prev_signs\<close>.\<close>

record scan_state =
  events_of :: "event list"
  prev_speeds :: "string \<rightharpoonup> real"
  prev_signs :: "string \<rightharpoonup> int"

text \<open>One pass of the body of the \<open>while\<close> loop, up to the increment of the date.\<close>

definition scan_day ::
  "platform \<Rightarrow> chart \<Rightarrow> real \<Rightarrow> real \<Rightarrow> chart option \<Rightarrow> int \<Rightarrow> scan_state \<Rightarrow> scan_state" where
  "scan_day P natal_chart lat lon partner_chart current_date st =
     (let (ev1, speeds) = detect_retrograde_stations P current_date (events_of st, prev_speeds st);
          ev2 = detect_lunations_and_eclipses P current_date lat lon ev1;
          (ev3, sgns) = fold (ingress_step P current_date) INGRESS_PLANETS (ev2, prev_signs st);
          ev4 = detect_transits_to_natal P current_date natal_chart ev3 ''User'';
          ev5 = (case partner_chart of
                   None \<Rightarrow> ev4
                 | Some pc \<Rightarrow> detect_transits_to_natal P current_date pc ev4 ''Partner'')
      in \<lparr>events_of = ev5, prev_speeds = speeds, prev_signs = sgns\<rparr>)"

text \<open>
  The loop \<open>while current_date <= end_dt\<close>. The increment raises
  \<open>OverflowError\<close> past 9999-12-31.
\<close>

function scan_loop ::
  "platform \<Rightarrow> chart \<Rightarrow> real \<Rightarrow> real \<Rightarrow> chart option \<Rightarrow> int \<Rightarrow> int \<Rightarrow> scan_state
     \<Rightarrow> error + scan_state" where
  "scan_loop P natal_chart lat lon partner_chart current_date end_dt st =
     (if current_date \<le> end_dt
      then (let st' = scan_day P natal_chart lat lon partner_chart current_date st
            in case add_days current_date 1 of
                 Inl e \<Rightarrow> Inl e
               | Inr next_date \<Rightarrow>
                   scan_loop P natal_chart lat lon partner_chart next_date end_dt st')
      else Inr st)"
  by pat_completeness auto
termination
  by (relation "measure (\<lambda>(P, c, lat, lon, pc, cur, e, st). nat (e + 1 - cur))")
     (auto simp: add_days_def split: if_splits)

declare scan_loop.simps [simp del]

text \<open>The two initialisation loops of \<open>scan_period\<close>, from the day before the start.\<close>

definition init_speeds :: "platform \<Rightarrow> real \<Rightarrow> (string \<rightharpoonup> real) \<Rightarrow> (string \<rightharpoonup> real)" where
  "init_speeds P init_jd speeds0 =
     fold (\<lambda>pl speeds.
             case get_planet_position P init_jd (snd pl) of
               Inl e \<Rightarrow> speeds(fst pl \<mapsto> 0)
             | Inr (l, spd) \<Rightarrow> speeds(fst pl \<mapsto> spd))
          RETROGRADE_PLANETS speeds0"

definition init_signs :: "platform \<Rightarrow> real \<Rightarrow> (string \<rightharpoonup> int)" where
  "init_signs P init_jd =
     fold (\<lambda>pl sgns.
             case get_planet_position P init_jd (snd pl) of
               Inl e \<Rightarrow> sgns(fst pl \<mapsto> - 1)
             | Inr (long_init, s) \<Rightarrow> sgns(fst pl \<mapsto> \<lfloor>normalize_angle long_init / 30\<rfloor>))
          INGRESS_PLANETS Map.empty"

text \<open>
  \<open>scan_period\<close>. \<open>speeds0\<close> is \<open>self.prev_speeds\<close> at the call, empty for
  a new scanner. A partner chart that is \<open>None\<close> is not scanned.
\<close>

definition scan_period ::
  "platform \<Rightarrow> (string \<rightharpoonup> real) \<Rightarrow> chart \<Rightarrow> string \<Rightarrow> string \<Rightarrow> real \<Rightarrow> real \<Rightarrow> chart option
     \<Rightarrow> error + event list" where
  "scan_period P speeds0 natal_chart start_date end_date lat lon partner_chart =
     (case strptime_ymd P start_date of
        None \<Rightarrow> Inl ValueError
      | Some start_dt \<Rightarrow>
          (case strptime_ymd P end_date of
             None \<Rightarrow> Inl ValueError
           | Some end_dt \<Rightarrow>
               (case add_days start_dt (- 1) of
                  Inl e \<Rightarrow> Inl e
                | Inr init_date \<Rightarrow>
                    let init_jd = datetime_to_jd P init_date;
                        st0 = \<lparr>events_of = [], prev_speeds = init_speeds P init_jd speeds0,
                               prev_signs = init_signs P init_jd\<rparr>
                    in (case scan_loop P natal_chart lat lon partner_chart start_dt end_dt st0 of
                          Inl e \<Rightarrow> Inl e
                        | Inr st \<Rightarrow>
                            Inr (sort_key (\<lambda>x. (ev_date x, ev_type x)) (events_of st))))))"

section \<open>Python string functions used by the parser\<close>

text \<open>\<open>s.replace("/", "-")\<close>, one character for another.\<close>

definition replace_char :: "char \<Rightarrow> char \<Rightarrow> string \<Rightarrow> string" where
  "replace_char old new s = map (\<lambda>c. if c = old then new else c) s"

text \<open>\<open>s.split(sep)\<close> for a separator of one character: never an empty list.\<close>

fun split_on :: "char \<Rightarrow> string \<Rightarrow> string list" where
  "split_on sep [] = [[]]"
| "split_on sep (c # cs) =
     (if c = sep then [] # split_on sep cs
      else (case split_on sep cs of
              [] \<Rightarrow> [[c]]
            | w # ws \<Rightarrow> (c # w) # ws))"

text \<open>
  \<open>int(s)\<close> for a string: white space is stripped from both ends, an optional sign
  follows, then decimal digits, where single underscores may stand between digits.
  \<open>None\<close> is \<open>ValueError\<close>.
\<close>

definition py_isspace :: "char \<Rightarrow> bool" where
  "py_isspace c =
     (c \<in> set [CHR 0x09, CHR 0x0A, CHR 0x0B, CHR 0x0C, CHR 0x0D, CHR 0x1C, CHR 0x1D, CHR 0x1E,
               CHR 0x1F, CHR 0x20, CHR 0x85, CHR 0xA0])"

definition py_strip :: "string \<Rightarrow> string" where
  "py_strip s = rev (dropWhile py_isspace (rev (dropWhile py_isspace s)))"

definition is_digit :: "char \<Rightarrow> bool" where
  "is_digit c = (c \<in> set ''0123456789'')"

definition digit_value :: "char \<Rightarrow> int" where
  "digit_value c = int (length (takeWhile (\<lambda>d. d \<noteq> c) ''0123456789''))"

definition parse_digits :: "string \<Rightarrow> int option" where
  "parse_digits s =
     (let groups = split_on CHR ''_'' s
      in if list_all (\<lambda>g. g \<noteq> [] \<and> list_all is_digit g) groups
         then Some (foldl (\<lambda>acc c. 10 * acc + digit_value c) 0 (concat groups))
         else None)"

definition py_int :: "string \<Rightarrow> int option" where
  "py_int s =
     (case py_strip s of
        [] \<Rightarrow> None
      | c # cs \<Rightarrow>
          if c = CHR ''-'' then map_option uminus (parse_digits cs)
          else if c = CHR ''+'' then parse_digits cs
          else parse_digits (c # cs))"

section \<open>Chart construction (engine.py)\<close>

text \<open>
  The two parsing blocks of \<open>_datetime_to_utc\<close>. The three \<open>int\<close> calls on the
  date run in order, each indexing \<open>date_parts\<close> first, so a missing component is
  \<open>IndexError\<close> and a component that is not an integer is \<open>ValueError\<close>. For
  the time, a missing minute or second is taken as 0.
\<close>

definition int_at :: "string list \<Rightarrow> nat \<Rightarrow> error + int" where
  "int_at parts i =
     (if i < length parts
      then (case py_int (parts ! i) of None \<Rightarrow> Inl ValueError | Some v \<Rightarrow> Inr v)
      else Inl IndexError)"

definition parse_date :: "string \<Rightarrow> error + (int \<times> int \<times> int)" where
  "parse_date date =
     (let date_clean = replace_char CHR ''/'' CHR ''-'' date;
          date_parts = split_on CHR ''-'' date_clean
      in case int_at date_parts 0 of
           Inl e \<Rightarrow> Inl e
         | Inr y \<Rightarrow>
             (case int_at date_parts 1 of
                Inl e \<Rightarrow> Inl e
              | Inr m \<Rightarrow>
                  (case int_at date_parts 2 of
                     Inl e \<Rightarrow> Inl e
                   | Inr d \<Rightarrow> Inr (y, m, d))))"

definition parse_time :: "string \<Rightarrow> error + (int \<times> int \<times> int)" where
  "parse_time time =
     (let time_parts = split_on CHR '':'' time
      in case int_at time_parts 0 of
           Inl e \<Rightarrow> Inl e
         | Inr h \<Rightarrow>
             (case (if 1 < length time_parts then int_at time_parts 1 else Inr 0) of
                Inl e \<Rightarrow> Inl e
              | Inr mi \<Rightarrow>
                  (case (if 2 < length time_parts then int_at time_parts 2 else Inr 0) of
                     Inl e \<Rightarrow> Inl e
                   | Inr s \<Rightarrow> Inr (h, mi, s))))"

text \<open>The constructor \<open>datetime(year, month, day, hour, minute, second)\<close>.\<close>

definition is_leap :: "int \<Rightarrow> bool" where
  "is_leap y = (y mod 4 = 0 \<and> (y mod 100 \<noteq> 0 \<or> y mod 400 = 0))"

definition days_in_month :: "int \<Rightarrow> int \<Rightarrow> int" where
  "days_in_month y m =
     (if m = 2 then (if is_leap y then 29 else 28)
      else if m \<in> {4, 6, 9, 11} then 30 else 31)"

definition datetime_new :: "int \<Rightarrow> int \<Rightarrow> int \<Rightarrow> int \<Rightarrow> int \<Rightarrow> int \<Rightarrow> error + civil" where
  "datetime_new y mo d h mi s =
     (if 1 \<le> y \<and> y \<le> 9999 \<and> 1 \<le> mo \<and> mo \<le> 12 \<and> 1 \<le> d \<and> d \<le> days_in_month y mo \<and>
         0 \<le> h \<and> h \<le> 23 \<and> 0 \<le> mi \<and> mi \<le> 59 \<and> 0 \<le> s \<and> s \<le> 59
      then Inr \<lparr>year = y, month = mo, day = d, hour = h, minute = mi, second = s\<rparr>
      else Inl ValueError)"

text \<open>
  \<open>_datetime_to_utc\<close>: parse, resolve the timezone (UTC when none is found), build
  the datetime, and convert; before 1979 the zone \<open>Europe/Sofia\<close> is the fixed
  offset of 120 minutes. A call into a timezone library that raises is
  \<open>RuntimeError\<close> here.
\<close>

definition datetime_to_utc ::
  "platform \<Rightarrow> string \<Rightarrow> string \<Rightarrow> real \<Rightarrow> real \<Rightarrow> error + (civil \<times> string)" where
  "datetime_to_utc P date time lat lon =
     (case parse_date date of
        Inl e \<Rightarrow> Inl e
      | Inr (y, mo, d) \<Rightarrow>
          (case parse_time time of
             Inl e \<Rightarrow> Inl e
           | Inr (h, mi, s) \<Rightarrow>
               (case timezone_at P lat lon of
                  None \<Rightarrow> Inl RuntimeError
                | Some found \<Rightarrow>
                    let timezone_str = (case found of None \<Rightarrow> ''UTC'' | Some z \<Rightarrow> z);
                        zone = (case found of None \<Rightarrow> TzUTC | Some z \<Rightarrow> TzName z)
                    in (case datetime_new y mo d h mi s of
                          Inl e \<Rightarrow> Inl e
                        | Inr local_dt_naive \<Rightarrow>
                            let zone' = (if timezone_str = ''Europe/Sofia'' \<and> y < 1979
                                         then TzFixedOffset 120 else zone)
                            in (case localize_to_utc P zone' local_dt_naive of
                                  None \<Rightarrow> Inl RuntimeError
                                | Some utc_dt \<Rightarrow> Inr (utc_dt, timezone_str))))))"

definition datetime_to_julian_day :: "platform \<Rightarrow> civil \<Rightarrow> real" where
  "datetime_to_julian_day P dt =
     (let decimal_hour = of_int (hour dt) + of_int (minute dt) / 60 + of_int (second dt) / 3600
      in swe_julday P (year dt) (month dt) (day dt) decimal_hour)"

text \<open>\<open>_calculate_planet_position\<close>: a negative return flag is an error too.\<close>

definition calculate_planet_position ::
  "platform \<Rightarrow> real \<Rightarrow> body \<Rightarrow> error + (real \<times> real \<times> real)" where
  "calculate_planet_position P jd planet_id =
     (case swe_calc_ut P jd planet_id of
        None \<Rightarrow> Inl RuntimeError
      | Some (xx, ret_flag) \<Rightarrow> if ret_flag < 0 then Inl RuntimeError else Inr xx)"

text \<open>
  \<open>_calculate_houses\<close>: twelve cusps are \<open>House1\<close> to \<open>House12\<close>; with
  thirteen or more the first is skipped; fewer than twelve are numbered from 1. The
  first two entries of \<open>ascmc\<close> are the Ascendant and the MC. The result has the
  key \<open>houses\<close> and six keys for the angles. An exception inside the \<open>try\<close>
  is re-raised as \<open>RuntimeError\<close>; when it is \<open>swe.houses\<close> itself that
  raises, the handler's own \<open>print\<close> reads the unbound \<open>result\<close> first.
\<close>

definition houses_of_cusps :: "real list \<Rightarrow> (string, real) dict" where
  "houses_of_cusps cusps =
     (if length cusps = 12 then zip (map house_name [1..12]) cusps
      else if 13 \<le> length cusps then zip (map house_name [1..12]) (tl cusps)
      else zip (map house_name [1..int (length cusps)]) cusps)"

definition calculate_houses ::
  "platform \<Rightarrow> real \<Rightarrow> real \<Rightarrow> real \<Rightarrow> error + ((string, real) dict \<times> angles_dict)" where
  "calculate_houses P jd lat lon =
     (case swe_houses P jd lat lon of
        None \<Rightarrow> Inl UnboundLocalError
      | Some (cusps, ascmc) \<Rightarrow>
          if length ascmc < 2 then Inl RuntimeError
          else (let mc_raw = ascmc ! 1; asc_raw = ascmc ! 0;
                    asc_dms = decimal_to_dms asc_raw; mc_dms = decimal_to_dms mc_raw
                in Inr (houses_of_cusps cusps,
                        \<lparr>Ascendant = Some asc_raw, MC = Some mc_raw,
                         Ascendant_formatted = dms_str asc_dms, MC_formatted = dms_str mc_dms,
                         Ascendant_sign = dms_sign asc_dms, MC_sign = dms_sign mc_dms,
                         angles_houses = None\<rparr>)))"

definition PLANETS :: "(string \<times> body) list" where
  "PLANETS =
     [(''Sun'', Sun), (''Moon'', Moon), (''Mercury'', Mercury), (''Venus'', Venus), (''Mars'', Mars),
      (''Jupiter'', Jupiter), (''Saturn'', Saturn), (''Uranus'', Uranus), (''Neptune'', Neptune),
      (''Pluto'', Pluto), (''Node'', TrueNode), (''Chiron'', Chiron)]"

definition absent_body :: planet_data where
  "absent_body = \<lparr>longitude = None, speed = None, distance = None, zodiac_sign = None,
                  formatted_pos = None, house = None\<rparr>"

text \<open>The entry of one body: its position, or all fields \<open>None\<close> when the lookup fails.\<close>

definition planet_entry :: "platform \<Rightarrow> real \<Rightarrow> body \<Rightarrow> planet_data" where
  "planet_entry P jd planet_id =
     (case calculate_planet_position P jd planet_id of
        Inl e \<Rightarrow> absent_body
      | Inr (lng, spd, dst) \<Rightarrow>
          let dms_data = decimal_to_dms lng
          in \<lparr>longitude = Some lng, speed = Some spd, distance = Some dst,
              zodiac_sign = Some (dms_sign dms_data), formatted_pos = Some (dms_str dms_data),
              house = None\<rparr>)"

text \<open>The loop that sets \<open>house\<close> for every body with a longitude.\<close>

definition with_house :: "(string, real) dict \<Rightarrow> planet_data \<Rightarrow> planet_data" where
  "with_house house_cusps pd =
     (case longitude pd of
        None \<Rightarrow> pd
      | Some lng \<Rightarrow> pd\<lparr>house := get_planet_house (Some lng) house_cusps\<rparr>)"

definition calculate_chart :: "platform \<Rightarrow> string \<Rightarrow> string \<Rightarrow> real \<Rightarrow> real \<Rightarrow> error + chart" where
  "calculate_chart P date time lat lon =
     (case datetime_to_utc P date time lat lon of
        Inl e \<Rightarrow> Inl e
      | Inr (dt_utc, timezone_str) \<Rightarrow>
          let jd = datetime_to_julian_day P dt_utc;
              planets0 = map (\<lambda>pl. (fst pl, planet_entry P jd (snd pl))) PLANETS
          in (case calculate_houses P jd lat lon of
                Inl e \<Rightarrow> Inl e
              | Inr (house_cusps, angle_data) \<Rightarrow>
                  Inr \<lparr>planets = Some (map (\<lambda>en. (fst en, with_house house_cusps (snd en))) planets0),
                       houses = Some house_cusps,
                       angles = Some angle_data,
                       julian_day = jd,
                       datetime_utc = isoformat P dt_utc,
                       timezone = timezone_str,
                       datetime_local = date @ '' '' @ time,
                       location = (lat, lon)\<rparr>))"

section \<open>One planet in the retrograde-station detector\<close>

text \<open>
  What \<open>retrograde_step\<close> does to the events of one planet and to its stored speed.
\<close>

definition station_view :: "string \<Rightarrow> event list \<times> (string \<rightharpoonup> real) \<Rightarrow> event list \<times> real option" where
  "station_view nm st = (filter (\<lambda>e. ev_planet e = nm) (fst st), snd st nm)"

definition station_one ::
  "platform \<Rightarrow> int \<Rightarrow> string \<Rightarrow> body \<Rightarrow> event list \<times> real option \<Rightarrow> event list \<times> real option" where
  "station_one P dt nm b v =
     (case get_planet_position P (datetime_to_jd P dt) b of
        Inl e \<Rightarrow> v
      | Inr (lng, spd) \<Rightarrow>
          (case snd v of
             None \<Rightarrow> (fst v, Some spd)
           | Some prev_speed \<Rightarrow>
               if 0 < prev_speed \<and> spd < 0 then
                 (fst v @ [Retrograde (strftime_ymd P dt) nm ''retrograde''
                            (nm @ '' turns Retrograde in '' @ dms_sign (decimal_to_dms lng))
                            (nm @ '' turns Retrograde in '' @ dms_sign (decimal_to_dms lng))
                            (dms_str (decimal_to_dms lng))], Some spd)
               else if prev_speed < 0 \<and> 0 < spd then
                 (fst v @ [Retrograde (strftime_ymd P dt) nm ''direct''
                            (nm @ '' turns Direct in '' @ dms_sign (decimal_to_dms lng))
                            (nm @ '' turns Direct in '' @ dms_sign (decimal_to_dms lng))
                            (dms_str (decimal_to_dms lng))], Some spd)
               else (fst v, Some spd)))"


text \<open>The detector run over a list of days, one call a day, as the scan loop calls it.\<close>

definition run_retrograde_detector ::
  "platform \<Rightarrow> int list \<Rightarrow> event list \<times> (string \<rightharpoonup> real) \<Rightarrow> event list \<times> (string \<rightharpoonup> real)" where
  "run_retrograde_detector P days st = fold (detect_retrograde_stations P) days st"

section \<open>A synthetic platform\<close>

text \<open>
  A stand-in for the libraries, used to run the model on concrete inputs. Its calendar
  knows January 2024 only (the ordinal of 2024-01-01 is 738886) and its Julian day is
  the day of the month. The Sun moves one degree a day from 280, the Moon stands at 40
  except on the 11th, when it is at 285; Mercury's speed follows the series 0.5, 0.1,
  -0.2, -0.4 from 31 December on; Mars moves 0.7 degrees a day from 100; the other
  bodies stand still. The search for a solar eclipse always finds one a day after its
  start; the search for a lunar eclipse raises.
\<close>

definition demo_longitude :: "body \<Rightarrow> int \<Rightarrow> real" where
  "demo_longitude b n =
     (case b of
        Sun \<Rightarrow> 280 + of_int n
      | Moon \<Rightarrow> (if n = 11 then 285 else 40)
      | Mercury \<Rightarrow> 270
      | Venus \<Rightarrow> 231
      | Mars \<Rightarrow> 100 + 7 / 10 * of_int n
      | Jupiter \<Rightarrow> 35
      | Saturn \<Rightarrow> 333
      | Uranus \<Rightarrow> 49
      | Neptune \<Rightarrow> 355
      | Pluto \<Rightarrow> 299
      | TrueNode \<Rightarrow> 20
      | Chiron \<Rightarrow> 15)"

definition demo_speed :: "body \<Rightarrow> int \<Rightarrow> real" where
  "demo_speed b n =
     (case b of
        Sun \<Rightarrow> 1
      | Mercury \<Rightarrow> (if n \<le> 0 then 1 / 2 else if n = 1 then 1 / 10 else if n = 2 then - (1 / 5)
                     else - (2 / 5))
      | Mars \<Rightarrow> 7 / 10
      | _ \<Rightarrow> 0)"

definition demo_strptime :: "string \<Rightarrow> int option" where
  "demo_strptime s =
     (case parse_date s of
        Inl e \<Rightarrow> None
      | Inr (y, m, d) \<Rightarrow>
          if y = 2024 \<and> m = 1 \<and> 1 \<le> d \<and> d \<le> 31 then Some (738885 + d) else None)"

definition demo_platform :: platform where
  "demo_platform =
     \<lparr>swe_calc_ut = (\<lambda>jd b. Some ((demo_longitude b \<lfloor>jd\<rfloor>, demo_speed b \<lfloor>jd\<rfloor>, 1), 0)),
      swe_julday = (\<lambda>y m d h. of_int d + h / 24),
      swe_houses = (\<lambda>jd lat lon.
         Some ([10, 40, 70, 100, 130, 160, 190, 220, 250, 280, 310, 350], [10, 280])),
      swe_sol_eclipse_when_loc = (\<lambda>jd lat lon. Some (0, 2440587.5 + (jd + 1))),
      swe_lun_eclipse_when = (\<lambda>jd. None),
      timezone_at = (\<lambda>lat lon. Some None),
      localize_to_utc = (\<lambda>z dt. Some dt),
      isoformat = (\<lambda>dt. []),
      strptime_ymd = demo_strptime,
      strftime_ymd = (\<lambda>d. ''2024-01-'' @ fmt_02d (d - 738885)),
      ymd_of = (\<lambda>d. (2024, 1, d - 738885)),
      date_fromtimestamp = (\<lambda>ts. Some (738885 + \<lfloor>ts / 86400\<rfloor>))\<rparr>"

section \<open>Lunation windows\<close>

text \<open>
  The day is in a lunation window when both positions are available and the separation
  computed by \<open>_detect_lunations_and_eclipses\<close> is below 13 or above 167 degrees.
  In a window the eclipse is confirmed when the search of the matching kind, started
  one day earlier, returns a date at most one day away.
\<close>

definition is_lunation_or_eclipse :: "event \<Rightarrow> bool" where
  "is_lunation_or_eclipse e = (ev_type e = ''LUNATION'' \<or> ev_type e = ''ECLIPSE'')"

definition sun_moon_separation :: "platform \<Rightarrow> int \<Rightarrow> real option" where
  "sun_moon_separation P dt =
     (case get_planet_position P (datetime_to_jd P dt) Sun of
        Inl e \<Rightarrow> None
      | Inr (sun_long, s1) \<Rightarrow>
          (case get_planet_position P (datetime_to_jd P dt) Moon of
             Inl e \<Rightarrow> None
           | Inr (moon_long, s2) \<Rightarrow>
               Some (min \<bar>sun_long - moon_long\<bar> (360 - \<bar>sun_long - moon_long\<bar>))))"

definition in_lunation_window :: "platform \<Rightarrow> int \<Rightarrow> bool" where
  "in_lunation_window P dt =
     (case sun_moon_separation P dt of
        None \<Rightarrow> False
      | Some separation \<Rightarrow> separation < 13 \<or> 167 < separation)"

definition eclipse_confirmed :: "platform \<Rightarrow> int \<Rightarrow> real \<Rightarrow> real \<Rightarrow> bool" where
  "eclipse_confirmed P dt lat lon =
     (case sun_moon_separation P dt of
        None \<Rightarrow> False
      | Some separation \<Rightarrow>
          if separation < 13
          then eclipse_near P (swe_sol_eclipse_when_loc P (datetime_to_jd P dt - 1) lat lon) dt
          else if 167 < separation
          then eclipse_near P (swe_lun_eclipse_when P (datetime_to_jd P dt - 1)) dt
          else False)"

section \<open>The chart of the running example\<close>

text \<open>
  The natal chart that \<open>calculate_chart\<close> builds on the synthetic platform for
  1990-01-01 12:00:00 at latitude 42.6977 and longitude 23.3219.
\<close>

definition demo_natal_chart :: chart where
  "demo_natal_chart =
     (case calculate_chart demo_platform ''1990-01-01'' ''12:00:00'' (426977 / 10000) (233219 / 10000) of
        Inl e \<Rightarrow> chart_of_planets []
      | Inr c \<Rightarrow> c)"

text \<open>The events of type TRANSIT in a list.\<close>

definition transit_events :: "event list \<Rightarrow> event list" where
  "transit_events evs = filter (\<lambda>e. ev_type e = ''TRANSIT'') evs"

text \<open>
  A chart without cusps under \<open>angles\<close>: the key \<open>angles\<close> is missing, or it has
  no key \<open>houses\<close>, or that entry is empty.
\<close>

definition no_angle_houses :: "chart \<Rightarrow> bool" where
  "no_angle_houses c =
     (case angles c of
        None \<Rightarrow> True
      | Some a \<Rightarrow> (case angles_houses a of None \<Rightarrow> True | Some h \<Rightarrow> h = []))"

section \<open>Properties of the normalisation\<close>


lemma while_add_360_bound: "a < 360 \<Longrightarrow> while_add_360 a < 360"
proof (induction a rule: while_add_360.induct)
  case (1 angle)
  show ?case
  proof (cases "angle < 0")
    case True
    then have "while_add_360 (angle + 360) < 360" using "1.IH" by simp
    then show ?thesis using True by (subst while_add_360.simps) simp
  next
    case False
    then show ?thesis using "1.prems" by (subst while_add_360.simps) simp
  qed
qed

lemma while_add_360_id: "0 \<le> a \<Longrightarrow> while_add_360 a = a"
  by (subst while_add_360.simps) simp

lemma while_sub_360_id: "a < 360 \<Longrightarrow> while_sub_360 a = a"
  by (subst while_sub_360.simps) simp



lemma normalize_angle_fixed: "0 \<le> a \<Longrightarrow> a < 360 \<Longrightarrow> normalize_angle a = a"
  by (simp add: normalize_angle_def while_add_360_id while_sub_360_id)


section \<open>Properties of the House Mapper\<close>

lemma house_names: "map house_name [1..12] = [''House1'',''House2'',''House3'',''House4'',''House5'',''House6'',''House7'',''House8'',''House9'',''House10'',''House11'',''House12'']" 
  by (simp add: house_name_def str_int_def digit_char_def upto.simps)

lemma house_scan_mem:
  "house_scan hcl p is = Some h \<Longrightarrow> \<forall>i\<in>set is. i < length hcl \<Longrightarrow> h \<in> fst ` set hcl"
  by (induction "is") (auto split: if_splits)

lemma py_min_key_mem: "py_min_key f b xs \<in> set (b # xs)"
  by (induction xs arbitrary: b) (auto split: if_splits)

lemma house_cusp_list_fst: "fst ` set (house_cusp_list d) \<subseteq> {1..12}"
  by (auto simp: house_cusp_list_def List.map_filter_def split: option.splits)

lemma get_planet_house_mem:
  assumes "get_planet_house pl d = Some h"
  shows "h \<in> fst ` set (house_cusp_list d)"
proof -
  let ?hcl = "house_cusp_list d"
  obtain p where pl: "pl = Some p" using assms by (cases pl) (auto simp: get_planet_house_def)
  obtain x xs where hcl: "?hcl = x # xs"
    using assms pl by (cases ?hcl) (auto simp: get_planet_house_def Let_def split: if_splits)
  show ?thesis
  proof (cases "house_scan ?hcl (py_mod p 360) [0..<length ?hcl]")
    case None
    then have "h = fst (py_min_key (cusp_distance (py_mod p 360)) x xs)"
      using assms pl hcl by (simp add: get_planet_house_def Let_def split: if_splits)
    then show ?thesis using py_min_key_mem [of "cusp_distance (py_mod p 360)" x xs] hcl
      by (metis imageI)
  next
    case (Some h')
    then have "h = h'"
      using assms pl hcl by (simp add: get_planet_house_def Let_def split: if_splits)
    then show ?thesis using house_scan_mem [OF Some] by simp
  qed
qed

lemma in_house_sorted_unique:
  assumes srt: "sorted_wrt (<) (map snd s)" and m: "m < length s" and m': "m' < length s"
    and lt: "m < m'" and a: "in_house s m p" and b: "in_house s m' p"
  shows False
proof -
  let ?n = "length s"
  have nth_lt: "\<And>i j. i < j \<Longrightarrow> j < ?n \<Longrightarrow> snd (s ! i) < snd (s ! j)"
    using srt by (auto simp: sorted_wrt_iff_nth_less)
  have nth_le: "\<And>i j. i \<le> j \<Longrightarrow> j < ?n \<Longrightarrow> snd (s ! i) \<le> snd (s ! j)"
    using nth_lt by (metis le_neq_implies_less less_eq_real_def order_refl)
  have m1: "(m + 1) mod ?n = m + 1" using lt m' by simp
  have "snd (s ! m) < snd (s ! (m + 1))" using nth_lt [of m "m + 1"] lt m' by simp
  with a m1 have pa: "snd (s ! m) \<le> p" "p < snd (s ! (m + 1))"
    by (auto simp: in_house_def Let_def)
  have up: "snd (s ! (m + 1)) \<le> snd (s ! m')" using nth_le [of "m + 1" m'] lt m' by simp
  show False
  proof (cases "m' + 1 < ?n")
    case True
    then have "(m' + 1) mod ?n = m' + 1" by simp
    moreover have "snd (s ! m') < snd (s ! (m' + 1))" using nth_lt [of m' "m' + 1"] True by simp
    ultimately have "snd (s ! m') \<le> p" using b by (auto simp: in_house_def Let_def)
    with pa up show False by simp
  next
    case False
    then have last: "m' + 1 = ?n" using m' by simp
    then have "(m' + 1) mod ?n = 0" by simp
    moreover have "snd (s ! 0) < snd (s ! m')" using nth_lt [of 0 m'] lt m' by simp
    ultimately have "snd (s ! m') \<le> p \<or> p < snd (s ! 0)" using b by (auto simp: in_house_def Let_def)
    moreover have "snd (s ! 0) \<le> snd (s ! m)" using nth_le [of 0 m] m by simp
    ultimately show False using pa up by auto
  qed
qed


lemma house_scan_first:
  assumes "i \<in> set is" and "in_house hcl i p"
    and "\<And>j. j \<in> set is \<Longrightarrow> in_house hcl j p \<Longrightarrow> j = i"
  shows "house_scan hcl p is = Some (fst (hcl ! i))"
  using assms
proof (induction "is")
  case Nil
  then show ?case by simp
next
  case (Cons a rest)
  show ?case
  proof (cases "in_house hcl a p")
    case True
    then have "a = i" using Cons.prems(3) [of a] by simp
    then show ?thesis using True by simp
  next
    case False
    then have "i \<in> set rest" using Cons.prems(1,2) by auto
    moreover have "\<And>j. j \<in> set rest \<Longrightarrow> in_house hcl j p \<Longrightarrow> j = i"
      using Cons.prems(3) by simp
    ultimately have "house_scan hcl p rest = Some (fst (hcl ! i))"
      using Cons.IH Cons.prems(2) by blast
    then show ?thesis using False by simp
  qed
qed

lemma in_house_rotate:
  assumes "m < length hcl"
  shows "in_house (rotate k hcl) m p = in_house hcl ((k + m) mod length hcl) p"
proof -
  let ?n = "length hcl"
  have pos: "0 < ?n" using assms by auto
  have cur: "rotate k hcl ! m = hcl ! ((k + m) mod ?n)" using assms by (simp add: nth_rotate)
  have "rotate k hcl ! ((m + 1) mod ?n) = hcl ! ((k + (m + 1) mod ?n) mod ?n)"
    using pos by (simp add: nth_rotate)
  moreover have "(k + (m + 1) mod ?n) mod ?n = ((k + m) mod ?n + 1) mod ?n"
    by (simp add: mod_simps ac_simps)
  ultimately have nxt: "rotate k hcl ! ((m + 1) mod ?n) = hcl ! (((k + m) mod ?n + 1) mod ?n)"
    by simp
  show ?thesis unfolding in_house_def Let_def length_rotate cur nxt ..
qed

lemma in_house_cyc_unique:
  assumes cyc: "cyc_ascending (map snd hcl)" and i: "i < length hcl" and j: "j < length hcl"
    and a: "in_house hcl i p" and b: "in_house hcl j p"
  shows "i = j"
proof -
  let ?n = "length hcl"
  obtain k where k: "k < ?n" and srt: "sorted_wrt (<) (rotate k (map snd hcl))"
    using cyc by (auto simp: cyc_ascending_def list_ex_iff)
  let ?s = "rotate k hcl"
  have srt': "sorted_wrt (<) (map snd ?s)" using srt by (simp add: rotate_map)
  define mi where "mi = (i + ?n - k) mod ?n"
  define mj where "mj = (j + ?n - k) mod ?n"
  have undo_rot: "\<And>x. x < ?n \<Longrightarrow> (k + (x + ?n - k) mod ?n) mod ?n = x"
  proof -
    fix x assume x: "x < ?n"
    have "(k + (x + ?n - k) mod ?n) mod ?n = (k + (x + ?n - k)) mod ?n"
      by (simp add: mod_simps)
    also have "k + (x + ?n - k) = x + ?n" using k by simp
    also have "(x + ?n) mod ?n = x" using x by simp
    finally show "(k + (x + ?n - k) mod ?n) mod ?n = x" .
  qed
  have npos: "0 < ?n" using k by linarith
  have mi: "mi < ?n" and mj: "mj < ?n" unfolding mi_def mj_def by (rule mod_less_divisor [OF npos])+
  have ia: "in_house ?s mi p" using a undo_rot [OF i] in_house_rotate [OF mi, of k p] by (simp add: mi_def)
  have jb: "in_house ?s mj p" using b undo_rot [OF j] in_house_rotate [OF mj, of k p] by (simp add: mj_def)
  have "mi = mj"
  proof (rule ccontr)
    assume "mi \<noteq> mj"
    then consider "mi < mj" | "mj < mi" by linarith
    then show False
    proof cases
      case 1
      then show False using in_house_sorted_unique [OF srt' _ _ 1 ia jb] mi mj by simp
    next
      case 2
      then show False using in_house_sorted_unique [OF srt' _ _ 2 jb ia] mi mj by simp
    qed
  qed
  then have "(k + mi) mod ?n = (k + mj) mod ?n" by simp
  then show ?thesis using undo_rot [OF i] undo_rot [OF j] by (simp add: mi_def mj_def)
qed


lemma py_mod_360_id: "0 \<le> x \<Longrightarrow> x < 360 \<Longrightarrow> py_mod x 360 = x"
proof -
  assume "0 \<le> x" "x < 360"
  then have "\<lfloor>x / 360\<rfloor> = 0" by (simp add: floor_eq_iff)
  then show ?thesis by (simp add: py_mod_def)
qed

lemma map_filter_all_Some:
  "(\<And>x. x \<in> set xs \<Longrightarrow> f x = Some (g x)) \<Longrightarrow> List.map_filter f xs = map g xs"
  by (induction xs) (simp_all add: List.map_filter_def)

lemma house_cusp_list_all_twelve:
  assumes "all_twelve_houses d"
  shows "house_cusp_list d = map (\<lambda>i. (i, py_mod (cusp_of d i) 360)) [1..12]"
  unfolding house_cusp_list_def
proof (rule map_filter_all_Some)
  fix i :: int
  assume "i \<in> set [1..12]"
  then have "map_of d (house_name i) \<noteq> None"
    using assms by (simp add: all_twelve_houses_def list_all_iff)
  then show "(case map_of d (house_name i) of None \<Rightarrow> None | Some c \<Rightarrow> Some (i, py_mod c 360))
      = Some (i, py_mod (cusp_of d i) 360)"
    by (auto simp: cusp_of_def)
qed

lemma house_cusp_list_valid:
  assumes "valid_house_cusps d"
  shows "house_cusp_list d = map (\<lambda>i. (i, cusp_of d i)) [1..12]"
proof -
  have "\<And>i. i \<in> set [1..12] \<Longrightarrow> py_mod (cusp_of d i) 360 = cusp_of d i"
    using assms by (simp add: valid_house_cusps_def list_all_iff py_mod_360_id)
  then show ?thesis
    using assms house_cusp_list_all_twelve [of d] by (simp add: valid_house_cusps_def)
qed

lemma all_twelve_houses_nonempty:
  assumes "all_twelve_houses d"
  shows "d \<noteq> []"
proof -
  have "map_of d (house_name 1) \<noteq> None"
    using assms by (simp add: all_twelve_houses_def list_all_iff)
  then show ?thesis by auto
qed

lemma get_planet_house_all_twelve:
  assumes "all_twelve_houses d"
  shows "\<exists>h. get_planet_house (Some p) d = Some h \<and> 1 \<le> h \<and> h \<le> 12"
proof -
  have len: "length (house_cusp_list d) = 12"
    using house_cusp_list_all_twelve [OF assms] by simp
  then obtain x xs where hcl: "house_cusp_list d = x # xs"
    by (cases "house_cusp_list d") auto
  have "d \<noteq> []" by (rule all_twelve_houses_nonempty [OF assms])
  then have "get_planet_house (Some p) d \<noteq> None"
    using hcl by (simp add: get_planet_house_def Let_def split: option.split)
  then obtain h where h: "get_planet_house (Some p) d = Some h" by auto
  then show ?thesis using get_planet_house_mem [OF h] house_cusp_list_fst [of d] by auto
qed

lemma get_planet_house_valid:
  assumes v: "valid_house_cusps d" and p: "0 \<le> p" "p < 360" and k: "k < 12"
    and inh: "in_house (house_cusp_list d) k p"
  shows "get_planet_house (Some p) d = Some (int k + 1)"
proof -
  let ?hcl = "house_cusp_list d"
  have eq: "?hcl = map (\<lambda>i. (i, cusp_of d i)) [1..12]" by (rule house_cusp_list_valid [OF v])
  have len: "length ?hcl = 12" using eq by simp
  have snd_eq: "map snd ?hcl = map (cusp_of d) [1..12]" using eq by (simp add: comp_def)
  have cyc: "cyc_ascending (map snd ?hcl)" using v snd_eq by (simp add: valid_house_cusps_def)
  have fst_k: "fst (?hcl ! k) = int k + 1" using k eq by simp
  have uniq: "\<And>j. j \<in> set [0..<length ?hcl] \<Longrightarrow> in_house ?hcl j p \<Longrightarrow> j = k"
    using in_house_cyc_unique [OF cyc _ _ _ inh] k len by simp
  have scan: "house_scan ?hcl p [0..<length ?hcl] = Some (int k + 1)"
    using house_scan_first [of k "[0..<length ?hcl]" ?hcl p, OF _ inh uniq] k len fst_k by simp
  obtain x xs where hcl: "?hcl = x # xs" using len by (cases ?hcl) auto
  have "d \<noteq> []" using v all_twelve_houses_nonempty by (simp add: valid_house_cusps_def)
  then show ?thesis
    using scan hcl p by (simp add: get_planet_house_def Let_def py_mod_360_id)
qed


lemma cyc_ascending_distinct: "cyc_ascending cs \<Longrightarrow> distinct cs"
proof -
  assume "cyc_ascending cs"
  then obtain k where "sorted_wrt (<) (rotate k cs)"
    by (auto simp: cyc_ascending_def list_ex_iff)
  then have "distinct (rotate k cs)" by (simp add: strict_sorted_iff)
  then show ?thesis by simp
qed

lemma house_cusp_list_nth:
  assumes "valid_house_cusps d" and "k < 12"
  shows "house_cusp_list d ! k = (int k + 1, cusp_of d (int k + 1))"
  using assms house_cusp_list_valid [of d] by (simp add: add.commute)

lemma in_house_own_cusp:
  assumes v: "valid_house_cusps d" and k: "k < 12"
  shows "in_house (house_cusp_list d) k (cusp_of d (int k + 1))"
proof -
  let ?hcl = "house_cusp_list d"
  let ?k' = "(k + 1) mod 12"
  have len: "length ?hcl = 12" using house_cusp_list_valid [OF v] by simp
  have k': "?k' < 12" by simp
  have ne: "?k' \<noteq> k" using k by presburger
  have "distinct (map (cusp_of d) [1..12])"
    using v by (simp add: valid_house_cusps_def cyc_ascending_distinct)
  then have "map (cusp_of d) [1..12] ! ?k' \<noteq> map (cusp_of d) [1..12] ! k"
    using k k' ne by (simp add: nth_eq_iff_index_eq del: nth_map)
  then have "cusp_of d (int ?k' + 1) \<noteq> cusp_of d (int k + 1)"
    using k k' by (simp add: add.commute)
  then show ?thesis
    using house_cusp_list_nth [OF v k] house_cusp_list_nth [OF v k'] len
    by (auto simp: in_house_def Let_def)
qed

text \<open>
  C3, as amended. For every cusp dictionary with all twelve houses and every longitude in
  [0,360), \<open>_get_planet_house\<close> returns one house number from 1 to 12. When the
  cusps are valid (each in [0,360), strictly ascending around the circle), a point equal
  to the cusp of house \<open>i\<close> is put in house \<open>i\<close>; and with the cusp of
  house 12 at 350 and the cusp of house 1 at 10, a point at 5 is put in house 12, and a
  point at 15 is put in house 1 when the cusp of house 2 lies beyond 15.
\<close>

theorem get_planet_house_total_boundary_wrap:
  assumes all12: "all_twelve_houses d" and p: "0 \<le> p" "p < 360"
  shows "(\<exists>h. get_planet_house (Some p) d = Some h \<and> 1 \<le> h \<and> h \<le> 12) \<and>
         (valid_house_cusps d \<longrightarrow>
            (\<forall>i\<in>{1..12}. p = cusp_of d i \<longrightarrow> get_planet_house (Some p) d = Some i) \<and>
            (cusp_of d 12 = 350 \<and> cusp_of d 1 = 10 \<longrightarrow>
               (p = 5 \<longrightarrow> get_planet_house (Some p) d = Some 12) \<and>
               (p = 15 \<and> 15 < cusp_of d 2 \<longrightarrow> get_planet_house (Some p) d = Some 1)))"
proof (intro conjI impI ballI)
  show "\<exists>h. get_planet_house (Some p) d = Some h \<and> 1 \<le> h \<and> h \<le> 12"
    by (rule get_planet_house_all_twelve [OF all12])
next
  fix i :: int
  assume v: "valid_house_cusps d" and i: "i \<in> {1..12}" and pi: "p = cusp_of d i"
  define k where "k = nat (i - 1)"
  have k: "k < 12" and ik: "int k + 1 = i" using i by (auto simp: k_def)
  have "in_house (house_cusp_list d) k p" using in_house_own_cusp [OF v k] pi ik by simp
  then show "get_planet_house (Some p) d = Some i"
    using get_planet_house_valid [OF v p k] ik by simp
next
  assume v: "valid_house_cusps d" and c: "cusp_of d 12 = 350 \<and> cusp_of d 1 = 10" and p5: "p = 5"
  have "in_house (house_cusp_list d) 11 p"
    using house_cusp_list_nth [OF v, of 11] house_cusp_list_nth [OF v, of 0]
      house_cusp_list_valid [OF v] c p5
    by (simp add: in_house_def Let_def)
  then show "get_planet_house (Some p) d = Some 12"
    using get_planet_house_valid [OF v p, of 11] by simp
next
  assume v: "valid_house_cusps d" and c: "cusp_of d 12 = 350 \<and> cusp_of d 1 = 10"
    and p15: "p = 15 \<and> 15 < cusp_of d 2"
  have "in_house (house_cusp_list d) 0 p"
    using house_cusp_list_nth [OF v, of 0] house_cusp_list_nth [OF v, of 1]
      house_cusp_list_valid [OF v] c p15
    by (simp add: in_house_def Let_def)
  then show "get_planet_house (Some p) d = Some 1"
    using get_planet_house_valid [OF v p, of 0] by simp
qed

lemmas cusp_eval = cusps_of_list_def house_name_def str_int_def digit_char_def upto.simps

lemma wrap_cusps_valid: "valid_house_cusps wrap_cusps"
proof -
  have "sorted_wrt (<) (rotate 0 (map (cusp_of wrap_cusps) [1..12]))"
    by (simp add: wrap_cusps_def cusp_of_def cusp_eval)
  then have "cyc_ascending (map (cusp_of wrap_cusps) [1..12])"
    unfolding cyc_ascending_def list_ex_iff by (intro bexI [of _ 0]) simp_all
  moreover have "all_twelve_houses wrap_cusps"
    by (simp add: all_twelve_houses_def wrap_cusps_def cusp_eval)
  moreover have "list_all (\<lambda>i. 0 \<le> cusp_of wrap_cusps i \<and> cusp_of wrap_cusps i < 360) [1..12]"
    by (simp add: wrap_cusps_def cusp_of_def cusp_eval)
  ultimately show ?thesis by (simp add: valid_house_cusps_def)
qed

text \<open>The theorem at the cusps 10, 40, 70, ..., 310, 350.\<close>

theorem get_planet_house_total_boundary_wrap_witness:
  "all_twelve_houses wrap_cusps \<and> valid_house_cusps wrap_cusps \<and>
   cusp_of wrap_cusps 12 = 350 \<and> cusp_of wrap_cusps 1 = 10 \<and> cusp_of wrap_cusps 2 = 40 \<and>
   cusp_of wrap_cusps 3 = 70 \<and>
   get_planet_house (Some 5) wrap_cusps = Some 12 \<and>
   get_planet_house (Some 15) wrap_cusps = Some 1 \<and>
   get_planet_house (Some 70) wrap_cusps = Some 3"
proof -
  have a: "all_twelve_houses wrap_cusps" using wrap_cusps_valid by (simp add: valid_house_cusps_def)
  have c: "cusp_of wrap_cusps 12 = 350" "cusp_of wrap_cusps 1 = 10" "cusp_of wrap_cusps 2 = 40"
    "cusp_of wrap_cusps 3 = 70"
    by (simp_all add: wrap_cusps_def cusp_of_def cusp_eval)
  show ?thesis
    using get_planet_house_total_boundary_wrap [OF a, of 5]
      get_planet_house_total_boundary_wrap [OF a, of 15]
      get_planet_house_total_boundary_wrap [OF a, of 70]
      wrap_cusps_valid a c
    by simp
qed

text \<open>
  Without validity the boundary rule fails: with the cusps of houses 1, 2, 3 at 10, 100,
  50, the point 50 (the cusp of house 3) is put in house 1, because the loop returns
  the first house whose range holds the point. And with valid cusps 10, 12, 70, ..., 350
  the point 15 lies in house 2, not house 1.
\<close>

theorem get_planet_house_claim_counterexample:
  "all_twelve_houses unordered_cusps \<and> cusp_of unordered_cusps 3 = 50 \<and>
   get_planet_house (Some 50) unordered_cusps = Some 1 \<and>
   valid_house_cusps narrow_first_cusps \<and>
   cusp_of narrow_first_cusps 12 = 350 \<and> cusp_of narrow_first_cusps 1 = 10 \<and>
   get_planet_house (Some 15) narrow_first_cusps = Some 2"
proof -
  have "sorted_wrt (<) (rotate 0 (map (cusp_of narrow_first_cusps) [1..12]))"
    by (simp add: narrow_first_cusps_def cusp_of_def cusp_eval)
  then have "cyc_ascending (map (cusp_of narrow_first_cusps) [1..12])"
    unfolding cyc_ascending_def list_ex_iff by (intro bexI [of _ 0]) simp_all
  moreover have "all_twelve_houses narrow_first_cusps"
    by (simp add: all_twelve_houses_def narrow_first_cusps_def cusp_eval)
  moreover have "list_all (\<lambda>i. 0 \<le> cusp_of narrow_first_cusps i \<and> cusp_of narrow_first_cusps i < 360) [1..12]"
    by (simp add: narrow_first_cusps_def cusp_of_def cusp_eval)
  ultimately have v: "valid_house_cusps narrow_first_cusps" by (simp add: valid_house_cusps_def)
  have a: "all_twelve_houses unordered_cusps"
    by (simp add: all_twelve_houses_def unordered_cusps_def cusp_eval)
  have c: "cusp_of unordered_cusps 3 = 50" "cusp_of narrow_first_cusps 12 = 350"
    "cusp_of narrow_first_cusps 1 = 10"
    by (simp_all add: unordered_cusps_def narrow_first_cusps_def cusp_of_def cusp_eval)
  have g1: "get_planet_house (Some 50) unordered_cusps = Some 1"
    by (simp add: get_planet_house_def house_cusp_list_def List.map_filter_def py_mod_def
        in_house_def unordered_cusps_def cusp_eval)
  have g2: "get_planet_house (Some 15) narrow_first_cusps = Some 2"
    by (simp add: get_planet_house_def house_cusp_list_def List.map_filter_def py_mod_def
        in_house_def narrow_first_cusps_def cusp_eval)
  show ?thesis using v a c g1 g2 by simp
qed

section \<open>Properties of the house overlay\<close>

lemma update_fresh_key: "k \<notin> fst ` set al \<Longrightarrow> AList.update k v al = al @ [(k, v)]"
  by (induction al) auto

lemma fold_overlay_step:
  assumes "distinct (map fst ps)" and "fst ` set acc \<inter> fst ` set ps = {}"
  shows "fold (overlay_step h) ps acc =
         acc @ map (\<lambda>e. (fst e, map_planet_to_natal_house (the (longitude (snd e))) h))
                   (filter (\<lambda>e. longitude (snd e) \<noteq> None) ps)"
  using assms
proof (induction ps arbitrary: acc)
  case Nil
  then show ?case by simp
next
  case (Cons e ps)
  show ?case
  proof (cases "longitude (snd e)")
    case None
    then have "fold (overlay_step h) (e # ps) acc = fold (overlay_step h) ps acc"
      by (simp add: overlay_step_def)
    moreover have "fst ` set acc \<inter> fst ` set ps = {}" using Cons.prems(2) by auto
    ultimately show ?thesis using Cons.IH [of acc] Cons.prems(1) None by simp
  next
    case (Some l)
    let ?acc' = "acc @ [(fst e, map_planet_to_natal_house l h)]"
    have fresh: "fst e \<notin> fst ` set acc" using Cons.prems(2) by auto
    then have step: "overlay_step h e acc = ?acc'"
      using Some by (simp add: overlay_step_def update_fresh_key)
    have "fst e \<notin> fst ` set ps" using Cons.prems(1) by auto
    then have "fst ` set ?acc' \<inter> fst ` set ps = {}" using Cons.prems(2) by auto
    then have "fold (overlay_step h) ps ?acc' =
         ?acc' @ map (\<lambda>e. (fst e, map_planet_to_natal_house (the (longitude (snd e))) h))
                   (filter (\<lambda>e. longitude (snd e) \<noteq> None) ps)"
      using Cons.IH [of ?acc'] Cons.prems(1) by simp
    then show ?thesis using step Some by simp
  qed
qed

lemma map_planet_to_natal_house_range:
  "1 \<le> map_planet_to_natal_house l h \<and> map_planet_to_natal_house l h \<le> 12"
proof (cases "get_planet_house (Some l) h")
  case None
  then show ?thesis by (simp add: map_planet_to_natal_house_def)
next
  case (Some n)
  then have "n \<in> {1..12}" using get_planet_house_mem [OF Some] house_cusp_list_fst [of h] by blast
  then show ?thesis using Some by (simp add: map_planet_to_natal_house_def)
qed

text \<open>
  C10. \<open>calculate_synastry_house_overlays\<close> raises \<open>ValueError\<close> when the
  target chart has no \<open>houses\<close> entry or an empty one. Otherwise it returns one
  entry, a house number from 1 to 12, for exactly the planets whose longitude is present,
  in their order, and leaves out every planet whose longitude is \<open>None\<close>. The
  keys of a Python dictionary are distinct, which is the hypothesis.
\<close>

theorem calculate_synastry_house_overlays_spec:
  assumes "distinct (map fst partner_planets)"
  shows "(houses c = None \<or> houses c = Some [] \<longrightarrow>
            calculate_synastry_house_overlays c partner_planets = Inl ValueError) \<and>
         (\<forall>h. houses c = Some h \<and> h \<noteq> [] \<longrightarrow>
            calculate_synastry_house_overlays c partner_planets =
              Inr (map (\<lambda>e. (fst e, map_planet_to_natal_house (the (longitude (snd e))) h))
                     (filter (\<lambda>e. longitude (snd e) \<noteq> None) partner_planets)) \<and>
            (\<forall>e \<in> set partner_planets. \<forall>l. longitude (snd e) = Some l \<longrightarrow>
               1 \<le> map_planet_to_natal_house l h \<and> map_planet_to_natal_house l h \<le> 12))"
proof (intro conjI impI allI)
  assume "houses c = None \<or> houses c = Some []"
  then show "calculate_synastry_house_overlays c partner_planets = Inl ValueError"
    by (auto simp: calculate_synastry_house_overlays_def)
next
  fix h
  assume h: "houses c = Some h \<and> h \<noteq> []"
  show "calculate_synastry_house_overlays c partner_planets =
              Inr (map (\<lambda>e. (fst e, map_planet_to_natal_house (the (longitude (snd e))) h))
                     (filter (\<lambda>e. longitude (snd e) \<noteq> None) partner_planets))"
    using h fold_overlay_step [OF assms, of "[]" h]
    by (simp add: calculate_synastry_house_overlays_def)
next
  fix h
  show "\<forall>e \<in> set partner_planets. \<forall>l. longitude (snd e) = Some l \<longrightarrow>
               1 \<le> map_planet_to_natal_house l h \<and> map_planet_to_natal_house l h \<le> 12"
    using map_planet_to_natal_house_range by blast
qed

text \<open>The theorem at a partner with the Sun at 5, the Moon unknown and Venus at 15.\<close>

theorem calculate_synastry_house_overlays_spec_witness:
  "distinct (map fst overlay_partner_planets) \<and>
   houses overlay_user_chart = Some wrap_cusps \<and> wrap_cusps \<noteq> [] \<and>
   calculate_synastry_house_overlays overlay_user_chart overlay_partner_planets =
     Inr [(''Sun'', 12), (''Venus'', 1)] \<and>
   calculate_synastry_house_overlays (overlay_user_chart\<lparr>houses := None\<rparr>) overlay_partner_planets =
     Inl ValueError \<and>
   calculate_synastry_house_overlays (overlay_user_chart\<lparr>houses := Some []\<rparr>) overlay_partner_planets =
     Inl ValueError"
proof -
  have d: "distinct (map fst overlay_partner_planets)"
    by (simp add: overlay_partner_planets_def)
  have h: "houses overlay_user_chart = Some wrap_cusps" "wrap_cusps \<noteq> []"
    by (simp_all add: overlay_user_chart_def wrap_cusps_def cusp_eval)
  have m: "map_planet_to_natal_house 5 wrap_cusps = 12" "map_planet_to_natal_house 15 wrap_cusps = 1"
    by (simp_all add: map_planet_to_natal_house_def get_planet_house_def house_cusp_list_def
        List.map_filter_def py_mod_def in_house_def wrap_cusps_def cusp_eval)
  show ?thesis
    using calculate_synastry_house_overlays_spec [OF d, of overlay_user_chart]
      calculate_synastry_house_overlays_spec [OF d, of "overlay_user_chart\<lparr>houses := None\<rparr>"]
      calculate_synastry_house_overlays_spec [OF d, of "overlay_user_chart\<lparr>houses := Some []\<rparr>"]
      d h m
    by (simp add: overlay_partner_planets_def body_at_def)
qed

section \<open>Properties of the aspect calculators\<close>

lemma get_orb_for_aspect_mono:
  "get_orb_for_aspect p1 p2 a False \<le> get_orb_for_aspect p1 p2 a True"
  by (simp add: get_orb_for_aspect_def Let_def)

lemma get_orb_for_aspect_le_10: "get_orb_for_aspect p1 p2 a w \<le> 10"
  by (simp add: get_orb_for_aspect_def Let_def)

lemma set_map_filter_mono:
  assumes "\<And>x y. x \<in> set xs \<Longrightarrow> f x = Some y \<Longrightarrow> g x = Some y"
  shows "set (List.map_filter f xs) \<subseteq> set (List.map_filter g xs)"
proof
  fix y assume "y \<in> set (List.map_filter f xs)"
  then obtain x where "x \<in> set xs" "f x = Some y"
    by (auto simp: List.map_filter_def)
  then have "x \<in> set xs" "g x = Some y" using assms by auto
  then show "y \<in> set (List.map_filter g xs)"
    by (force simp: List.map_filter_def)
qed

lemma pair_aspects_mono:
  "set (pair_aspects False p1 l1 p2 l2) \<subseteq> set (pair_aspects True p1 l1 p2 l2)"
  unfolding pair_aspects_def Let_def
proof (rule set_map_filter_mono)
  fix x :: "string \<times> real" and y
  assume "(case x of (aspect_name, ideal) \<Rightarrow>
            if \<bar>calculate_angle l1 l2 - ideal\<bar> \<le> get_orb_for_aspect p1 p2 aspect_name False
            then Some \<lparr>planet1 = p1, planet2 = p2, aspect = aspect_name,
                   angle = py_round_n (calculate_angle l1 l2) 2,
                   orb = py_round_n \<bar>calculate_angle l1 l2 - ideal\<bar> 2\<rparr>
            else None) = Some y"
  then show "(case x of (aspect_name, ideal) \<Rightarrow>
            if \<bar>calculate_angle l1 l2 - ideal\<bar> \<le> get_orb_for_aspect p1 p2 aspect_name True
            then Some \<lparr>planet1 = p1, planet2 = p2, aspect = aspect_name,
                   angle = py_round_n (calculate_angle l1 l2) 2,
                   orb = py_round_n \<bar>calculate_angle l1 l2 - ideal\<bar> 2\<rparr>
            else None) = Some y"
    using get_orb_for_aspect_mono [of p1 p2 "fst x"]
    by (cases x) (auto split: if_splits)
qed

lemma synastry_pair_aspects_mono:
  "set (synastry_pair_aspects False p1 l1 p2 l2) \<subseteq> set (synastry_pair_aspects True p1 l1 p2 l2)"
  unfolding synastry_pair_aspects_def Let_def
proof (rule set_map_filter_mono)
  fix x :: "string \<times> real" and y
  assume "(case x of (aspect_name, ideal) \<Rightarrow>
            if \<bar>calculate_angle l1 l2 - ideal\<bar> \<le> 180
            then if \<bar>calculate_angle l1 l2 - ideal\<bar> \<le> get_orb_for_aspect p1 p2 aspect_name False
              then Some \<lparr>planet1 = p1, planet2 = p2, aspect = aspect_name,
                   angle = py_round_n (calculate_angle l1 l2) 2,
                   orb = py_round_n \<bar>calculate_angle l1 l2 - ideal\<bar> 2\<rparr>
              else None
            else None) = Some y"
  then show "(case x of (aspect_name, ideal) \<Rightarrow>
            if \<bar>calculate_angle l1 l2 - ideal\<bar> \<le> 180
            then if \<bar>calculate_angle l1 l2 - ideal\<bar> \<le> get_orb_for_aspect p1 p2 aspect_name True
              then Some \<lparr>planet1 = p1, planet2 = p2, aspect = aspect_name,
                   angle = py_round_n (calculate_angle l1 l2) 2,
                   orb = py_round_n \<bar>calculate_angle l1 l2 - ideal\<bar> 2\<rparr>
              else None
            else None) = Some y"
    using get_orb_for_aspect_mono [of p1 p2 "fst x"]
    by (cases x) (auto split: if_splits)
qed

lemma aspects_between_mono:
  "set (aspects_between False pts) \<subseteq> set (aspects_between True pts)"
proof (induction pts)
  case Nil
  then show ?case by simp
next
  case (Cons p rest)
  have "set (concat (map (\<lambda>q. pair_aspects False (fst p) (snd p) (fst q) (snd q)) rest))
      \<subseteq> set (concat (map (\<lambda>q. pair_aspects True (fst p) (snd p) (fst q) (snd q)) rest))"
    using pair_aspects_mono by fastforce
  then show ?case using Cons.IH by auto
qed

lemma cross_mono:
  assumes "\<And>p q. set (f False p q) \<subseteq> set (f True p q)"
  shows "set (concat (map (\<lambda>p. concat (map (\<lambda>q. f False p q) ys)) xs))
       \<subseteq> set (concat (map (\<lambda>p. concat (map (\<lambda>q. f True p q) ys)) xs))"
  using assms by fastforce

text \<open>
  C6. Every aspect that one of the three calculators finds in exact mode
  (\<open>use_wider_orbs = False\<close>) is found in wide mode too, as the same entry: the same
  pair, the same kind, the same angle and the same orb. For every pair and kind the
  exact-mode maximum orb is at most the wide-mode one: 8 and 10 for the major kinds and
  5 and 6 for the minor kinds when neither point is Uranus, Neptune or Pluto, 5 and 6
  for the major and 4 and 5 for the minor kinds otherwise.
\<close>

theorem orb_monotonicity:
  "set (calculate_natal_aspects c False) \<subseteq> set (calculate_natal_aspects c True) \<and>
   set (calculate_synastry_aspects u p False) \<subseteq> set (calculate_synastry_aspects u p True) \<and>
   set (calculate_transit_aspects_to_natal n t False) \<subseteq> set (calculate_transit_aspects_to_natal n t True) \<and>
   get_orb_for_aspect p1 p2 a False \<le> get_orb_for_aspect p1 p2 a True \<and>
   get_orb_for_aspect p1 p2 a w =
     (if p1 \<in> set outer_planets \<or> p2 \<in> set outer_planets
      then (if a \<in> {''conjunction'', ''opposition'', ''square''}
            then (if w then 6 else 5) else (if w then 5 else 4))
      else (if a \<in> {''conjunction'', ''opposition'', ''square''}
            then (if w then 10 else 8) else (if w then 6 else 5)))"
proof (intro conjI)
  show "set (calculate_natal_aspects c False) \<subseteq> set (calculate_natal_aspects c True)"
    by (simp add: calculate_natal_aspects_def calculate_aspects_between_points_def
        aspects_between_mono)
  show "set (calculate_synastry_aspects u p False) \<subseteq> set (calculate_synastry_aspects u p True)"
    unfolding calculate_synastry_aspects_def Let_def set_sort
    by (rule cross_mono [of "\<lambda>w p q. synastry_pair_aspects w (fst p) (snd p) (fst q) (snd q)"])
       (rule synastry_pair_aspects_mono)
  show "set (calculate_transit_aspects_to_natal n t False)
        \<subseteq> set (calculate_transit_aspects_to_natal n t True)"
    unfolding calculate_transit_aspects_to_natal_def Let_def set_sort
    by (rule cross_mono [of "\<lambda>w p q. pair_aspects w (fst p) (snd p) (fst q) (snd q)"])
       (rule pair_aspects_mono)
  show "get_orb_for_aspect p1 p2 a False \<le> get_orb_for_aspect p1 p2 a True"
    by (rule get_orb_for_aspect_mono)
  show "get_orb_for_aspect p1 p2 a w =
     (if p1 \<in> set outer_planets \<or> p2 \<in> set outer_planets
      then (if a \<in> {''conjunction'', ''opposition'', ''square''}
            then (if w then 6 else 5) else (if w then 5 else 4))
      else (if a \<in> {''conjunction'', ''opposition'', ''square''}
            then (if w then 10 else 8) else (if w then 6 else 5)))"
    by (simp add: get_orb_for_aspect_def Let_def)
qed


lemmas chart_eval = three_body_chart_def two_body_chart_def chart_of_planets_def body_at_def
  collect_points_def add_angles_def

lemmas aspect_eval = calculate_natal_aspects_def calculate_aspects_between_points_def
  calculate_synastry_aspects_def calculate_transit_aspects_to_natal_def
  pair_aspects_def synastry_pair_aspects_def List.map_filter_def aspect_table_def
  calculate_angle_def py_mod_def py_round_n_def py_round_def get_orb_for_aspect_def
  outer_planets_def

text \<open>
  At the chart with the Sun at 0, the Moon at 9 and Mars at 93 the wide mode adds the
  conjunction of the Sun and the Moon (orb 9) to the two squares of the exact mode.
\<close>

theorem orb_monotonicity_witness:
  "calculate_natal_aspects three_body_chart False =
     [\<lparr>planet1 = ''Sun'', planet2 = ''Mars'', aspect = ''square'', angle = 93, orb = 3\<rparr>,
      \<lparr>planet1 = ''Moon'', planet2 = ''Mars'', aspect = ''square'', angle = 84, orb = 6\<rparr>] \<and>
   calculate_natal_aspects three_body_chart True =
     [\<lparr>planet1 = ''Sun'', planet2 = ''Mars'', aspect = ''square'', angle = 93, orb = 3\<rparr>,
      \<lparr>planet1 = ''Moon'', planet2 = ''Mars'', aspect = ''square'', angle = 84, orb = 6\<rparr>,
      \<lparr>planet1 = ''Sun'', planet2 = ''Moon'', aspect = ''conjunction'', angle = 9, orb = 9\<rparr>] \<and>
   set (calculate_natal_aspects three_body_chart False)
     \<subseteq> set (calculate_natal_aspects three_body_chart True) \<and>
   get_orb_for_aspect ''Sun'' ''Moon'' ''conjunction'' False = 8 \<and>
   get_orb_for_aspect ''Sun'' ''Moon'' ''conjunction'' True = 10"
proof -
  have e: "calculate_natal_aspects three_body_chart False =
     [\<lparr>planet1 = ''Sun'', planet2 = ''Mars'', aspect = ''square'', angle = 93, orb = 3\<rparr>,
      \<lparr>planet1 = ''Moon'', planet2 = ''Mars'', aspect = ''square'', angle = 84, orb = 6\<rparr>]"
    by (simp add: chart_eval aspect_eval)
  have w: "calculate_natal_aspects three_body_chart True =
     [\<lparr>planet1 = ''Sun'', planet2 = ''Mars'', aspect = ''square'', angle = 93, orb = 3\<rparr>,
      \<lparr>planet1 = ''Moon'', planet2 = ''Mars'', aspect = ''square'', angle = 84, orb = 6\<rparr>,
      \<lparr>planet1 = ''Sun'', planet2 = ''Moon'', aspect = ''conjunction'', angle = 9, orb = 9\<rparr>]"
    by (simp add: chart_eval aspect_eval)
  have o: "''Sun'' \<notin> set outer_planets" "''Moon'' \<notin> set outer_planets"
    by (simp_all add: outer_planets_def)
  have s: "set (calculate_natal_aspects three_body_chart False)
     \<subseteq> set (calculate_natal_aspects three_body_chart True) \<and>
     get_orb_for_aspect ''Sun'' ''Moon'' ''conjunction'' False = 8 \<and>
     get_orb_for_aspect ''Sun'' ''Moon'' ''conjunction'' True = 10"
    using orb_monotonicity [of three_body_chart _ _ _ _ "''Sun''" "''Moon''" "''conjunction''" False]
      orb_monotonicity [of three_body_chart _ _ _ _ "''Sun''" "''Moon''" "''conjunction''" True] o
    by simp
  show ?thesis using e w s by blast
qed

lemma calculate_angle_range: "0 \<le> calculate_angle a b \<and> calculate_angle a b \<le> 180"
proof -
  let ?d = "py_mod \<bar>a - b\<bar> 360"
  have "of_int \<lfloor>\<bar>a - b\<bar> / 360\<rfloor> \<le> \<bar>a - b\<bar> / 360" by (rule of_int_floor_le)
  then have lo: "0 \<le> ?d" by (simp add: py_mod_def field_simps)
  have "\<bar>a - b\<bar> / 360 < of_int \<lfloor>\<bar>a - b\<bar> / 360\<rfloor> + 1" by linarith
  then have hi: "?d < 360" by (simp add: py_mod_def field_simps)
  show ?thesis using lo hi by (auto simp: calculate_angle_def Let_def min_def)
qed

text \<open>Two different ideal angles of the table are at least 30 degrees apart.\<close>

lemma aspect_table_apart:
  assumes "(a1, i1) \<in> set aspect_table" and "(a2, i2) \<in> set aspect_table" and "a1 \<noteq> a2"
  shows "30 \<le> \<bar>i1 - i2\<bar>"
  using assms by (auto simp: aspect_table_def)

lemma in_pair_aspects:
  assumes "e \<in> set (pair_aspects w p1 l1 p2 l2)"
  shows "planet1 e = p1 \<and> planet2 e = p2 \<and>
         (\<exists>ideal. (aspect e, ideal) \<in> set aspect_table \<and> \<bar>calculate_angle l1 l2 - ideal\<bar> \<le> 10)"
proof -
  obtain x where x: "x \<in> set aspect_table"
    and fx: "(case x of (aspect_name, ideal) \<Rightarrow>
              if \<bar>calculate_angle l1 l2 - ideal\<bar> \<le> get_orb_for_aspect p1 p2 aspect_name w
              then Some \<lparr>planet1 = p1, planet2 = p2, aspect = aspect_name,
                     angle = py_round_n (calculate_angle l1 l2) 2,
                     orb = py_round_n \<bar>calculate_angle l1 l2 - ideal\<bar> 2\<rparr>
              else None) = Some e"
    using assms by (auto simp: pair_aspects_def Let_def List.map_filter_def)
  obtain nm ideal where xe: "x = (nm, ideal)" by (cases x)
  have le: "\<bar>calculate_angle l1 l2 - ideal\<bar> \<le> get_orb_for_aspect p1 p2 nm w"
    and e: "e = \<lparr>planet1 = p1, planet2 = p2, aspect = nm,
                     angle = py_round_n (calculate_angle l1 l2) 2,
                     orb = py_round_n \<bar>calculate_angle l1 l2 - ideal\<bar> 2\<rparr>"
    using fx xe by (auto split: if_splits)
  have "\<bar>calculate_angle l1 l2 - ideal\<bar> \<le> 10"
    using le get_orb_for_aspect_le_10 [of p1 p2 nm w] by linarith
  then show ?thesis using e x xe by auto
qed

lemma in_synastry_pair_aspects:
  assumes "e \<in> set (synastry_pair_aspects w p1 l1 p2 l2)"
  shows "planet1 e = p1 \<and> planet2 e = p2 \<and>
         (\<exists>ideal. (aspect e, ideal) \<in> set aspect_table \<and> \<bar>calculate_angle l1 l2 - ideal\<bar> \<le> 10)"
proof -
  obtain x where x: "x \<in> set aspect_table"
    and fx: "(case x of (aspect_name, ideal) \<Rightarrow>
              if \<bar>calculate_angle l1 l2 - ideal\<bar> \<le> 180
              then if \<bar>calculate_angle l1 l2 - ideal\<bar> \<le> get_orb_for_aspect p1 p2 aspect_name w
                then Some \<lparr>planet1 = p1, planet2 = p2, aspect = aspect_name,
                     angle = py_round_n (calculate_angle l1 l2) 2,
                     orb = py_round_n \<bar>calculate_angle l1 l2 - ideal\<bar> 2\<rparr>
                else None
              else None) = Some e"
    using assms unfolding synastry_pair_aspects_def Let_def by (auto simp: List.map_filter_def)
  obtain nm ideal where xe: "x = (nm, ideal)" by (cases x)
  have le: "\<bar>calculate_angle l1 l2 - ideal\<bar> \<le> get_orb_for_aspect p1 p2 nm w"
    and e: "e = \<lparr>planet1 = p1, planet2 = p2, aspect = nm,
                     angle = py_round_n (calculate_angle l1 l2) 2,
                     orb = py_round_n \<bar>calculate_angle l1 l2 - ideal\<bar> 2\<rparr>"
    using fx xe by (auto split: if_splits)
  have "\<bar>calculate_angle l1 l2 - ideal\<bar> \<le> 10"
    using le get_orb_for_aspect_le_10 [of p1 p2 nm w] by linarith
  then show ?thesis using e x xe by auto
qed

text \<open>One separation is within 10 degrees of at most one ideal angle.\<close>

lemma one_kind_per_angle:
  assumes "(a1, i1) \<in> set aspect_table" and "\<bar>ang - i1\<bar> \<le> 10"
    and "(a2, i2) \<in> set aspect_table" and "\<bar>ang - i2\<bar> \<le> 10"
  shows "a1 = a2"
proof (rule ccontr)
  assume "a1 \<noteq> a2"
  then have "30 \<le> \<bar>i1 - i2\<bar>" using aspect_table_apart assms(1,3) by blast
  then show False using assms(2,4) by linarith
qed


lemma pair_aspects_one_kind:
  assumes "e1 \<in> set (pair_aspects w p1 l1 p2 l2)" and "e2 \<in> set (pair_aspects w' p1 l1 p2 l2)"
  shows "aspect e1 = aspect e2"
  using in_pair_aspects [OF assms(1)] in_pair_aspects [OF assms(2)] one_kind_per_angle
  by blast

lemma synastry_pair_aspects_one_kind:
  assumes "e1 \<in> set (synastry_pair_aspects w p1 l1 p2 l2)"
    and "e2 \<in> set (synastry_pair_aspects w' p1 l1 p2 l2)"
  shows "aspect e1 = aspect e2"
  using in_synastry_pair_aspects [OF assms(1)] in_synastry_pair_aspects [OF assms(2)]
    one_kind_per_angle
  by blast

lemma distinct_key_item:
  assumes "distinct (map fst xs)" and "p \<in> set xs" and "p' \<in> set xs" and "fst p = fst p'"
  shows "p = p'"
proof -
  have "(fst p, snd p) \<in> set xs" "(fst p, snd p') \<in> set xs"
    using assms(2,3,4) by (metis prod.collapse)+
  then have "snd p = snd p'" using assms(1) by (rule eq_key_imp_eq_value [rotated])
  then show ?thesis using assms(4) by (simp add: prod_eq_iff)
qed

text \<open>
  A nested loop over two dictionaries with distinct keys: two entries for the same
  (first, second) names come from the same pair of items.
\<close>

lemma cross_one_kind:
  assumes dx: "distinct (map fst xs)" and dy: "distinct (map fst ys)"
    and names: "\<And>p q e. e \<in> set (f p q) \<Longrightarrow> planet1 e = fst p \<and> planet2 e = fst q"
    and one: "\<And>p q e1 e2. e1 \<in> set (f p q) \<Longrightarrow> e2 \<in> set (f p q) \<Longrightarrow> aspect e1 = aspect e2"
    and e1: "e1 \<in> set (concat (map (\<lambda>p. concat (map (\<lambda>q. f p q) ys)) xs))"
    and e2: "e2 \<in> set (concat (map (\<lambda>p. concat (map (\<lambda>q. f p q) ys)) xs))"
    and same: "planet1 e1 = planet1 e2" "planet2 e1 = planet2 e2"
  shows "aspect e1 = aspect e2"
proof -
  obtain p q where pq: "p \<in> set xs" "q \<in> set ys" "e1 \<in> set (f p q)" using e1 by auto
  obtain p' q' where pq': "p' \<in> set xs" "q' \<in> set ys" "e2 \<in> set (f p' q')" using e2 by auto
  have "fst p = fst p'" "fst q = fst q'"
    using names [OF pq(3)] names [OF pq'(3)] same by simp_all
  then have "p = p'" "q = q'"
    using distinct_key_item [OF dx pq(1) pq'(1)] distinct_key_item [OF dy pq(2) pq'(2)]
    by simp_all
  then show ?thesis using one pq(3) pq'(3) by blast
qed

lemma aspects_between_names:
  "e \<in> set (aspects_between w pts) \<Longrightarrow> planet1 e \<in> fst ` set pts \<and> planet2 e \<in> fst ` set pts"
proof (induction pts)
  case Nil
  then show ?case by simp
next
  case (Cons p rest)
  from Cons.prems consider
      (head) q where "q \<in> set rest" "e \<in> set (pair_aspects w (fst p) (snd p) (fst q) (snd q))"
    | (tail) "e \<in> set (aspects_between w rest)"
    by auto
  then show ?case
  proof cases
    case head
    then show ?thesis using in_pair_aspects [OF head(2)] by auto
  next
    case tail
    then show ?thesis using Cons.IH by auto
  qed
qed

lemma aspects_between_one_kind:
  assumes "distinct (map fst pts)"
    and "e1 \<in> set (aspects_between w pts)" and "e2 \<in> set (aspects_between w pts)"
    and "{planet1 e1, planet2 e1} = {planet1 e2, planet2 e2}"
  shows "aspect e1 = aspect e2"
  using assms
proof (induction pts)
  case Nil
  then show ?case by simp
next
  case (Cons p rest)
  have fresh: "fst p \<notin> fst ` set rest" and drest: "distinct (map fst rest)"
    using Cons.prems(1) by auto
  have split: "\<And>e. e \<in> set (aspects_between w (p # rest)) \<Longrightarrow>
      (\<exists>q \<in> set rest. e \<in> set (pair_aspects w (fst p) (snd p) (fst q) (snd q))) \<or>
      e \<in> set (aspects_between w rest)"
    by auto
  have head_names: "\<And>e q. q \<in> set rest \<Longrightarrow>
      e \<in> set (pair_aspects w (fst p) (snd p) (fst q) (snd q)) \<Longrightarrow>
      planet1 e = fst p \<and> planet2 e = fst q"
    using in_pair_aspects by blast
  have tail_names: "\<And>e. e \<in> set (aspects_between w rest) \<Longrightarrow>
      planet1 e \<noteq> fst p \<and> planet2 e \<noteq> fst p"
    using aspects_between_names fresh by metis
  from split [OF Cons.prems(2)] show ?case
  proof
    assume "\<exists>q \<in> set rest. e1 \<in> set (pair_aspects w (fst p) (snd p) (fst q) (snd q))"
    then obtain q where q: "q \<in> set rest"
      "e1 \<in> set (pair_aspects w (fst p) (snd p) (fst q) (snd q))" by blast
    have n1: "planet1 e1 = fst p" "planet2 e1 = fst q" using head_names [OF q] by simp_all
    from split [OF Cons.prems(3)] show ?thesis
    proof
      assume "\<exists>q' \<in> set rest. e2 \<in> set (pair_aspects w (fst p) (snd p) (fst q') (snd q'))"
      then obtain q' where q': "q' \<in> set rest"
        "e2 \<in> set (pair_aspects w (fst p) (snd p) (fst q') (snd q'))" by blast
      have n2: "planet1 e2 = fst p" "planet2 e2 = fst q'" using head_names [OF q'] by simp_all
      have "fst q \<in> fst ` set rest" "fst q' \<in> fst ` set rest"
        using q(1) q'(1) by simp_all
      then have "fst q \<noteq> fst p" "fst q' \<noteq> fst p" using fresh by metis+
      then have "fst q = fst q'" using Cons.prems(4) n1 n2 by (auto simp: doubleton_eq_iff)
      then have "q = q'" using distinct_key_item [OF drest q(1) q'(1)] by simp
      then show ?thesis using pair_aspects_one_kind q(2) q'(2) by blast
    next
      assume t: "e2 \<in> set (aspects_between w rest)"
      then have "planet1 e2 \<noteq> fst p \<and> planet2 e2 \<noteq> fst p" by (rule tail_names)
      then have False using Cons.prems(4) n1 by (auto simp: doubleton_eq_iff)
      then show ?thesis ..
    qed
  next
    assume t1: "e1 \<in> set (aspects_between w rest)"
    have ne1: "planet1 e1 \<noteq> fst p \<and> planet2 e1 \<noteq> fst p" using t1 by (rule tail_names)
    from split [OF Cons.prems(3)] show ?thesis
    proof
      assume "\<exists>q' \<in> set rest. e2 \<in> set (pair_aspects w (fst p) (snd p) (fst q') (snd q'))"
      then obtain q' where q': "q' \<in> set rest"
        "e2 \<in> set (pair_aspects w (fst p) (snd p) (fst q') (snd q'))" by blast
      have "planet1 e2 = fst p" using head_names [OF q'] by simp
      then have False using Cons.prems(4) ne1 by (auto simp: doubleton_eq_iff)
      then show ?thesis ..
    next
      assume t2: "e2 \<in> set (aspects_between w rest)"
      show ?thesis using Cons.IH [OF drest t1 t2 Cons.prems(4)] .
    qed
  qed
qed


lemma collect_points_distinct: "distinct (map fst (collect_points c))"
proof -
  have "distinct (map fst acc) \<Longrightarrow>
        distinct (map fst (fold (\<lambda>entry points.
             case longitude (snd entry) of
               None \<Rightarrow> points
             | Some lng \<Rightarrow> AList.update (fst entry) lng points) ps acc))" for ps acc
    by (induction ps arbitrary: acc) (auto simp: distinct_update split: option.splits)
  from this [of "[]"] show ?thesis unfolding collect_points_def by simp
qed

lemma add_angles_distinct: "distinct (map fst points) \<Longrightarrow> distinct (map fst (add_angles c points))"
  by (auto simp: add_angles_def Let_def distinct_update split: option.splits)

text \<open>
  C8. In every list returned by \<open>calculate_natal_aspects\<close>,
  \<open>calculate_synastry_aspects\<close> or \<open>calculate_transit_aspects_to_natal\<close>,
  each pair of points appears with at most one aspect kind. Within one chart a pair is
  the unordered pair of the two names. Across two charts \<open>planet1\<close> always names a
  point of the one chart and \<open>planet2\<close> a point of the other, so a pair of points
  is the pair (\<open>planet1\<close>, \<open>planet2\<close>). The reason is the one the claim gives:
  every maximum orb is at most 10 degrees and two different ideal angles are at least
  30 degrees apart.
\<close>

theorem one_aspect_kind_per_pair:
  "(\<forall>e1 \<in> set (calculate_natal_aspects c w). \<forall>e2 \<in> set (calculate_natal_aspects c w).
      {planet1 e1, planet2 e1} = {planet1 e2, planet2 e2} \<longrightarrow> aspect e1 = aspect e2) \<and>
   (\<forall>e1 \<in> set (calculate_synastry_aspects u p w). \<forall>e2 \<in> set (calculate_synastry_aspects u p w).
      planet1 e1 = planet1 e2 \<and> planet2 e1 = planet2 e2 \<longrightarrow> aspect e1 = aspect e2) \<and>
   (\<forall>e1 \<in> set (calculate_transit_aspects_to_natal n t w).
    \<forall>e2 \<in> set (calculate_transit_aspects_to_natal n t w).
      planet1 e1 = planet1 e2 \<and> planet2 e1 = planet2 e2 \<longrightarrow> aspect e1 = aspect e2) \<and>
   get_orb_for_aspect p1 p2 a w \<le> 10 \<and>
   (\<forall>x \<in> set aspect_table. \<forall>y \<in> set aspect_table. fst x \<noteq> fst y \<longrightarrow> 30 \<le> \<bar>snd x - snd y\<bar>)"
proof (intro conjI ballI impI)
  fix e1 e2
  assume "e1 \<in> set (calculate_natal_aspects c w)" "e2 \<in> set (calculate_natal_aspects c w)"
    and "{planet1 e1, planet2 e1} = {planet1 e2, planet2 e2}"
  then show "aspect e1 = aspect e2"
    using aspects_between_one_kind [of "add_angles c (collect_points c)" e1 w e2]
      add_angles_distinct [OF collect_points_distinct, of c c]
    by (simp add: calculate_natal_aspects_def calculate_aspects_between_points_def)
next
  fix e1 e2
  assume "e1 \<in> set (calculate_synastry_aspects u p w)" "e2 \<in> set (calculate_synastry_aspects u p w)"
    and "planet1 e1 = planet1 e2 \<and> planet2 e1 = planet2 e2"
  then show "aspect e1 = aspect e2"
    using cross_one_kind [of "add_angles u (collect_points u)" "collect_points p"
        "\<lambda>p q. synastry_pair_aspects w (fst p) (snd p) (fst q) (snd q)" e1 e2]
      add_angles_distinct [OF collect_points_distinct, of u u] collect_points_distinct [of p]
      in_synastry_pair_aspects synastry_pair_aspects_one_kind
    unfolding calculate_synastry_aspects_def Let_def set_sort by blast
next
  fix e1 e2
  assume "e1 \<in> set (calculate_transit_aspects_to_natal n t w)"
    "e2 \<in> set (calculate_transit_aspects_to_natal n t w)"
    and "planet1 e1 = planet1 e2 \<and> planet2 e1 = planet2 e2"
  then show "aspect e1 = aspect e2"
    using cross_one_kind [of "collect_points t" "collect_points n"
        "\<lambda>p q. pair_aspects w (fst p) (snd p) (fst q) (snd q)" e1 e2]
      collect_points_distinct [of t] collect_points_distinct [of n]
      in_pair_aspects pair_aspects_one_kind
    unfolding calculate_transit_aspects_to_natal_def Let_def set_sort by blast
next
  show "get_orb_for_aspect p1 p2 a w \<le> 10" by (rule get_orb_for_aspect_le_10)
next
  fix x y :: "string \<times> real"
  assume "x \<in> set aspect_table" "y \<in> set aspect_table" "fst x \<noteq> fst y"
  then show "30 \<le> \<bar>snd x - snd y\<bar>"
    using aspect_table_apart [of "fst x" "snd x" "fst y" "snd y"] by simp
qed

text \<open>The theorem at the two small charts: entries exist, and the pair Sun, Mars occurs once.\<close>

theorem one_aspect_kind_per_pair_witness:
  "\<lparr>planet1 = ''Sun'', planet2 = ''Mars'', aspect = ''square'', angle = 93, orb = 3\<rparr>
     \<in> set (calculate_natal_aspects three_body_chart True) \<and>
   \<lparr>planet1 = ''Sun'', planet2 = ''Venus'', aspect = ''trine'', angle = 120, orb = 0\<rparr>
     \<in> set (calculate_synastry_aspects three_body_chart two_body_chart False) \<and>
   \<lparr>planet1 = ''Venus'', planet2 = ''Sun'', aspect = ''trine'', angle = 120, orb = 0\<rparr>
     \<in> set (calculate_transit_aspects_to_natal three_body_chart two_body_chart True) \<and>
   (''trine'', 120) \<in> set aspect_table \<and> (''square'', 90) \<in> set aspect_table \<and>
   (30 :: real) \<le> \<bar>120 - 90\<bar> \<and>
   length (filter (\<lambda>e. {planet1 e, planet2 e} = {''Sun'', ''Mars''})
     (calculate_natal_aspects three_body_chart True)) = 1"
proof -
  have w: "calculate_natal_aspects three_body_chart True =
     [\<lparr>planet1 = ''Sun'', planet2 = ''Mars'', aspect = ''square'', angle = 93, orb = 3\<rparr>,
      \<lparr>planet1 = ''Moon'', planet2 = ''Mars'', aspect = ''square'', angle = 84, orb = 6\<rparr>,
      \<lparr>planet1 = ''Sun'', planet2 = ''Moon'', aspect = ''conjunction'', angle = 9, orb = 9\<rparr>]"
    by (simp add: chart_eval aspect_eval)
  have s: "calculate_synastry_aspects three_body_chart two_body_chart False =
     [\<lparr>planet1 = ''Sun'', planet2 = ''Venus'', aspect = ''trine'', angle = 120, orb = 0\<rparr>,
      \<lparr>planet1 = ''Mars'', planet2 = ''Pluto'', aspect = ''square'', angle = 183 / 2, orb = 3 / 2\<rparr>,
      \<lparr>planet1 = ''Sun'', planet2 = ''Pluto'', aspect = ''opposition'', angle = 351 / 2, orb = 9 / 2\<rparr>,
      \<lparr>planet1 = ''Moon'', planet2 = ''Pluto'', aspect = ''opposition'', angle = 351 / 2, orb = 9 / 2\<rparr>]"
    by (simp add: chart_eval aspect_eval)
  have t: "calculate_transit_aspects_to_natal three_body_chart two_body_chart True =
     [\<lparr>planet1 = ''Venus'', planet2 = ''Sun'', aspect = ''trine'', angle = 120, orb = 0\<rparr>,
      \<lparr>planet1 = ''Pluto'', planet2 = ''Mars'', aspect = ''square'', angle = 183 / 2, orb = 3 / 2\<rparr>,
      \<lparr>planet1 = ''Pluto'', planet2 = ''Sun'', aspect = ''opposition'', angle = 351 / 2, orb = 9 / 2\<rparr>,
      \<lparr>planet1 = ''Pluto'', planet2 = ''Moon'', aspect = ''opposition'', angle = 351 / 2, orb = 9 / 2\<rparr>]"
    by (simp add: chart_eval aspect_eval)
  have tab: "(''trine'', 120) \<in> set aspect_table" "(''square'', 90) \<in> set aspect_table"
    by (simp_all add: aspect_table_def)
  have f: "length (filter (\<lambda>e. {planet1 e, planet2 e} = {''Sun'', ''Mars''})
     (calculate_natal_aspects three_body_chart True)) = 1"
    unfolding w by (simp add: doubleton_eq_iff)
  show ?thesis
    using one_aspect_kind_per_pair [of three_body_chart True three_body_chart two_body_chart
        three_body_chart two_body_chart] w s t tab f
    by simp
qed

section \<open>Properties of the transit aspect classifier\<close>

lemma aspect_loop_None_Some:
  "aspect_loop diff n None asp best = Some m \<Longrightarrow>
   best = Some m \<or>
   (\<exists>a \<in> set asp. \<bar>diff - snd a\<bar> \<le> MAX_ORB_SEPARATING \<and>
      m = \<lparr>info_aspect = fst a, angle_deg = snd a,
            info_orb = py_round_n \<bar>diff - snd a\<bar> 4, is_applying = False\<rparr>)"
proof (induction asp arbitrary: best)
  case Nil
  then show ?case by simp
next
  case (Cons a rest)
  let ?found = "\<lparr>info_aspect = fst a, angle_deg = snd a,
            info_orb = py_round_n \<bar>diff - snd a\<bar> 4, is_applying = False\<rparr>"
  let ?best' = "(if \<bar>diff - snd a\<bar> \<le> MAX_ORB_SEPARATING
             then (case best of
                     None \<Rightarrow> Some ?found
                   | Some b \<Rightarrow> if \<bar>diff - snd a\<bar> < info_orb b then Some ?found else best)
             else best)"
  have step: "aspect_loop diff n None (a # rest) best = aspect_loop diff n None rest ?best'"
    by (cases best) (simp_all add: Let_def)
  then have "aspect_loop diff n None rest ?best' = Some m" using Cons.prems by simp
  from Cons.IH [OF this] consider (kept) "?best' = Some m"
    | (later) "\<exists>a \<in> set rest. \<bar>diff - snd a\<bar> \<le> MAX_ORB_SEPARATING \<and>
      m = \<lparr>info_aspect = fst a, angle_deg = snd a,
            info_orb = py_round_n \<bar>diff - snd a\<bar> 4, is_applying = False\<rparr>"
    by blast
  then show ?case
  proof cases
    case kept
    then show ?thesis by (auto split: if_splits option.splits)
  next
    case later
    then show ?thesis by auto
  qed
qed

lemma aspect_loop_None_None:
  "aspect_loop diff n None asp best = None \<longleftrightarrow>
   best = None \<and> (\<forall>a \<in> set asp. MAX_ORB_SEPARATING < \<bar>diff - snd a\<bar>)"
proof (induction asp arbitrary: best)
  case Nil
  then show ?case by simp
next
  case (Cons a rest)
  show ?case
    by (simp add: Let_def Cons.IH split: option.splits)
qed

text \<open>
  C9. Called without a previous-day longitude, \<open>_calculate_aspect_exact\<close> uses the
  separating maximum orb, 1.0 degree, and not the applying one, 1.5 degrees: it returns
  nothing exactly when every ideal angle is more than 1.0 degree from the separation,
  and an aspect it returns lies within 1.0 degree and carries \<open>is_applying = False\<close>.
\<close>

theorem calculate_aspect_exact_without_previous:
  "(calculate_aspect_exact t n None = None \<longleftrightarrow>
      (\<forall>a \<in> set ASPECTS.
         MAX_ORB_SEPARATING < \<bar>arc_diff (normalize_angle t) (normalize_angle n) - snd a\<bar>)) \<and>
   (\<forall>m. calculate_aspect_exact t n None = Some m \<longrightarrow>
      is_applying m = False \<and> (info_aspect m, angle_deg m) \<in> set ASPECTS \<and>
      \<bar>arc_diff (normalize_angle t) (normalize_angle n) - angle_deg m\<bar> \<le> MAX_ORB_SEPARATING \<and>
      info_orb m = py_round_n \<bar>arc_diff (normalize_angle t) (normalize_angle n) - angle_deg m\<bar> 4) \<and>
   MAX_ORB_SEPARATING = 1 \<and> MAX_ORB_APPLYING = 3 / 2"
proof (intro conjI allI impI)
  show "calculate_aspect_exact t n None = None \<longleftrightarrow>
      (\<forall>a \<in> set ASPECTS.
         MAX_ORB_SEPARATING < \<bar>arc_diff (normalize_angle t) (normalize_angle n) - snd a\<bar>)"
    by (simp add: calculate_aspect_exact_def Let_def aspect_loop_None_None)
next
  fix m
  assume "calculate_aspect_exact t n None = Some m"
  then have "aspect_loop (arc_diff (normalize_angle t) (normalize_angle n)) (normalize_angle n)
      None ASPECTS None = Some m"
    by (simp add: calculate_aspect_exact_def Let_def)
  from aspect_loop_None_Some [OF this]
  obtain a where a: "a \<in> set ASPECTS"
    "\<bar>arc_diff (normalize_angle t) (normalize_angle n) - snd a\<bar> \<le> MAX_ORB_SEPARATING"
    "m = \<lparr>info_aspect = fst a, angle_deg = snd a,
          info_orb = py_round_n \<bar>arc_diff (normalize_angle t) (normalize_angle n) - snd a\<bar> 4,
          is_applying = False\<rparr>"
    by auto
  show "is_applying m = False" using a(3) by simp
  show "(info_aspect m, angle_deg m) \<in> set ASPECTS" using a(1,3) by simp
  show "\<bar>arc_diff (normalize_angle t) (normalize_angle n) - angle_deg m\<bar> \<le> MAX_ORB_SEPARATING"
    using a(2,3) by simp
  show "info_orb m = py_round_n \<bar>arc_diff (normalize_angle t) (normalize_angle n) - angle_deg m\<bar> 4"
    using a(3) by simp
next
  show "MAX_ORB_SEPARATING = 1" by (simp add: MAX_ORB_SEPARATING_def)
  show "MAX_ORB_APPLYING = 3 / 2" by (simp add: MAX_ORB_APPLYING_def)
qed

lemmas exact_eval = calculate_aspect_exact_def normalize_angle_def arc_diff_def ASPECTS_def
  MAX_ORB_SEPARATING_def MAX_ORB_APPLYING_def py_round_n_def py_round_def Let_def

text \<open>
  At a separation of 0.8 the conjunction is found; at 1.2 it is not, although with a
  previous-day longitude of 2 (an applying transit) the same separation is accepted.
\<close>

theorem calculate_aspect_exact_without_previous_witness:
  "calculate_aspect_exact (4 / 5) 0 None =
     Some \<lparr>info_aspect = ''Conjunction'', angle_deg = 0, info_orb = 4 / 5, is_applying = False\<rparr> \<and>
   calculate_aspect_exact (6 / 5) 0 None = None \<and>
   calculate_aspect_exact (6 / 5) 0 (Some 2) =
     Some \<lparr>info_aspect = ''Conjunction'', angle_deg = 0, info_orb = 6 / 5, is_applying = True\<rparr>"
proof -
  have n1: "normalize_angle (4 / 5) = 4 / 5" "normalize_angle 0 = 0" "normalize_angle (6 / 5) = 6 / 5"
    "normalize_angle 2 = 2"
    by (simp_all add: normalize_angle_fixed)
  have far: "\<forall>a \<in> set ASPECTS.
         MAX_ORB_SEPARATING < \<bar>arc_diff (normalize_angle (6 / 5)) (normalize_angle 0) - snd a\<bar>"
    by (simp add: n1 arc_diff_def ASPECTS_def MAX_ORB_SEPARATING_def)
  have a: "calculate_aspect_exact (6 / 5) 0 None = None"
    using calculate_aspect_exact_without_previous [of "6 / 5" 0] far by blast
  have b: "calculate_aspect_exact (4 / 5) 0 None =
     Some \<lparr>info_aspect = ''Conjunction'', angle_deg = 0, info_orb = 4 / 5, is_applying = False\<rparr>"
    by (simp add: calculate_aspect_exact_def n1 arc_diff_def ASPECTS_def
        MAX_ORB_SEPARATING_def MAX_ORB_APPLYING_def py_round_n_def py_round_def Let_def)
  have c: "calculate_aspect_exact (6 / 5) 0 (Some 2) =
     Some \<lparr>info_aspect = ''Conjunction'', angle_deg = 0, info_orb = 6 / 5, is_applying = True\<rparr>"
    by (simp add: calculate_aspect_exact_def n1 arc_diff_def ASPECTS_def
        MAX_ORB_SEPARATING_def MAX_ORB_APPLYING_def py_round_n_def py_round_def Let_def)
  show ?thesis using a b c by simp
qed

section \<open>Properties of the retrograde-station detector\<close>

lemma retrograde_step_same:
  "station_view nm (retrograde_step P dt (nm, b) st) = station_one P dt nm b (station_view nm st)"
proof (cases "get_planet_position P (datetime_to_jd P dt) b")
  case (Inl e)
  then show ?thesis by (simp add: retrograde_step_def station_one_def station_view_def)
next
  case (Inr r)
  obtain lng spd where r: "r = (lng, spd)" by (cases r)
  show ?thesis
  proof (cases "snd st nm")
    case None
    then show ?thesis
      using Inr r by (simp add: retrograde_step_def station_one_def station_view_def)
  next
    case (Some prev_speed)
    then show ?thesis
      using Inr r by (simp add: retrograde_step_def station_one_def station_view_def Let_def)
  qed
qed

lemma retrograde_step_other:
  assumes "fst pl \<noteq> nm"
  shows "station_view nm (retrograde_step P dt pl st) = station_view nm st"
proof (cases "get_planet_position P (datetime_to_jd P dt) (snd pl)")
  case (Inl e)
  then show ?thesis by (simp add: retrograde_step_def)
next
  case (Inr r)
  obtain lng spd where r: "r = (lng, spd)" by (cases r)
  show ?thesis
  proof (cases "snd st (fst pl)")
    case None
    then show ?thesis
      using Inr r assms by (simp add: retrograde_step_def station_view_def)
  next
    case (Some prev_speed)
    then show ?thesis
      using Inr r assms by (simp add: retrograde_step_def station_view_def Let_def)
  qed
qed

lemma fold_retrograde_step_other:
  assumes "nm \<notin> fst ` set pls"
  shows "station_view nm (fold (retrograde_step P dt) pls st) = station_view nm st"
  using assms
proof (induction pls arbitrary: st)
  case Nil
  then show ?case by simp
next
  case (Cons pl pls)
  then have "fst pl \<noteq> nm" "nm \<notin> fst ` set pls" by auto
  then show ?case using Cons.IH [of "retrograde_step P dt pl st"] retrograde_step_other by simp
qed

lemma fold_retrograde_step_view:
  assumes "distinct (map fst pls)" and "(nm, b) \<in> set pls"
  shows "station_view nm (fold (retrograde_step P dt) pls st) = station_one P dt nm b (station_view nm st)"
  using assms
proof (induction pls arbitrary: st)
  case Nil
  then show ?case by simp
next
  case (Cons pl pls)
  show ?case
  proof (cases "pl = (nm, b)")
    case True
    then have "nm \<notin> fst ` set pls" using Cons.prems(1) by auto
    then show ?thesis
      using True fold_retrograde_step_other [of nm pls P dt "retrograde_step P dt (nm, b) st"]
        retrograde_step_same [of nm P dt b st]
      by simp
  next
    case False
    then have mem: "(nm, b) \<in> set pls" using Cons.prems(2) by simp
    then have "nm \<in> fst ` set pls" by force
    then have "fst pl \<noteq> nm" using Cons.prems(1) by auto
    then show ?thesis
      using Cons.IH [OF _ mem, of "retrograde_step P dt pl st"] Cons.prems(1)
        retrograde_step_other [of pl nm P dt st]
      by simp
  qed
qed

lemma detect_retrograde_stations_view:
  assumes "(nm, b) \<in> set RETROGRADE_PLANETS"
  shows "station_view nm (detect_retrograde_stations P dt st) =
         station_one P dt nm b (station_view nm st)"
  unfolding detect_retrograde_stations_def
  by (rule fold_retrograde_step_view [OF _ assms]) (simp add: RETROGRADE_PLANETS_def)


lemma station_one_stores:
  assumes "get_planet_position P (datetime_to_jd P dt) b = Inr (lng, spd)"
  shows "snd (station_one P dt nm b v) = Some spd"
  using assms by (cases "snd v") (simp_all add: station_one_def)

text \<open>
  C5. Let one body of \<open>RETROGRADE_PLANETS\<close> have the speeds 0.5, 0.1, -0.2, -0.4 on
  four consecutive days, and run the detector on these days from a new scanner. Among
  the events of that body there is exactly one, a RETROGRADE event with direction
  \<open>retrograde\<close>, dated the third day (the step from index 1 to index 2), and none
  with direction \<open>direct\<close>. After each day the stored speed of the body is that
  day's speed; and, in general, whenever the position of the body is available the
  detector stores its speed, whether or not a station fired.
\<close>

theorem retrograde_series:
  assumes mem: "(nm, b) \<in> set RETROGRADE_PLANETS"
    and s0: "get_planet_position P (datetime_to_jd P d) b = Inr (l0, 1 / 2)"
    and s1: "get_planet_position P (datetime_to_jd P (d + 1)) b = Inr (l1, 1 / 10)"
    and s2: "get_planet_position P (datetime_to_jd P (d + 2)) b = Inr (l2, - (1 / 5))"
    and s3: "get_planet_position P (datetime_to_jd P (d + 3)) b = Inr (l3, - (2 / 5))"
  shows "filter (\<lambda>e. ev_planet e = nm)
           (fst (run_retrograde_detector P [d, d + 1, d + 2, d + 3] ([], Map.empty))) =
         [Retrograde (strftime_ymd P (d + 2)) nm ''retrograde''
            (nm @ '' turns Retrograde in '' @ dms_sign (decimal_to_dms l2))
            (nm @ '' turns Retrograde in '' @ dms_sign (decimal_to_dms l2))
            (dms_str (decimal_to_dms l2))] \<and>
         snd (run_retrograde_detector P [d] ([], Map.empty)) nm = Some (1 / 2) \<and>
         snd (run_retrograde_detector P [d, d + 1] ([], Map.empty)) nm = Some (1 / 10) \<and>
         snd (run_retrograde_detector P [d, d + 1, d + 2] ([], Map.empty)) nm = Some (- (1 / 5)) \<and>
         snd (run_retrograde_detector P [d, d + 1, d + 2, d + 3] ([], Map.empty)) nm = Some (- (2 / 5)) \<and>
         (\<forall>dt st lng spd. get_planet_position P (datetime_to_jd P dt) b = Inr (lng, spd) \<longrightarrow>
            snd (detect_retrograde_stations P dt st) nm = Some spd)"
proof -
  note view = detect_retrograde_stations_view [OF mem]
  let ?st0 = "([], Map.empty) :: event list \<times> (string \<rightharpoonup> real)"
  let ?st1 = "detect_retrograde_stations P d ?st0"
  let ?st2 = "detect_retrograde_stations P (d + 1) ?st1"
  let ?st3 = "detect_retrograde_stations P (d + 2) ?st2"
  let ?st4 = "detect_retrograde_stations P (d + 3) ?st3"
  let ?ev = "Retrograde (strftime_ymd P (d + 2)) nm ''retrograde''
            (nm @ '' turns Retrograde in '' @ dms_sign (decimal_to_dms l2))
            (nm @ '' turns Retrograde in '' @ dms_sign (decimal_to_dms l2))
            (dms_str (decimal_to_dms l2))"
  have v0: "station_view nm ?st0 = ([], None)" by (simp add: station_view_def)
  have v1: "station_view nm ?st1 = ([], Some (1 / 2))"
    using view [of P d ?st0] s0 v0 by (simp add: station_one_def)
  have v2: "station_view nm ?st2 = ([], Some (1 / 10))"
    using view [of P "d + 1" ?st1] s1 v1 by (simp add: station_one_def)
  have v3: "station_view nm ?st3 = ([?ev], Some (- (1 / 5)))"
    using view [of P "d + 2" ?st2] s2 v2 by (simp add: station_one_def)
  have v4: "station_view nm ?st4 = ([?ev], Some (- (2 / 5)))"
    using view [of P "d + 3" ?st3] s3 v3 by (simp add: station_one_def)
  have upd: "\<forall>dt st lng spd. get_planet_position P (datetime_to_jd P dt) b = Inr (lng, spd) \<longrightarrow>
            snd (detect_retrograde_stations P dt st) nm = Some spd"
  proof (intro allI impI)
    fix dt st lng spd
    assume g: "get_planet_position P (datetime_to_jd P dt) b = Inr (lng, spd)"
    have "snd (station_view nm (detect_retrograde_stations P dt st)) = Some spd"
      unfolding view by (rule station_one_stores [OF g])
    then show "snd (detect_retrograde_stations P dt st) nm = Some spd"
      by (simp add: station_view_def)
  qed
  show ?thesis
    using v1 v2 v3 v4 upd
    by (simp add: run_retrograde_detector_def station_view_def)
qed

lemmas demo_eval = demo_platform_def demo_longitude_def demo_speed_def datetime_to_jd_def
  get_planet_position_def

text \<open>The theorem for Mercury on the synthetic platform, from 31 December 2023.\<close>

theorem retrograde_series_witness:
  "(''Mercury'', Mercury) \<in> set RETROGRADE_PLANETS \<and>
   get_planet_position demo_platform (datetime_to_jd demo_platform 738885) Mercury = Inr (270, 1 / 2) \<and>
   get_planet_position demo_platform (datetime_to_jd demo_platform 738888) Mercury = Inr (270, - (2 / 5)) \<and>
   filter (\<lambda>e. ev_planet e = ''Mercury'')
     (fst (run_retrograde_detector demo_platform [738885, 738886, 738887, 738888] ([], Map.empty))) =
     [Retrograde ''2024-01-02'' ''Mercury'' ''retrograde'' ''Mercury turns Retrograde in Capricorn''
        ''Mercury turns Retrograde in Capricorn'' (''Capricorn 0'' @ [CHR 0xB0] @ ''00'' @ [CHR 39])] \<and>
   snd (run_retrograde_detector demo_platform [738885, 738886] ([], Map.empty)) ''Mercury''
     = Some (1 / 10)"
proof -
  have m: "(''Mercury'', Mercury) \<in> set RETROGRADE_PLANETS" by (simp add: RETROGRADE_PLANETS_def)
  have s0: "get_planet_position demo_platform (datetime_to_jd demo_platform 738885) Mercury
      = Inr (270, 1 / 2)"
    by (simp add: demo_eval)
  have s1: "get_planet_position demo_platform (datetime_to_jd demo_platform (738885 + 1)) Mercury
      = Inr (270, 1 / 10)"
    by (simp add: demo_eval)
  have s2: "get_planet_position demo_platform (datetime_to_jd demo_platform (738885 + 2)) Mercury
      = Inr (270, - (1 / 5))"
    by (simp add: demo_eval)
  have s3: "get_planet_position demo_platform (datetime_to_jd demo_platform (738885 + 3)) Mercury
      = Inr (270, - (2 / 5))"
    by (simp add: demo_eval)
  have f: "strftime_ymd demo_platform (738885 + 2) = ''2024-01-02''"
    by (simp add: demo_platform_def fmt_02d_def str_int_def digit_char_def)
  have dm: "dms_sign (decimal_to_dms 270) = ''Capricorn''"
    "dms_str (decimal_to_dms 270) = ''Capricorn 0'' @ [CHR 0xB0] @ ''00'' @ [CHR 39]"
    by (simp_all add: decimal_to_dms_def py_trunc_def py_mod_def py_round_def signs_def str_int_def
        fmt_02d_def digit_char_def Let_def)
  show ?thesis
    using retrograde_series [OF m s0 s1 s2 s3] m s0 s3 f dm by simp
qed

section \<open>Properties of the lunation detector within the scan\<close>

lemma detect_lunations_append:
  "detect_lunations_and_eclipses P dt lat lon events =
   events @ detect_lunations_and_eclipses P dt lat lon []"
  by (simp add: detect_lunations_and_eclipses_def Let_def split: sum.splits prod.splits)

lemma detect_lunations_day:
  "detect_lunations_and_eclipses P dt lat lon [] =
     (if in_lunation_window P dt
      then [hd (detect_lunations_and_eclipses P dt lat lon [])]
      else []) \<and>
   (in_lunation_window P dt \<longrightarrow>
      ev_date (hd (detect_lunations_and_eclipses P dt lat lon [])) = strftime_ymd P dt \<and>
      ev_type (hd (detect_lunations_and_eclipses P dt lat lon [])) =
        (if eclipse_confirmed P dt lat lon then ''ECLIPSE'' else ''LUNATION''))"
  by (simp add: detect_lunations_and_eclipses_def in_lunation_window_def eclipse_confirmed_def
      sun_moon_separation_def Let_def split: sum.splits prod.splits)


lemma retrograde_step_no_lunation:
  "filter is_lunation_or_eclipse (fst (retrograde_step P dt pl st)) =
   filter is_lunation_or_eclipse (fst st)"
proof (cases "get_planet_position P (datetime_to_jd P dt) (snd pl)")
  case (Inl e)
  then show ?thesis by (simp add: retrograde_step_def)
next
  case (Inr r)
  obtain lng spd where r: "r = (lng, spd)" by (cases r)
  show ?thesis
  proof (cases "snd st (fst pl)")
    case None
    then show ?thesis using Inr r by (simp add: retrograde_step_def)
  next
    case (Some prev_speed)
    then show ?thesis
      using Inr r by (simp add: retrograde_step_def Let_def is_lunation_or_eclipse_def)
  qed
qed

lemma detect_retrograde_no_lunation:
  "filter is_lunation_or_eclipse (fst (detect_retrograde_stations P dt st)) =
   filter is_lunation_or_eclipse (fst st)"
proof -
  have "filter is_lunation_or_eclipse (fst (fold (retrograde_step P dt) pls st)) =
        filter is_lunation_or_eclipse (fst st)" for pls
    by (induction pls arbitrary: st) (simp_all add: retrograde_step_no_lunation)
  then show ?thesis by (simp add: detect_retrograde_stations_def)
qed

lemma ingress_step_no_lunation:
  "filter is_lunation_or_eclipse (fst (ingress_step P dt pl st)) =
   filter is_lunation_or_eclipse (fst st)"
  by (cases "get_planet_position P (datetime_to_jd P dt) (snd pl)")
     (auto simp: ingress_step_def Let_def is_lunation_or_eclipse_def split: prod.splits)

lemma fold_ingress_no_lunation:
  "filter is_lunation_or_eclipse (fst (fold (ingress_step P dt) pls st)) =
   filter is_lunation_or_eclipse (fst st)"
  by (induction pls arbitrary: st) (simp_all add: ingress_step_no_lunation)

lemma transit_targets_no_lunation:
  "filter is_lunation_or_eclipse (transit_targets P dt c tg nm tlong ptlong targets events) =
   filter is_lunation_or_eclipse events"
proof (induction targets arbitrary: events)
  case Nil
  then show ?case by simp
next
  case (Cons t targets)
  have nt: "\<not> is_lunation_or_eclipse (Transit a1 a2 a3 a4 a5 a6 a7 a8 a9 a10 a11 a12)"
    for a1 a2 a3 a4 a5 a6 a7 a8 a9 a10 a11 a12
    by (simp add: is_lunation_or_eclipse_def)
  show ?case
    by (simp add: Cons.IH Let_def nt split: option.splits)
qed

lemma transit_step_no_lunation:
  "filter is_lunation_or_eclipse (transit_step P dt c tg pl events) =
   filter is_lunation_or_eclipse events"
  by (simp add: transit_step_def Let_def transit_targets_no_lunation split: sum.splits prod.splits)

lemma detect_transits_no_lunation:
  "filter is_lunation_or_eclipse (detect_transits_to_natal P dt c events tg) =
   filter is_lunation_or_eclipse events"
proof -
  have "filter is_lunation_or_eclipse (fold (transit_step P dt c tg) pls events) =
        filter is_lunation_or_eclipse events" for pls
    by (induction pls arbitrary: events) (simp_all add: transit_step_no_lunation)
  then show ?thesis by (simp add: detect_transits_to_natal_def)
qed

lemma detect_lunations_all_kind:
  "filter is_lunation_or_eclipse (detect_lunations_and_eclipses P dt lat lon []) =
   detect_lunations_and_eclipses P dt lat lon []"
  by (simp add: detect_lunations_and_eclipses_def Let_def is_lunation_or_eclipse_def
      split: sum.splits prod.splits)

lemma scan_day_lunations:
  "filter is_lunation_or_eclipse (events_of (scan_day P c lat lon pc dt st)) =
   filter is_lunation_or_eclipse (events_of st) @ detect_lunations_and_eclipses P dt lat lon []"
proof -
  obtain ev1 speeds where r: "detect_retrograde_stations P dt (events_of st, prev_speeds st) = (ev1, speeds)"
    by (cases "detect_retrograde_stations P dt (events_of st, prev_speeds st)")
  let ?ev2 = "detect_lunations_and_eclipses P dt lat lon ev1"
  obtain ev3 sgns where i: "fold (ingress_step P dt) INGRESS_PLANETS (?ev2, prev_signs st) = (ev3, sgns)"
    by (cases "fold (ingress_step P dt) INGRESS_PLANETS (?ev2, prev_signs st)")
  have f1: "filter is_lunation_or_eclipse ev1 = filter is_lunation_or_eclipse (events_of st)"
    using detect_retrograde_no_lunation [of P dt "(events_of st, prev_speeds st)"] r by simp
  have f2: "filter is_lunation_or_eclipse ?ev2 =
      filter is_lunation_or_eclipse ev1 @ detect_lunations_and_eclipses P dt lat lon []"
    using detect_lunations_append [of P dt lat lon ev1] detect_lunations_all_kind [of P dt lat lon]
    by (metis filter_append)
  have f3: "filter is_lunation_or_eclipse ev3 = filter is_lunation_or_eclipse ?ev2"
    using fold_ingress_no_lunation [of P dt INGRESS_PLANETS "(?ev2, prev_signs st)"] i by simp
  show ?thesis
    using r i f1 f2 f3
    by (cases pc) (simp_all add: scan_day_def Let_def detect_transits_no_lunation)
qed

lemma scan_loop_lunations:
  "scan_loop P c lat lon pc cur end_dt st = Inr st' \<Longrightarrow>
   filter is_lunation_or_eclipse (events_of st') =
   filter is_lunation_or_eclipse (events_of st) @
   concat (map (\<lambda>dt. detect_lunations_and_eclipses P dt lat lon []) [cur..end_dt])"
proof (induction P c lat lon pc cur end_dt st rule: scan_loop.induct)
  case (1 P c lat lon pc cur end_dt st)
  show ?case
  proof (cases "cur \<le> end_dt")
    case False
    then have "st' = st" using "1.prems" by (subst (asm) scan_loop.simps) simp
    moreover have "[cur..end_dt] = []" using False by simp
    ultimately show ?thesis by simp
  next
    case True
    let ?st1 = "scan_day P c lat lon pc cur st"
    from "1.prems" True obtain nxt where nxt: "add_days cur 1 = Inr nxt"
      and rec: "scan_loop P c lat lon pc nxt end_dt ?st1 = Inr st'"
      by (subst (asm) scan_loop.simps) (auto simp: Let_def split: sum.splits)
    have n: "nxt = cur + 1" using nxt by (auto simp: add_days_def split: if_splits)
    have ih: "filter is_lunation_or_eclipse (events_of st') =
        filter is_lunation_or_eclipse (events_of ?st1) @
        concat (map (\<lambda>dt. detect_lunations_and_eclipses P dt lat lon []) [nxt..end_dt])"
      using "1.IH" [OF True refl nxt rec] .
    have "[cur..end_dt] = cur # [nxt..end_dt]" using True n by (simp add: upto.simps)
    then show ?thesis using ih scan_day_lunations [of P c lat lon pc cur st] by simp
  qed
qed

lemma scan_loop_returns:
  "MIN_ORDINAL \<le> cur \<Longrightarrow> end_dt < MAX_ORDINAL \<Longrightarrow>
   \<exists>st'. scan_loop P c lat lon pc cur end_dt st = Inr st'"
proof (induction P c lat lon pc cur end_dt st rule: scan_loop.induct)
  case (1 P c lat lon pc cur end_dt st)
  show ?case
  proof (cases "cur \<le> end_dt")
    case False
    then show ?thesis by (subst scan_loop.simps) simp
  next
    case True
    have nxt: "add_days cur 1 = Inr (cur + 1)"
      using True "1.prems" by (simp add: add_days_def MIN_ORDINAL_def)
    have "\<exists>st'. scan_loop P c lat lon pc (cur + 1) end_dt (scan_day P c lat lon pc cur st) = Inr st'"
      using "1.IH" [OF True refl nxt] "1.prems" by simp
    then show ?thesis using True nxt by (subst scan_loop.simps) (simp add: Let_def)
  qed
qed


lemma lunation_days_concat:
  "concat (map (\<lambda>dt. detect_lunations_and_eclipses P dt lat lon []) ds) =
   map (\<lambda>dt. hd (detect_lunations_and_eclipses P dt lat lon [])) (filter (in_lunation_window P) ds)"
proof (induction ds)
  case Nil
  then show ?case by simp
next
  case (Cons d ds)
  have "detect_lunations_and_eclipses P d lat lon [] =
     (if in_lunation_window P d then [hd (detect_lunations_and_eclipses P d lat lon [])] else [])"
    using detect_lunations_day [of P d lat lon] by blast
  then show ?case using Cons.IH by (cases "in_lunation_window P d") simp_all
qed

lemma lunation_days_dates:
  "map ev_date (map (\<lambda>dt. hd (detect_lunations_and_eclipses P dt lat lon []))
     (filter (in_lunation_window P) ds)) =
   map (strftime_ymd P) (filter (in_lunation_window P) ds)"
  using detect_lunations_day by (induction ds) auto

text \<open>
  C2. Let the start and end dates parse, with the start not before the end, the day before
  the start and the day after the end inside the range of dates. Then \<open>scan_period\<close>
  returns, and its LUNATION and ECLIPSE events match the days of the range that are in a
  lunation window one to one: each such day gives exactly one event, dated that day. So
  a range (of 31 days or any other length) with exactly one day in a window yields
  exactly one event of type LUNATION or ECLIPSE, never both. On any single day the
  detector appends at most one event; it is an ECLIPSE when the eclipse search started
  one day earlier returns a date within one day of the scanned day, and a LUNATION
  otherwise.
\<close>

theorem scan_period_lunations:
  assumes a: "strptime_ymd P start_date = Some a" and b: "strptime_ymd P end_date = Some b"
    and lo: "MIN_ORDINAL < a" and ab: "a \<le> b" and hi: "b < MAX_ORDINAL"
  shows "\<exists>evs. scan_period P speeds0 c start_date end_date lat lon pc = Inr evs \<and>
      mset (map ev_date (filter is_lunation_or_eclipse evs)) =
        mset (map (strftime_ymd P) (filter (in_lunation_window P) [a..b])) \<and>
      (\<forall>d. filter (in_lunation_window P) [a..b] = [d] \<longrightarrow>
         (\<exists>e. filter is_lunation_or_eclipse evs = [e] \<and> ev_date e = strftime_ymd P d \<and>
              ev_type e = (if eclipse_confirmed P d lat lon then ''ECLIPSE'' else ''LUNATION''))) \<and>
      (\<forall>dt events. \<exists>new.
         detect_lunations_and_eclipses P dt lat lon events = events @ new \<and> length new \<le> 1 \<and>
         (new \<noteq> [] \<longleftrightarrow> in_lunation_window P dt) \<and>
         (\<forall>e \<in> set new. ev_date e = strftime_ymd P dt \<and>
            ev_type e = (if eclipse_confirmed P dt lat lon then ''ECLIPSE'' else ''LUNATION'')))"
proof -
  let ?day = "\<lambda>dt. detect_lunations_and_eclipses P dt lat lon []"
  let ?key = "\<lambda>x. (ev_date x, ev_type x)"
  define st0 where "st0 = \<lparr>events_of = [],
      prev_speeds = init_speeds P (datetime_to_jd P (a - 1)) speeds0,
      prev_signs = init_signs P (datetime_to_jd P (a - 1))\<rparr>"
  have init: "add_days a (- 1) = Inr (a - 1)"
    using lo ab hi by (simp add: add_days_def)
  obtain st' where st': "scan_loop P c lat lon pc a b st0 = Inr st'"
    using scan_loop_returns [of a b P c lat lon pc st0] lo hi by auto
  define evs where "evs = sort_key ?key (events_of st')"
  have res: "scan_period P speeds0 c start_date end_date lat lon pc = Inr evs"
    using a b init st' by (simp add: scan_period_def Let_def st0_def evs_def)
  have raw: "filter is_lunation_or_eclipse (events_of st') =
      map (\<lambda>dt. hd (?day dt)) (filter (in_lunation_window P) [a..b])"
    using scan_loop_lunations [OF st'] lunation_days_concat [of P lat lon "[a..b]"]
    by (simp add: st0_def)
  have flt: "filter is_lunation_or_eclipse evs =
      sort_key ?key (map (\<lambda>dt. hd (?day dt)) (filter (in_lunation_window P) [a..b]))"
    using raw by (simp add: evs_def filter_sort)
  have "mset (map ev_date (filter is_lunation_or_eclipse evs)) =
      mset (map ev_date (map (\<lambda>dt. hd (?day dt)) (filter (in_lunation_window P) [a..b])))"
    unfolding flt by (simp only: mset_map mset_sort)
  then have dates: "mset (map ev_date (filter is_lunation_or_eclipse evs)) =
        mset (map (strftime_ymd P) (filter (in_lunation_window P) [a..b]))"
    by (simp only: lunation_days_dates)
  have single: "\<forall>d. filter (in_lunation_window P) [a..b] = [d] \<longrightarrow>
         (\<exists>e. filter is_lunation_or_eclipse evs = [e] \<and> ev_date e = strftime_ymd P d \<and>
              ev_type e = (if eclipse_confirmed P d lat lon then ''ECLIPSE'' else ''LUNATION''))"
  proof (intro allI impI)
    fix d
    assume one: "filter (in_lunation_window P) [a..b] = [d]"
    then have "d \<in> set (filter (in_lunation_window P) [a..b])" by simp
    then have w: "in_lunation_window P d" by simp
    have e1: "filter is_lunation_or_eclipse evs = [hd (?day d)]" using flt one by simp
    have e2: "ev_date (hd (?day d)) = strftime_ymd P d \<and>
        ev_type (hd (?day d)) = (if eclipse_confirmed P d lat lon then ''ECLIPSE'' else ''LUNATION'')"
      using detect_lunations_day [of P d lat lon] w by blast
    show "\<exists>e. filter is_lunation_or_eclipse evs = [e] \<and> ev_date e = strftime_ymd P d \<and>
              ev_type e = (if eclipse_confirmed P d lat lon then ''ECLIPSE'' else ''LUNATION'')"
      using e1 e2 by blast
  qed
  have daily: "\<forall>dt events. \<exists>new.
         detect_lunations_and_eclipses P dt lat lon events = events @ new \<and> length new \<le> 1 \<and>
         (new \<noteq> [] \<longleftrightarrow> in_lunation_window P dt) \<and>
         (\<forall>e \<in> set new. ev_date e = strftime_ymd P dt \<and>
            ev_type e = (if eclipse_confirmed P dt lat lon then ''ECLIPSE'' else ''LUNATION''))"
  proof (intro allI)
    fix dt events
    have d: "?day dt = (if in_lunation_window P dt then [hd (?day dt)] else [])"
      using detect_lunations_day [of P dt lat lon] by blast
    have "detect_lunations_and_eclipses P dt lat lon events = events @ ?day dt"
      by (rule detect_lunations_append)
    moreover have "length (?day dt) \<le> 1" by (subst d) simp
    moreover have "?day dt \<noteq> [] \<longleftrightarrow> in_lunation_window P dt" by (subst d) simp
    moreover have "\<forall>e \<in> set (?day dt). ev_date e = strftime_ymd P dt \<and>
            ev_type e = (if eclipse_confirmed P dt lat lon then ''ECLIPSE'' else ''LUNATION'')"
    proof (cases "in_lunation_window P dt")
      case True
      then have "set (?day dt) = {hd (?day dt)}" by (subst d) simp
      then show ?thesis using detect_lunations_day [of P dt lat lon] True by simp
    next
      case False
      then have "?day dt = []" by (subst d) simp
      then show ?thesis by simp
    qed
    ultimately show "\<exists>new.
         detect_lunations_and_eclipses P dt lat lon events = events @ new \<and> length new \<le> 1 \<and>
         (new \<noteq> [] \<longleftrightarrow> in_lunation_window P dt) \<and>
         (\<forall>e \<in> set new. ev_date e = strftime_ymd P dt \<and>
            ev_type e = (if eclipse_confirmed P dt lat lon then ''ECLIPSE'' else ''LUNATION''))"
      by blast
  qed
  show ?thesis using res dates single daily by blast
qed


lemma demo_strptime_jan:
  "strptime_ymd demo_platform ''2024-01-01'' = Some 738886"
  "strptime_ymd demo_platform ''2024-01-31'' = Some 738916"
  by (simp_all add: demo_platform_def demo_strptime_def parse_date_def replace_char_def int_at_def
      py_int_def py_strip_def py_isspace_def parse_digits_def is_digit_def digit_value_def)

lemma demo_window_jan:
  "filter (in_lunation_window demo_platform) [738886..738916] = [738896]"
  by (simp add: upto.simps in_lunation_window_def sun_moon_separation_def demo_eval)

lemma demo_eclipse_jan: "eclipse_confirmed demo_platform 738896 lat lon"
  by (simp add: eclipse_confirmed_def eclipse_near_def sun_moon_separation_def demo_eval)

text \<open>
  January 2024 on the synthetic platform: the 11th is the only day in a window, and the
  solar eclipse search confirms it.
\<close>

theorem scan_period_lunations_witness:
  "\<exists>evs e. scan_period demo_platform Map.empty three_body_chart ''2024-01-01'' ''2024-01-31''
              0 0 None = Inr evs \<and>
     filter is_lunation_or_eclipse evs = [e] \<and> ev_date e = ''2024-01-11'' \<and>
     ev_type e = ''ECLIPSE''"
proof -
  have rng: "MIN_ORDINAL < 738886" "(738886 :: int) \<le> 738916" "738916 < MAX_ORDINAL"
    by (simp_all add: MIN_ORDINAL_def MAX_ORDINAL_def)
  have f: "strftime_ymd demo_platform 738896 = ''2024-01-11''"
    by (simp add: demo_platform_def fmt_02d_def str_int_def digit_char_def)
  show ?thesis
    using scan_period_lunations [OF demo_strptime_jan rng, of Map.empty three_body_chart 0 0 None]
      demo_window_jan demo_eclipse_jan [of 0 0] f
    by auto
qed

section \<open>The house field of TRANSIT events\<close>

lemma calculate_chart_no_angle_houses:
  assumes "calculate_chart P date time lat lon = Inr c"
  shows "no_angle_houses c"
proof -
  obtain dt tzs where u: "datetime_to_utc P date time lat lon = Inr (dt, tzs)"
    using assms by (auto simp: calculate_chart_def split: sum.splits)
  obtain hc ad where h: "calculate_houses P (datetime_to_julian_day P dt) lat lon = Inr (hc, ad)"
    and c: "angles c = Some ad"
    using assms u by (auto simp: calculate_chart_def Let_def split: sum.splits)
  have "angles_houses ad = None"
    using h by (auto simp: calculate_houses_def Let_def split: option.splits if_splits)
  then show ?thesis using c by (simp add: no_angle_houses_def)
qed

lemma find_house_unknown:
  "no_angle_houses c \<Longrightarrow> find_house_for_position lng c = ''Unknown''"
  by (auto simp: no_angle_houses_def find_house_for_position_def split: option.splits)

lemma transit_events_append [simp]:
  "transit_events (xs @ ys) = transit_events xs @ transit_events ys"
  by (simp add: transit_events_def)

lemma retrograde_step_transits:
  "transit_events (fst (retrograde_step P dt pl st)) = transit_events (fst st)"
proof (cases "get_planet_position P (datetime_to_jd P dt) (snd pl)")
  case (Inl e)
  then show ?thesis by (simp add: retrograde_step_def)
next
  case (Inr r)
  obtain lng spd where r: "r = (lng, spd)" by (cases r)
  show ?thesis
  proof (cases "snd st (fst pl)")
    case None
    then show ?thesis using Inr r by (simp add: retrograde_step_def)
  next
    case (Some prev_speed)
    then show ?thesis
      using Inr r by (simp add: retrograde_step_def Let_def) (simp add: transit_events_def)
  qed
qed

lemma detect_retrograde_transits:
  "transit_events (fst (detect_retrograde_stations P dt st)) = transit_events (fst st)"
proof -
  have "transit_events (fst (fold (retrograde_step P dt) pls st)) = transit_events (fst st)" for pls
    by (induction pls arbitrary: st) (simp_all add: retrograde_step_transits)
  then show ?thesis by (simp add: detect_retrograde_stations_def)
qed

lemma detect_lunations_transits:
  "transit_events (detect_lunations_and_eclipses P dt lat lon events) = transit_events events"
  by (simp add: detect_lunations_and_eclipses_def Let_def split: sum.splits prod.splits)
     (simp add: transit_events_def)

lemma ingress_step_transits:
  "transit_events (fst (ingress_step P dt pl st)) = transit_events (fst st)"
  by (cases "get_planet_position P (datetime_to_jd P dt) (snd pl)")
     (auto simp: ingress_step_def Let_def transit_events_def split: prod.splits)

lemma fold_ingress_transits:
  "transit_events (fst (fold (ingress_step P dt) pls st)) = transit_events (fst st)"
  by (induction pls arbitrary: st) (simp_all add: ingress_step_transits)

text \<open>The transit loops only append, and what they append are TRANSIT events.\<close>

lemma transit_targets_append:
  "transit_targets P dt c tg nm tlong ptlong targets events =
   events @ transit_targets P dt c tg nm tlong ptlong targets []"
proof (induction targets arbitrary: events)
  case Nil
  then show ?case by simp
next
  case (Cons t targets)
  show ?case
  proof (cases "map_of (case planets c of None \<Rightarrow> [] | Some ps \<Rightarrow> ps) t")
    case None
    then show ?thesis using Cons.IH [of events] by simp
  next
    case (Some pd)
    note pd = this
    show ?thesis
    proof (cases "longitude pd")
      case None
      then show ?thesis using pd by simp
    next
      case (Some natal_long)
      note nl = this
      show ?thesis
      proof (cases "calculate_aspect_exact tlong natal_long (Some ptlong)")
        case None
        then show ?thesis using pd nl Cons.IH [of events] by simp
      next
        case (Some info)
        let ?ev = "Transit (strftime_ymd P dt) tg nm t (info_aspect info) (angle_deg info)
            (py_round_n (info_orb info) 2) (is_applying info) (dms_str (decimal_to_dms tlong))
            (dms_str (decimal_to_dms natal_long)) (find_house_for_position tlong c)
            (''Transit '' @ nm @ '' '' @ info_aspect info @ '' NATAL '' @ t @ '' (House ''
               @ find_house_for_position tlong c @ '')'')"
        have l: "transit_targets P dt c tg nm tlong ptlong (t # targets) events =
            transit_targets P dt c tg nm tlong ptlong targets (events @ [?ev])"
          using pd nl Some by (simp add: Let_def)
        have r: "transit_targets P dt c tg nm tlong ptlong (t # targets) [] =
            transit_targets P dt c tg nm tlong ptlong targets [?ev]"
          using pd nl Some by (simp add: Let_def)
        show ?thesis
          unfolding l r using Cons.IH [of "events @ [?ev]"] Cons.IH [of "[?ev]"] by simp
      qed
    qed
  qed
qed

lemma transit_targets_new:
  "\<forall>e \<in> set (transit_targets P dt c tg nm tlong ptlong targets []).
     ev_type e = ''TRANSIT'' \<and> ev_house_impact e = find_house_for_position tlong c"
proof (induction targets)
  case Nil
  then show ?case by simp
next
  case (Cons t targets)
  show ?case
  proof (cases "map_of (case planets c of None \<Rightarrow> [] | Some ps \<Rightarrow> ps) t")
    case None
    then show ?thesis using Cons.IH by simp
  next
    case (Some pd)
    note pd = this
    show ?thesis
    proof (cases "longitude pd")
      case None
      then show ?thesis using pd by simp
    next
      case (Some natal_long)
      note nl = this
      show ?thesis
      proof (cases "calculate_aspect_exact tlong natal_long (Some ptlong)")
        case None
        then show ?thesis using pd nl Cons.IH by simp
      next
        case (Some info)
        let ?ev = "Transit (strftime_ymd P dt) tg nm t (info_aspect info) (angle_deg info)
            (py_round_n (info_orb info) 2) (is_applying info) (dms_str (decimal_to_dms tlong))
            (dms_str (decimal_to_dms natal_long)) (find_house_for_position tlong c)
            (''Transit '' @ nm @ '' '' @ info_aspect info @ '' NATAL '' @ t @ '' (House ''
               @ find_house_for_position tlong c @ '')'')"
        have r: "transit_targets P dt c tg nm tlong ptlong (t # targets) [] =
            [?ev] @ transit_targets P dt c tg nm tlong ptlong targets []"
          using pd nl Some transit_targets_append [of P dt c tg nm tlong ptlong targets "[?ev]"]
          by (simp add: Let_def)
        show ?thesis unfolding r using Cons.IH by simp
      qed
    qed
  qed
qed

lemma transit_step_append:
  "transit_step P dt c tg pl events = events @ transit_step P dt c tg pl []"
  using transit_targets_append [of P dt c tg "fst pl" _ _ natal_targets events]
  by (simp add: transit_step_def Let_def split: sum.splits prod.splits)

lemma transit_step_new:
  "\<forall>e \<in> set (transit_step P dt c tg pl []).
     ev_type e = ''TRANSIT'' \<and> (\<exists>lng. ev_house_impact e = find_house_for_position lng c)"
  using transit_targets_new [of P dt c tg "fst pl" _ _ natal_targets]
  by (simp add: transit_step_def Let_def split: sum.splits prod.splits) blast

lemma fold_transit_step_append:
  "fold (transit_step P dt c tg) pls events =
   events @ concat (map (\<lambda>pl. transit_step P dt c tg pl []) pls)"
proof (induction pls arbitrary: events)
  case Nil
  then show ?case by simp
next
  case (Cons pl pls)
  show ?case
    using Cons.IH [of "transit_step P dt c tg pl events"] transit_step_append [of P dt c tg pl events]
    by simp
qed

lemma detect_transits_append:
  "detect_transits_to_natal P dt c events tg =
   events @ concat (map (\<lambda>pl. transit_step P dt c tg pl []) TRANSIT_PLANETS)"
  by (simp add: detect_transits_to_natal_def fold_transit_step_append)

lemma detect_transits_new:
  "\<forall>e \<in> set (concat (map (\<lambda>pl. transit_step P dt c tg pl []) TRANSIT_PLANETS)).
     ev_type e = ''TRANSIT'' \<and> (\<exists>lng. ev_house_impact e = find_house_for_position lng c)"
  using transit_step_new by fastforce


lemma scan_day_events:
  "\<exists>ev3. transit_events ev3 = transit_events (events_of st) \<and>
     events_of (scan_day P c lat lon pc dt st) =
       ev3 @ concat (map (\<lambda>pl. transit_step P dt c ''User'' pl []) TRANSIT_PLANETS)
           @ (case pc of
                None \<Rightarrow> []
              | Some p \<Rightarrow> concat (map (\<lambda>pl. transit_step P dt p ''Partner'' pl []) TRANSIT_PLANETS))"
proof -
  obtain ev1 speeds where r: "detect_retrograde_stations P dt (events_of st, prev_speeds st) = (ev1, speeds)"
    by (cases "detect_retrograde_stations P dt (events_of st, prev_speeds st)")
  let ?ev2 = "detect_lunations_and_eclipses P dt lat lon ev1"
  obtain ev3 sgns where i: "fold (ingress_step P dt) INGRESS_PLANETS (?ev2, prev_signs st) = (ev3, sgns)"
    by (cases "fold (ingress_step P dt) INGRESS_PLANETS (?ev2, prev_signs st)")
  have f1: "transit_events ev1 = transit_events (events_of st)"
    using detect_retrograde_transits [of P dt "(events_of st, prev_speeds st)"] r by simp
  have f3: "transit_events ev3 = transit_events ?ev2"
    using fold_ingress_transits [of P dt INGRESS_PLANETS "(?ev2, prev_signs st)"] i by simp
  have t: "transit_events ev3 = transit_events (events_of st)"
    using f1 f3 detect_lunations_transits [of P dt lat lon ev1] by simp
  have "events_of (scan_day P c lat lon pc dt st) =
       ev3 @ concat (map (\<lambda>pl. transit_step P dt c ''User'' pl []) TRANSIT_PLANETS)
           @ (case pc of
                None \<Rightarrow> []
              | Some p \<Rightarrow> concat (map (\<lambda>pl. transit_step P dt p ''Partner'' pl []) TRANSIT_PLANETS))"
  proof (cases pc)
    case None
    then show ?thesis
      using r i detect_transits_append [of P dt c ev3 "''User''"]
      by (simp add: scan_day_def Let_def)
  next
    case (Some p)
    then show ?thesis
      using r i detect_transits_append [of P dt c ev3 "''User''"]
        detect_transits_append [of P dt p "detect_transits_to_natal P dt c ev3 ''User''" "''Partner''"]
      by (simp add: scan_day_def Let_def)
  qed
  then show ?thesis using t by blast
qed

lemma transit_events_unknown_new:
  assumes "no_angle_houses c"
  shows "\<forall>e \<in> set (concat (map (\<lambda>pl. transit_step P dt c tg pl []) TRANSIT_PLANETS)).
           ev_house_impact e = ''Unknown''"
  using detect_transits_new [of P dt c tg] find_house_unknown [OF assms] by auto

lemma scan_day_unknown:
  assumes c: "no_angle_houses c" and pc: "case pc of None \<Rightarrow> True | Some p \<Rightarrow> no_angle_houses p"
    and inv: "\<forall>e \<in> set (transit_events (events_of st)). ev_house_impact e = ''Unknown''"
  shows "\<forall>e \<in> set (transit_events (events_of (scan_day P c lat lon pc dt st))).
           ev_house_impact e = ''Unknown''"
proof -
  obtain ev3 where t: "transit_events ev3 = transit_events (events_of st)"
    and ev: "events_of (scan_day P c lat lon pc dt st) =
       ev3 @ concat (map (\<lambda>pl. transit_step P dt c ''User'' pl []) TRANSIT_PLANETS)
           @ (case pc of
                None \<Rightarrow> []
              | Some p \<Rightarrow> concat (map (\<lambda>pl. transit_step P dt p ''Partner'' pl []) TRANSIT_PLANETS))"
    using scan_day_events [of st P c lat lon pc dt] by blast
  have u: "\<forall>e \<in> set (concat (map (\<lambda>pl. transit_step P dt c ''User'' pl []) TRANSIT_PLANETS)).
           ev_house_impact e = ''Unknown''"
    by (rule transit_events_unknown_new [OF c])
  have p: "\<forall>e \<in> set (case pc of
                None \<Rightarrow> []
              | Some p \<Rightarrow> concat (map (\<lambda>pl. transit_step P dt p ''Partner'' pl []) TRANSIT_PLANETS)).
           ev_house_impact e = ''Unknown''"
  proof (cases pc)
    case None
    then show ?thesis by simp
  next
    case (Some q)
    then have "no_angle_houses q" using pc by simp
    then show ?thesis using Some transit_events_unknown_new [of q P dt "''Partner''"] by simp
  qed
  have "set (transit_events (events_of (scan_day P c lat lon pc dt st))) \<subseteq>
      set (transit_events (events_of st))
      \<union> set (concat (map (\<lambda>pl. transit_step P dt c ''User'' pl []) TRANSIT_PLANETS))
      \<union> set (case pc of
                None \<Rightarrow> []
              | Some p \<Rightarrow> concat (map (\<lambda>pl. transit_step P dt p ''Partner'' pl []) TRANSIT_PLANETS))"
    unfolding ev transit_events_append t [symmetric] by (auto simp: transit_events_def)
  then show ?thesis using inv u p by blast
qed

lemma scan_loop_unknown:
  assumes c: "no_angle_houses c" and pc: "case pc of None \<Rightarrow> True | Some p \<Rightarrow> no_angle_houses p"
  shows "scan_loop P c lat lon pc cur end_dt st = Inr st' \<Longrightarrow>
     \<forall>e \<in> set (transit_events (events_of st)). ev_house_impact e = ''Unknown'' \<Longrightarrow>
     \<forall>e \<in> set (transit_events (events_of st')). ev_house_impact e = ''Unknown''"
  using c pc
proof (induction P c lat lon pc cur end_dt st rule: scan_loop.induct)
  case (1 P c lat lon pc cur end_dt st)
  show ?case
  proof (cases "cur \<le> end_dt")
    case False
    then have "st' = st" using "1.prems"(1) by (subst (asm) scan_loop.simps) simp
    then show ?thesis using "1.prems"(2) by simp
  next
    case True
    let ?st1 = "scan_day P c lat lon pc cur st"
    from "1.prems"(1) True obtain nxt where nxt: "add_days cur 1 = Inr nxt"
      and rec: "scan_loop P c lat lon pc nxt end_dt ?st1 = Inr st'"
      by (subst (asm) scan_loop.simps) (auto simp: Let_def split: sum.splits)
    have "\<forall>e \<in> set (transit_events (events_of ?st1)). ev_house_impact e = ''Unknown''"
      by (rule scan_day_unknown [OF "1.prems"(3) "1.prems"(4) "1.prems"(2)])
    then show ?thesis using "1.IH" [OF True refl nxt rec _ "1.prems"(3) "1.prems"(4)] by blast
  qed
qed

text \<open>
  For every platform: when the natal chart (and the partner's chart, if any) has no cusps
  under \<open>angles\<close>, as every chart built by \<open>calculate_chart\<close>, each TRANSIT event
  of \<open>scan_period\<close> carries the house \<open>Unknown\<close>.
\<close>

lemma scan_period_house_impact_unknown:
  assumes c: "no_angle_houses c" and pc: "case pc of None \<Rightarrow> True | Some p \<Rightarrow> no_angle_houses p"
    and res: "scan_period P speeds0 c start_date end_date lat lon pc = Inr evs"
  shows "\<forall>e \<in> set (transit_events evs). ev_house_impact e = ''Unknown''"
proof -
  obtain a where a: "strptime_ymd P start_date = Some a"
    using res by (cases "strptime_ymd P start_date") (simp_all add: scan_period_def)
  obtain b where b: "strptime_ymd P end_date = Some b"
    using res a by (cases "strptime_ymd P end_date") (simp_all add: scan_period_def)
  obtain i where i: "add_days a (- 1) = Inr i"
    using res a b by (cases "add_days a (- 1)") (simp_all add: scan_period_def)
  define st0 where "st0 = \<lparr>events_of = [],
      prev_speeds = init_speeds P (datetime_to_jd P i) speeds0,
      prev_signs = init_signs P (datetime_to_jd P i)\<rparr>"
  obtain st' where loop: "scan_loop P c lat lon pc a b st0 = Inr st'"
    using res a b i
    by (cases "scan_loop P c lat lon pc a b st0") (simp_all add: scan_period_def Let_def st0_def)
  have st0: "events_of st0 = []" by (simp add: st0_def)
  have evs: "evs = sort_key (\<lambda>x. (ev_date x, ev_type x)) (events_of st')"
    using res a b i loop by (simp add: scan_period_def Let_def st0_def)
  have "\<forall>e \<in> set (transit_events (events_of st')). ev_house_impact e = ''Unknown''"
    using scan_loop_unknown [OF c pc loop] st0 by (simp add: transit_events_def)
  then show ?thesis using evs by (simp add: transit_events_def)
qed


lemmas parse_eval = parse_date_def parse_time_def replace_char_def int_at_def
  py_int_def py_strip_def py_isspace_def parse_digits_def is_digit_def digit_value_def

lemmas dms_eval = decimal_to_dms_def py_trunc_def py_mod_def py_round_def signs_def str_int_def
  fmt_02d_def digit_char_def Let_def

lemma demo_utc:
  "datetime_to_utc demo_platform ''1990-01-01'' ''12:00:00'' lat lon =
     Inr (\<lparr>year = 1990, month = 1, day = 1, hour = 12, minute = 0, second = 0\<rparr>, ''UTC'')"
  by (simp add: datetime_to_utc_def parse_eval datetime_new_def days_in_month_def demo_platform_def)

lemma demo_houses_of_cusps:
  "houses_of_cusps [10, 40, 70, 100, 130, 160, 190, 220, 250, 280, 310, 350] = wrap_cusps"
  by (simp add: houses_of_cusps_def wrap_cusps_def cusps_of_list_def)

lemma demo_dms:
  "dms_str (decimal_to_dms 10) = ''Aries 10'' @ [CHR 0xB0] @ ''00'' @ [CHR 39]"
  "dms_str (decimal_to_dms 280) = ''Capricorn 10'' @ [CHR 0xB0] @ ''00'' @ [CHR 39]"
  "dms_sign (decimal_to_dms 10) = ''Aries''"
  "dms_sign (decimal_to_dms 280) = ''Capricorn''"
  "dms_str (decimal_to_dms (507 / 5)) = ''Cancer 11'' @ [CHR 0xB0] @ ''24'' @ [CHR 39]"
  "dms_str (decimal_to_dms 281) = ''Capricorn 11'' @ [CHR 0xB0] @ ''00'' @ [CHR 39]"
  by (simp_all add: dms_eval)

lemma demo_swe_houses:
  "swe_houses demo_platform jd lat lon =
     Some ([10, 40, 70, 100, 130, 160, 190, 220, 250, 280, 310, 350], [10, 280])"
  by (simp add: demo_platform_def)

lemma demo_houses:
  "calculate_houses demo_platform jd lat lon =
     Inr (wrap_cusps,
       \<lparr>Ascendant = Some 10, MC = Some 280,
        Ascendant_formatted = ''Aries 10'' @ [CHR 0xB0] @ ''00'' @ [CHR 39],
        MC_formatted = ''Capricorn 10'' @ [CHR 0xB0] @ ''00'' @ [CHR 39],
        Ascendant_sign = ''Aries'', MC_sign = ''Capricorn'', angles_houses = None\<rparr>)"
  by (simp add: calculate_houses_def demo_houses_of_cusps demo_dms demo_swe_houses Let_def)

lemma demo_chart_built:
  "calculate_chart demo_platform ''1990-01-01'' ''12:00:00'' (426977 / 10000) (233219 / 10000) =
     Inr demo_natal_chart"
  by (simp add: demo_natal_chart_def calculate_chart_def demo_utc demo_houses Let_def)

lemma demo_jd:
  "datetime_to_julian_day demo_platform
     \<lparr>year = 1990, month = 1, day = 1, hour = 12, minute = 0, second = 0\<rparr> = 3 / 2"
  by (simp add: datetime_to_julian_day_def demo_platform_def)

lemma demo_chart_fields:
  "houses demo_natal_chart = Some wrap_cusps"
  "planets demo_natal_chart =
     Some (map (\<lambda>en. (fst en, with_house wrap_cusps (snd en)))
            (map (\<lambda>pl. (fst pl, planet_entry demo_platform (3 / 2) (snd pl))) PLANETS))"
  by (simp_all add: demo_natal_chart_def calculate_chart_def demo_utc demo_houses demo_jd Let_def)


lemma demo_natal_sun:
  "\<exists>pd. map_of (case planets demo_natal_chart of None \<Rightarrow> [] | Some ps \<Rightarrow> ps) ''Sun'' = Some pd \<and>
        longitude pd = Some 281"
  by (simp add: demo_chart_fields PLANETS_def planet_entry_def calculate_planet_position_def
      demo_platform_def demo_longitude_def with_house_def Let_def)

lemma demo_mars_positions:
  "get_planet_position demo_platform (datetime_to_jd demo_platform 738887) Mars = Inr (507 / 5, 7 / 10)"
  "get_planet_position demo_platform (datetime_to_jd demo_platform 738887 - 1) Mars = Inr (1007 / 10, 7 / 10)"
  by (simp_all add: demo_platform_def demo_longitude_def demo_speed_def datetime_to_jd_def
      get_planet_position_def)

lemma demo_mars_sun_aspect:
  "calculate_aspect_exact (507 / 5) 281 (Some (1007 / 10)) =
     Some \<lparr>info_aspect = ''Opposition'', angle_deg = 180, info_orb = 2 / 5, is_applying = False\<rparr>"
  by code_simp

lemma transit_targets_head:
  assumes "map_of (case planets c of None \<Rightarrow> [] | Some ps \<Rightarrow> ps) t = Some pd"
    and "longitude pd = Some natal_long"
    and "calculate_aspect_exact tlong natal_long (Some ptlong) = Some info"
  shows "Transit (strftime_ymd P dt) tg nm t (info_aspect info) (angle_deg info)
            (py_round_n (info_orb info) 2) (is_applying info) (dms_str (decimal_to_dms tlong))
            (dms_str (decimal_to_dms natal_long)) (find_house_for_position tlong c)
            (''Transit '' @ nm @ '' '' @ info_aspect info @ '' NATAL '' @ t @ '' (House ''
               @ find_house_for_position tlong c @ '')'')
         \<in> set (transit_targets P dt c tg nm tlong ptlong (t # targets) [])"
proof -
  let ?ev = "Transit (strftime_ymd P dt) tg nm t (info_aspect info) (angle_deg info)
            (py_round_n (info_orb info) 2) (is_applying info) (dms_str (decimal_to_dms tlong))
            (dms_str (decimal_to_dms natal_long)) (find_house_for_position tlong c)
            (''Transit '' @ nm @ '' '' @ info_aspect info @ '' NATAL '' @ t @ '' (House ''
               @ find_house_for_position tlong c @ '')'')"
  have "transit_targets P dt c tg nm tlong ptlong (t # targets) [] =
      [?ev] @ transit_targets P dt c tg nm tlong ptlong targets []"
    using assms transit_targets_append [of P dt c tg nm tlong ptlong targets "[?ev]"]
    by (simp add: Let_def)
  then show ?thesis by simp
qed

lemma scan_loop_single:
  assumes "add_days d 1 = Inr (d + 1)"
  shows "scan_loop P c lat lon pc d d st = Inr (scan_day P c lat lon pc d st)"
proof -
  have "scan_loop P c lat lon pc (d + 1) d (scan_day P c lat lon pc d st) =
      Inr (scan_day P c lat lon pc d st)"
    by (subst scan_loop.simps) simp
  then show ?thesis using assms by (subst scan_loop.simps) (simp add: Let_def)
qed

lemma demo_strptime_jan2: "strptime_ymd demo_platform ''2024-01-02'' = Some 738887"
  by (simp add: demo_platform_def demo_strptime_def parse_eval)

lemma demo_strftime_jan2: "strftime_ymd demo_platform 738887 = ''2024-01-02''"
  by (simp add: demo_platform_def fmt_02d_def str_int_def digit_char_def)

lemma demo_mars_sun_event:
  "Transit ''2024-01-02'' ''User'' ''Mars'' ''Sun'' ''Opposition'' 180 (2 / 5) False
     (''Cancer 11'' @ [CHR 0xB0] @ ''24'' @ [CHR 39])
     (''Capricorn 11'' @ [CHR 0xB0] @ ''00'' @ [CHR 39])
     ''Unknown'' ''Transit Mars Opposition NATAL Sun (House Unknown)''
   \<in> set (transit_step demo_platform 738887 demo_natal_chart ''User'' (''Mars'', Mars) [])"
proof -
  obtain pd where pd: "map_of (case planets demo_natal_chart of None \<Rightarrow> [] | Some ps \<Rightarrow> ps) ''Sun''
      = Some pd" "longitude pd = Some 281"
    using demo_natal_sun by blast
  have u: "find_house_for_position (507 / 5) demo_natal_chart = ''Unknown''"
    by (rule find_house_unknown [OF calculate_chart_no_angle_houses [OF demo_chart_built]])
  have r: "py_round_n (2 / 5) 2 = 2 / 5" by (simp add: py_round_n_def py_round_def)
  have tg: "natal_targets = ''Sun'' # tl natal_targets" by (simp add: natal_targets_def)
  have step: "transit_step demo_platform 738887 demo_natal_chart ''User'' (''Mars'', Mars) [] =
      transit_targets demo_platform 738887 demo_natal_chart ''User'' ''Mars'' (507 / 5)
           (1007 / 10) natal_targets []"
    using demo_mars_positions by (simp add: transit_step_def Let_def)
  let ?info = "\<lparr>info_aspect = ''Opposition'', angle_deg = 180, info_orb = 2 / 5, is_applying = False\<rparr>"
  let ?gen = "Transit (strftime_ymd demo_platform 738887) ''User'' ''Mars'' ''Sun''
      (info_aspect ?info) (angle_deg ?info) (py_round_n (info_orb ?info) 2) (is_applying ?info)
      (dms_str (decimal_to_dms (507 / 5))) (dms_str (decimal_to_dms 281))
      (find_house_for_position (507 / 5) demo_natal_chart)
      (''Transit '' @ ''Mars'' @ '' '' @ info_aspect ?info
         @ '' NATAL '' @ ''Sun'' @ '' (House '' @ find_house_for_position (507 / 5) demo_natal_chart @ '')'')"
  have mem0: "?gen \<in> set (transit_targets demo_platform 738887 demo_natal_chart ''User'' ''Mars''
           (507 / 5) (1007 / 10) (''Sun'' # tl natal_targets) [])"
    by (rule transit_targets_head [OF pd demo_mars_sun_aspect])
  have ev_eq: "?gen = Transit ''2024-01-02'' ''User'' ''Mars'' ''Sun'' ''Opposition'' 180 (2 / 5) False
     (''Cancer 11'' @ [CHR 0xB0] @ ''24'' @ [CHR 39])
     (''Capricorn 11'' @ [CHR 0xB0] @ ''00'' @ [CHR 39])
     ''Unknown'' ''Transit Mars Opposition NATAL Sun (House Unknown)''"
    by (simp add: u r demo_strftime_jan2 demo_dms)
  show ?thesis
    unfolding step by (subst tg) (use mem0 in \<open>simp only: ev_eq\<close>)
qed

text \<open>
  C1. The claim is that the house field of every TRANSIT event is the house that
  \<open>_get_planet_house\<close> assigns to the transiting longitude under the natal cusps.
  The code does not do this: \<open>_find_house_for_position\<close> looks for the cusps under
  \<open>angles\<close>, where \<open>calculate_chart\<close> never stores them. For the chart built
  for 1990-01-01 12:00:00 and a scan of 2024-01-02 on the synthetic platform, Mars at
  101.4 degrees opposes the natal Sun; the House Mapper puts 101.4 in house 4, the event
  carries \<open>Unknown\<close>, and so does every TRANSIT event of the scan.
\<close>

theorem transit_house_impact_is_unknown:
  "calculate_chart demo_platform ''1990-01-01'' ''12:00:00'' (426977 / 10000) (233219 / 10000) =
     Inr demo_natal_chart \<and>
   houses demo_natal_chart = Some wrap_cusps \<and>
   get_planet_house (Some (507 / 5)) wrap_cusps = Some 4 \<and>
   find_house_for_position (507 / 5) demo_natal_chart = ''Unknown'' \<and>
   (\<exists>evs. scan_period demo_platform Map.empty demo_natal_chart ''2024-01-02'' ''2024-01-02''
             (426977 / 10000) (233219 / 10000) None = Inr evs \<and>
      Transit ''2024-01-02'' ''User'' ''Mars'' ''Sun'' ''Opposition'' 180 (2 / 5) False
         (''Cancer 11'' @ [CHR 0xB0] @ ''24'' @ [CHR 39])
         (''Capricorn 11'' @ [CHR 0xB0] @ ''00'' @ [CHR 39])
         ''Unknown'' ''Transit Mars Opposition NATAL Sun (House Unknown)'' \<in> set evs \<and>
      list_all (\<lambda>e. ev_house_impact e = ''Unknown'') (transit_events evs))"
proof -
  let ?lat = "426977 / 10000 :: real" and ?lon = "233219 / 10000 :: real"
  let ?ev = "Transit ''2024-01-02'' ''User'' ''Mars'' ''Sun'' ''Opposition'' 180 (2 / 5) False
         (''Cancer 11'' @ [CHR 0xB0] @ ''24'' @ [CHR 39])
         (''Capricorn 11'' @ [CHR 0xB0] @ ''00'' @ [CHR 39])
         ''Unknown'' ''Transit Mars Opposition NATAL Sun (House Unknown)''"
  have nah: "no_angle_houses demo_natal_chart"
    by (rule calculate_chart_no_angle_houses [OF demo_chart_built])
  have mapper: "get_planet_house (Some (507 / 5)) wrap_cusps = Some 4"
    by (simp add: get_planet_house_def house_cusp_list_def List.map_filter_def py_mod_def
        in_house_def wrap_cusps_def cusp_eval)
  define st0 where "st0 = \<lparr>events_of = [],
      prev_speeds = init_speeds demo_platform (datetime_to_jd demo_platform 738886) Map.empty,
      prev_signs = init_signs demo_platform (datetime_to_jd demo_platform 738886)\<rparr>"
  define evs where "evs = sort_key (\<lambda>x. (ev_date x, ev_type x))
      (events_of (scan_day demo_platform demo_natal_chart ?lat ?lon None 738887 st0))"
  have d1: "add_days 738887 (- 1) = Inr 738886" "add_days 738887 1 = Inr (738887 + 1)"
    by (simp_all add: add_days_def MIN_ORDINAL_def MAX_ORDINAL_def)
  have res: "scan_period demo_platform Map.empty demo_natal_chart ''2024-01-02'' ''2024-01-02''
             ?lat ?lon None = Inr evs"
    using scan_loop_single [OF d1(2), of demo_platform demo_natal_chart ?lat ?lon None st0]
    by (simp add: scan_period_def demo_strptime_jan2 d1(1) Let_def st0_def evs_def)
  obtain ev3 where "events_of (scan_day demo_platform demo_natal_chart ?lat ?lon None 738887 st0) =
       ev3 @ concat (map (\<lambda>pl. transit_step demo_platform 738887 demo_natal_chart ''User'' pl [])
                      TRANSIT_PLANETS) @ []"
    using scan_day_events [of st0 demo_platform demo_natal_chart ?lat ?lon None 738887] by auto
  moreover have "(''Mars'', Mars) \<in> set TRANSIT_PLANETS" by (simp add: TRANSIT_PLANETS_def)
  ultimately have "?ev \<in> set (events_of (scan_day demo_platform demo_natal_chart ?lat ?lon None 738887 st0))"
    using demo_mars_sun_event by auto
  then have mem: "?ev \<in> set evs" by (simp add: evs_def)
  have unk: "list_all (\<lambda>e. ev_house_impact e = ''Unknown'') (transit_events evs)"
    using scan_period_house_impact_unknown [OF nah _ res] by (simp add: list_all_iff)
  show ?thesis
    using demo_chart_built demo_chart_fields(1) mapper find_house_unknown [OF nah] res mem unk
    by blast
qed

section \<open>Rejection of malformed dates and times\<close>










end
